(* ===== verification/Prelude.thy ===== *)
theory Prelude
  imports Complex_Main
begin

text \<open>
  Shared vocabulary of the OpsBeacon SDK model.
  \<^item> \<open>json\<close>: the Python values that \<open>json.loads\<close> produces and the client sends as
    request bodies (\<open>None\<close>, \<open>bool\<close>, \<open>int\<close>, \<open>str\<close>, \<open>list\<close>, \<open>dict\<close>); a dict is an
    association list in insertion order, as Python dicts iterate.
  \<^item> \<open>('s, 'e, 'a) exn\<close>: a computation on a state \<open>'s\<close> that returns a value or raises an
    exception \<open>'e\<close> (\<open>Inl\<close>), with \<open>ret\<close>, \<open>throw\<close>, \<open>bindE\<close> and \<open>catchE\<close>
    (Python's \<open>try/except\<close> with a class test).
  \<^item> string helpers used by several components: \<open>rstrip_char\<close> (\<open>str.rstrip(c)\<close>),
    \<open>lower_ascii\<close> (\<open>str.lower\<close>) and decimal printing of integers (\<open>str(n)\<close>).
\<close>

named_theorems monad_simps "equations that run the exception-state monad"
named_theorems preserves_intros "rules that prove a state predicate is kept by a computation"
named_theorems sends_intros "rules that bound the requests a computation sends"
named_theorems py_simps "evaluation of the Python data model on concrete values"

section \<open>JSON values as Python holds them\<close>

datatype json =
    JNull
  | JBool bool
  | JInt int
  | JStr string
  | JList "json list"
  | JObj "(string \<times> json) list"

type_synonym dict = "(string \<times> json) list"

section \<open>Computations that raise: the exception-state monad\<close>

type_synonym ('s, 'e, 'a) exn = "'s \<Rightarrow> ('e + 'a) \<times> 's"

definition ret :: "'a \<Rightarrow> ('s, 'e, 'a) exn" where
  "ret x = (\<lambda>s. (Inr x, s))"

definition throw :: "'e \<Rightarrow> ('s, 'e, 'a) exn" where
  "throw e = (\<lambda>s. (Inl e, s))"

definition liftE :: "'e + 'a \<Rightarrow> ('s, 'e, 'a) exn" where
  "liftE r = (\<lambda>s. (r, s))"

definition bindE :: "('s, 'e, 'a) exn \<Rightarrow> ('a \<Rightarrow> ('s, 'e, 'b) exn) \<Rightarrow> ('s, 'e, 'b) exn" where
  "bindE m f = (\<lambda>s. case m s of (Inl e, s') \<Rightarrow> (Inl e, s') | (Inr a, s') \<Rightarrow> f a s')"

text \<open>\<open>catchE m p h\<close> is \<open>try: m except P as e: h(e)\<close>, \<open>p\<close> deciding the class test.\<close>

definition catchE :: "('s, 'e, 'a) exn \<Rightarrow> ('e \<Rightarrow> bool) \<Rightarrow> ('e \<Rightarrow> ('s, 'e, 'a) exn) \<Rightarrow> ('s, 'e, 'a) exn" where
  "catchE m p h = (\<lambda>s. case m s of (Inl e, s') \<Rightarrow> (if p e then h e s' else (Inl e, s')) | r \<Rightarrow> r)"

text \<open>
  \<open>with\<close> with the body \<open>m\<close> and the manager's \<open>__exit__\<close> \<open>ex\<close>: \<open>ex\<close> gets the body's
  exception or \<open>None\<close>; an exception of \<open>ex\<close> replaces the outcome, and a true return of
  \<open>ex\<close> after an exception suppresses it (the block then ends without a value, \<open>None\<close>).
\<close>

definition withE :: "('s, 'e, 'a) exn \<Rightarrow> ('e option \<Rightarrow> ('s, 'e, bool) exn) \<Rightarrow> ('s, 'e, 'a option) exn" where
  "withE m ex = (\<lambda>s. case m s of
      (Inr x, s') \<Rightarrow> (case ex None s' of (Inl e, s'') \<Rightarrow> (Inl e, s'') | (Inr _, s'') \<Rightarrow> (Inr (Some x), s''))
    | (Inl e, s') \<Rightarrow> (case ex (Some e) s' of
                      (Inl e', s'') \<Rightarrow> (Inl e', s'')
                    | (Inr suppress, s'') \<Rightarrow> (if suppress then Inr None else Inl e, s'')))"

definition modifyE :: "('s \<Rightarrow> 's) \<Rightarrow> ('s, 'e, unit) exn" where
  "modifyE f = (\<lambda>s. (Inr (), f s))"

definition getsE :: "('s \<Rightarrow> 'a) \<Rightarrow> ('s, 'e, 'a) exn" where
  "getsE f = (\<lambda>s. (Inr (f s), s))"

text \<open>Sequencing of pure steps that may raise (Python statements without side effects).\<close>

definition bindR :: "'e + 'a \<Rightarrow> ('a \<Rightarrow> 'e + 'b) \<Rightarrow> 'e + 'b" where
  "bindR r f = (case r of Inl e \<Rightarrow> Inl e | Inr x \<Rightarrow> f x)"

text \<open>\<open>mapR f xs\<close> is a Python \<open>for\<close> loop that collects \<open>f x\<close> and stops at the first raise.\<close>

fun mapR :: "('a \<Rightarrow> 'e + 'b) \<Rightarrow> 'a list \<Rightarrow> 'e + 'b list" where
  "mapR f [] = Inr []"
| "mapR f (x # xs) = (case f x of Inl e \<Rightarrow> Inl e | Inr y \<Rightarrow> (case mapR f xs of Inl e \<Rightarrow> Inl e | Inr ys \<Rightarrow> Inr (y # ys)))"

text \<open>\<open>filterR p xs\<close> is a list comprehension \<open>[x for x in xs if p(x)]\<close> whose test may raise.\<close>

fun filterR :: "('a \<Rightarrow> 'e + bool) \<Rightarrow> 'a list \<Rightarrow> 'e + 'a list" where
  "filterR p [] = Inr []"
| "filterR p (x # xs) = (case p x of Inl e \<Rightarrow> Inl e
     | Inr b \<Rightarrow> (case filterR p xs of Inl e \<Rightarrow> Inl e | Inr ys \<Rightarrow> Inr (if b then x # ys else ys)))"

text \<open>
  \<open>preserves P m\<close>: the computation \<open>m\<close> keeps the state predicate \<open>P\<close>, whether it
  returns or raises. Invariants of the client's world are proved with the rules
  collected in \<open>preserves_intros\<close>, one per combinator.
\<close>

definition preserves :: "('s \<Rightarrow> bool) \<Rightarrow> ('s, 'e, 'a) exn \<Rightarrow> bool" where
  "preserves P m \<longleftrightarrow> (\<forall>s. P s \<longrightarrow> P (snd (m s)))"

section \<open>Strings\<close>

definition rstrip_char :: "char \<Rightarrow> string \<Rightarrow> string" where
  "rstrip_char c s = rev (dropWhile (\<lambda>x. x = c) (rev s))"

definition lower_char :: "char \<Rightarrow> char" where
  "lower_char c = (let n = of_char c :: nat in if 65 \<le> n \<and> n \<le> 90 then char_of (n + 32) else c)"

definition lower_ascii :: "string \<Rightarrow> string" where
  "lower_ascii s = map lower_char s"

fun nat_str :: "nat \<Rightarrow> string" where
  "nat_str n = (if n < 10 then [char_of (48 + n)] else nat_str (n div 10) @ [char_of (48 + n mod 10)])"

definition int_str :: "int \<Rightarrow> string" where
  "int_str i = (if i < 0 then CHR ''-'' # nat_str (nat (- i)) else nat_str (nat i))"

declare nat_str.simps [simp del]

section \<open>Lemmas on the monad\<close>

lemma ret_apply [simp, monad_simps]: "ret x s = (Inr x, s)"
  by (simp add: ret_def)

lemma throw_apply [simp, monad_simps]: "throw e s = (Inl e, s)"
  by (simp add: throw_def)

lemma liftE_apply [simp, monad_simps]: "liftE r s = (r, s)"
  by (simp add: liftE_def)

lemma modifyE_apply [simp, monad_simps]: "modifyE f s = (Inr (), f s)"
  by (simp add: modifyE_def)

lemma getsE_apply [simp, monad_simps]: "getsE f s = (Inr (f s), s)"
  by (simp add: getsE_def)

lemma bindE_apply [monad_simps]:
  "bindE m f s = (case m s of (Inl e, s') \<Rightarrow> (Inl e, s') | (Inr a, s') \<Rightarrow> f a s')"
  by (simp add: bindE_def)

lemma catchE_apply [monad_simps]:
  "catchE m p h s = (case m s of (Inl e, s') \<Rightarrow> (if p e then h e s' else (Inl e, s')) | r \<Rightarrow> r)"
  by (simp add: catchE_def)

lemma bindR_simps [simp]: "bindR (Inl e) f = Inl e" "bindR (Inr x) f = f x"
  by (simp_all add: bindR_def)

lemma bindR_Inr_iff: "bindR r f = Inr y \<longleftrightarrow> (\<exists>x. r = Inr x \<and> f x = Inr y)"
  by (cases r) simp_all

lemma bindE_Inr [simp]: "m s = (Inr a, s') \<Longrightarrow> bindE m f s = f a s'"
  by (simp add: bindE_def)

lemma bindE_Inl [simp]: "m s = (Inl e, s') \<Longrightarrow> bindE m f s = (Inl e, s')"
  by (simp add: bindE_def)

lemma bindE_ret [simp]: "bindE (ret x) f = f x"
  by (simp add: bindE_def ret_def)

lemma bindE_throw [simp]: "bindE (throw e) f = throw e"
  by (simp add: bindE_def throw_def fun_eq_iff)

lemma bindE_liftE_Inr [simp]: "bindE (liftE (Inr x)) f = f x"
  by (simp add: bindE_def liftE_def)

lemma bindE_liftE_Inl [simp]: "bindE (liftE (Inl e)) f = throw e"
  by (simp add: bindE_def liftE_def throw_def)

lemma catchE_Inr [simp]: "m s = (Inr a, s') \<Longrightarrow> catchE m p h s = (Inr a, s')"
  by (simp add: catchE_def)

lemma catchE_Inl [simp]: "m s = (Inl e, s') \<Longrightarrow> catchE m p h s = (if p e then h e s' else (Inl e, s'))"
  by (simp add: catchE_def)

text \<open>Pure steps and re-raising handlers do not change the state.\<close>

lemma snd_bindE_liftE [simp]: "snd (bindE m (\<lambda>x. liftE (f x)) s) = snd (m s)"
  by (simp add: bindE_def split: prod.splits sum.splits)

lemma snd_catchE_throw [simp]: "snd (catchE m p (\<lambda>e. throw (g e)) s) = snd (m s)"
  by (simp add: catchE_def split: prod.splits sum.splits)

lemma bindE_assoc: "bindE (bindE m f) g = bindE m (\<lambda>x. bindE (f x) g)"
  by (simp add: bindE_def fun_eq_iff split: prod.splits sum.splits)

lemma preserves_ret [preserves_intros]: "preserves P (ret x)"
  and preserves_throw [preserves_intros]: "preserves P (throw e)"
  and preserves_liftE [preserves_intros]: "preserves P (liftE r)"
  and preserves_getsE [preserves_intros]: "preserves P (getsE g)"
  by (simp_all add: preserves_def)

lemma preserves_modifyE [preserves_intros]: "(\<And>s. P s \<Longrightarrow> P (f s)) \<Longrightarrow> preserves P (modifyE f)"
  by (simp add: preserves_def)

lemma preserves_bindE [preserves_intros]:
  "preserves P m \<Longrightarrow> (\<And>x. preserves P (f x)) \<Longrightarrow> preserves P (bindE m f)"
  by (auto simp: preserves_def bindE_def split: prod.splits sum.splits)

lemma preserves_catchE [preserves_intros]:
  "preserves P m \<Longrightarrow> (\<And>e. preserves P (h e)) \<Longrightarrow> preserves P (catchE m p h)"
  by (auto simp: preserves_def catchE_def split: prod.splits sum.splits)

lemma preserves_if [preserves_intros]:
  "preserves P m1 \<Longrightarrow> preserves P m2 \<Longrightarrow> preserves P (if b then m1 else m2)"
  by simp

lemma preserves_case_sum [preserves_intros]:
  "(\<And>e. preserves P (f e)) \<Longrightarrow> (\<And>x. preserves P (g x)) \<Longrightarrow> preserves P (case_sum f g r)"
  by (cases r) simp_all

lemma preserves_case_option [preserves_intros]:
  "preserves P m \<Longrightarrow> (\<And>x. preserves P (g x)) \<Longrightarrow> preserves P (case_option m g r)"
  by (cases r) simp_all

lemma preserves_case_prod [preserves_intros]:
  "(\<And>a b. preserves P (f a b)) \<Longrightarrow> preserves P (case_prod f x)"
  by (cases x) simp

lemma preserves_Let [preserves_intros]:
  "(\<And>x. preserves P (f x)) \<Longrightarrow> preserves P (Let v f)"
  by simp

section \<open>Lemmas on the loops and strings\<close>

lemma mapR_map_Inr [simp]: "mapR (\<lambda>x. Inr (g x)) xs = Inr (map g xs)"
  by (induction xs) auto

lemma filterR_Inr [simp]: "filterR (\<lambda>x. Inr (P x)) xs = Inr (filter P xs)"
  by (induction xs) auto

lemma filterR_Inr_sub: "filterR p xs = Inr ys \<Longrightarrow> set ys \<subseteq> set xs"
  by (induction xs arbitrary: ys) (auto split: sum.splits if_splits)

lemma length_filterR: "filterR p xs = Inr ys \<Longrightarrow> length ys \<le> length xs"
  by (induction xs arbitrary: ys) (fastforce split: sum.splits if_splits)+

lemma rstrip_char_no_trailing: "rstrip_char c s = [] \<or> last (rstrip_char c s) \<noteq> c"
proof (cases "dropWhile (\<lambda>x. x = c) (rev s) = []")
  case True
  then show ?thesis by (simp add: rstrip_char_def)
next
  case False
  then have "hd (dropWhile (\<lambda>x. x = c) (rev s)) \<noteq> c"
    using hd_dropWhile by blast
  with False show ?thesis
    by (simp add: rstrip_char_def last_rev)
qed

lemma rstrip_char_append: "rstrip_char c (s @ [c]) = rstrip_char c s"
  by (simp add: rstrip_char_def)

lemma rstrip_char_prefix: "\<exists>n. s = rstrip_char c s @ replicate n c"
proof -
  let ?t = "takeWhile (\<lambda>x. x = c) (rev s)"
  have split: "rev s = ?t @ dropWhile (\<lambda>x. x = c) (rev s)" by simp
  have "\<forall>y \<in> set ?t. y = c" by (auto dest: set_takeWhileD)
  then have rep: "?t = replicate (length ?t) c"
    using replicate_length_same by metis
  have "s = rev (dropWhile (\<lambda>x. x = c) (rev s)) @ rev ?t"
    by (metis split rev_append rev_rev_ident)
  also have "\<dots> = rstrip_char c s @ replicate (length ?t) c"
    by (metis rep rev_replicate rstrip_char_def)
  finally show ?thesis by blast
qed

lemma lower_ascii_append [simp]: "lower_ascii (a @ b) = lower_ascii a @ lower_ascii b"
  by (simp add: lower_ascii_def)

lemma nat_str_nonempty: "nat_str n \<noteq> []"
  by (subst nat_str.simps) simp

lemma length_nat_str: "10 ^ j \<le> n \<Longrightarrow> n < 10 ^ Suc j \<Longrightarrow> length (nat_str n) = Suc j"
proof (induction j arbitrary: n)
  case 0
  then show ?case by (subst nat_str.simps) simp
next
  case (Suc j)
  have "10 ^ j \<le> n div 10" and "n div 10 < 10 ^ Suc j"
    using Suc.prems by simp_all
  moreover have "10 * 10 ^ j \<le> n" and "1 \<le> (10::nat) ^ j"
    using Suc.prems(1) by simp_all
  then have "\<not> n < 10" by linarith
  ultimately show ?case using Suc.IH by (subst nat_str.simps) simp
qed

end
