(* ===== verification/Exceptions.thy ===== *)
theory Exceptions
  imports Prelude
begin

text \<open>
  The exception hierarchy of \<open>src/opsbeacon/exceptions.py\<close>, as one datatype with a
  constructor per class and the constructor arguments the classes store, together with
  the Python and \<open>requests\<close> exceptions the client lets through or catches. The class
  hierarchy is kept as data (\<open>exc_class\<close>, \<open>class_ancestors\<close>), so that an
  \<open>except C\<close> clause is the test \<open>isinstance e C\<close>.
\<close>

section \<open>Exceptions raised by the libraries the client calls\<close>

text \<open>
  Failures of \<open>requests\<close>: \<open>ConnectTimeout\<close> is both a \<open>ConnectionError\<close> and a
  \<open>Timeout\<close>; \<open>ReadTimeout\<close> only a \<open>Timeout\<close>; \<open>HTTPError\<close> is what
  \<open>raise_for_status\<close> raises; \<open>JSONDecodeError\<close> is what \<open>Response.json()\<close> raises on a
  body that is not JSON (a \<open>ValueError\<close> and, since requests 2.27, a
  \<open>RequestException\<close>).
\<close>

datatype req_exc =
    ReqConnectionError string
  | ReqConnectTimeout string
  | ReqReadTimeout string
  | ReqHTTPError string
  | ReqJSONDecodeError string
  | ReqOtherError string

datatype py_exc =
    ValueError string
  | TypeError string
  | AttributeError string
  | KeyError string
  | IndexError string
  | Requests req_exc

section \<open>The SDK's exceptions\<close>

datatype error =
    AuthenticationError string
  | APIError string "int option" "string option"
  | ConnectionError string
  | TimeoutError string "real option"
  | ValidationError string "string option"
  | ResourceNotFoundError string string
  | RateLimitError string "int option"
  | CommandExecutionError string "string option" "string option"
  | FileOperationError string "string option" "string option"
  | MCPError string "string option"
  | Builtin py_exc

text \<open>Constructors called with their default arguments.\<close>

definition authentication_error_default :: error where
  "authentication_error_default = AuthenticationError ''Authentication failed. Check your API token.''"

definition connection_error_default :: error where
  "connection_error_default = ConnectionError ''Failed to connect to OpsBeacon API.''"

definition timeout_error :: "real option \<Rightarrow> error" where
  "timeout_error t = TimeoutError ''Request timed out.'' t"

definition rate_limit_error :: "int option \<Rightarrow> error" where
  "rate_limit_error r = RateLimitError ''Rate limit exceeded. Please retry later.'' r"

section \<open>The class hierarchy\<close>

datatype exc_class =
    COpsBeaconError | CAuthenticationError | CAPIError | CConnectionError | CTimeoutError
  | CValidationError | CResourceNotFoundError | CRateLimitError | CCommandExecutionError
  | CFileOperationError | CMCPError
  | CValueError | CTypeError | CAttributeError | CKeyError | CIndexError
  | CRequestException | CReqConnectionError | CReqTimeout | CReqHTTPError | CReqJSONDecodeError
  | CException

text \<open>The base classes of each class, nearest first, as the class statements declare them.\<close>

fun class_ancestors :: "exc_class \<Rightarrow> exc_class list" where
  "class_ancestors COpsBeaconError = [COpsBeaconError, CException]"
| "class_ancestors CAuthenticationError = [CAuthenticationError, COpsBeaconError, CException]"
| "class_ancestors CAPIError = [CAPIError, COpsBeaconError, CException]"
| "class_ancestors CConnectionError = [CConnectionError, COpsBeaconError, CException]"
| "class_ancestors CTimeoutError = [CTimeoutError, COpsBeaconError, CException]"
| "class_ancestors CValidationError = [CValidationError, COpsBeaconError, CException]"
| "class_ancestors CResourceNotFoundError = [CResourceNotFoundError, COpsBeaconError, CException]"
| "class_ancestors CRateLimitError = [CRateLimitError, CAPIError, COpsBeaconError, CException]"
| "class_ancestors CCommandExecutionError = [CCommandExecutionError, COpsBeaconError, CException]"
| "class_ancestors CFileOperationError = [CFileOperationError, COpsBeaconError, CException]"
| "class_ancestors CMCPError = [CMCPError, COpsBeaconError, CException]"
| "class_ancestors CReqJSONDecodeError = [CReqJSONDecodeError, CRequestException, CValueError, CException]"
| "class_ancestors CReqConnectionError = [CReqConnectionError, CRequestException, CException]"
| "class_ancestors CReqTimeout = [CReqTimeout, CRequestException, CException]"
| "class_ancestors CReqHTTPError = [CReqHTTPError, CRequestException, CException]"
| "class_ancestors c = [c, CException]"

fun req_classes :: "req_exc \<Rightarrow> exc_class list" where
  "req_classes (ReqConnectionError _) = class_ancestors CReqConnectionError"
| "req_classes (ReqConnectTimeout _) = CReqConnectionError # class_ancestors CReqTimeout"
| "req_classes (ReqReadTimeout _) = class_ancestors CReqTimeout"
| "req_classes (ReqHTTPError _) = class_ancestors CReqHTTPError"
| "req_classes (ReqJSONDecodeError _) = class_ancestors CReqJSONDecodeError"
| "req_classes (ReqOtherError _) = class_ancestors CRequestException"

fun classes_of :: "error \<Rightarrow> exc_class list" where
  "classes_of (AuthenticationError _) = class_ancestors CAuthenticationError"
| "classes_of (APIError _ _ _) = class_ancestors CAPIError"
| "classes_of (ConnectionError _) = class_ancestors CConnectionError"
| "classes_of (TimeoutError _ _) = class_ancestors CTimeoutError"
| "classes_of (ValidationError _ _) = class_ancestors CValidationError"
| "classes_of (ResourceNotFoundError _ _) = class_ancestors CResourceNotFoundError"
| "classes_of (RateLimitError _ _) = class_ancestors CRateLimitError"
| "classes_of (CommandExecutionError _ _ _) = class_ancestors CCommandExecutionError"
| "classes_of (FileOperationError _ _ _) = class_ancestors CFileOperationError"
| "classes_of (MCPError _ _) = class_ancestors CMCPError"
| "classes_of (Builtin (ValueError _)) = class_ancestors CValueError"
| "classes_of (Builtin (TypeError _)) = class_ancestors CTypeError"
| "classes_of (Builtin (AttributeError _)) = class_ancestors CAttributeError"
| "classes_of (Builtin (KeyError _)) = class_ancestors CKeyError"
| "classes_of (Builtin (IndexError _)) = class_ancestors CIndexError"
| "classes_of (Builtin (Requests r)) = req_classes r"

definition isinstance :: "error \<Rightarrow> exc_class \<Rightarrow> bool" where
  "isinstance e c \<longleftrightarrow> c \<in> set (classes_of e)"

abbreviation is_api_error :: "error \<Rightarrow> bool" where
  "is_api_error e \<equiv> isinstance e CAPIError"

section \<open>Attributes and messages\<close>

text \<open>The \<open>message\<close> attribute set by \<open>OpsBeaconError.__init__\<close>.\<close>

fun err_message :: "error \<Rightarrow> string" where
  "err_message (AuthenticationError m) = m"
| "err_message (APIError m _ _) = m"
| "err_message (ConnectionError m) = m"
| "err_message (TimeoutError m _) = m"
| "err_message (ValidationError m _) = m"
| "err_message (ResourceNotFoundError t i) = t @ '' '' @ [CHR 0x27] @ i @ [CHR 0x27] @ '' not found''"
| "err_message (RateLimitError m _) = m"
| "err_message (CommandExecutionError m _ _) = m"
| "err_message (FileOperationError m _ _) = m"
| "err_message (MCPError m _) = m"
| "err_message (Builtin (ValueError m)) = m"
| "err_message (Builtin (TypeError m)) = m"
| "err_message (Builtin (AttributeError m)) = m"
| "err_message (Builtin (KeyError m)) = m"
| "err_message (Builtin (IndexError m)) = m"
| "err_message (Builtin (Requests (ReqConnectionError m))) = m"
| "err_message (Builtin (Requests (ReqConnectTimeout m))) = m"
| "err_message (Builtin (Requests (ReqReadTimeout m))) = m"
| "err_message (Builtin (Requests (ReqHTTPError m))) = m"
| "err_message (Builtin (Requests (ReqJSONDecodeError m))) = m"
| "err_message (Builtin (Requests (ReqOtherError m))) = m"

text \<open>The \<open>status_code\<close> attribute of \<open>APIError\<close> and its subclass \<open>RateLimitError\<close>.\<close>

fun err_status :: "error \<Rightarrow> int option" where
  "err_status (APIError _ s _) = s"
| "err_status (RateLimitError _ _) = Some 429"
| "err_status _ = None"

text \<open>\<open>str(e)\<close>: \<open>OpsBeaconError.__str__\<close>, overridden by \<open>APIError.__str__\<close>.\<close>

definition err_str :: "error \<Rightarrow> string" where
  "err_str e = (if is_api_error e
     then (case err_status e of Some s \<Rightarrow> if s \<noteq> 0 then err_message e @ '' (status: '' @ int_str s @ '')'' else err_message e
          | None \<Rightarrow> err_message e)
     else err_message e)"

section \<open>Lemmas\<close>

lemma isinstance_simps [simp]:
  "isinstance (APIError m s b) C \<longleftrightarrow> C \<in> {CAPIError, COpsBeaconError, CException}"
  "isinstance (RateLimitError m r) C \<longleftrightarrow> C \<in> {CRateLimitError, CAPIError, COpsBeaconError, CException}"
  "isinstance (AuthenticationError m) C \<longleftrightarrow> C \<in> {CAuthenticationError, COpsBeaconError, CException}"
  "isinstance (ConnectionError m) C \<longleftrightarrow> C \<in> {CConnectionError, COpsBeaconError, CException}"
  "isinstance (TimeoutError m tm) C \<longleftrightarrow> C \<in> {CTimeoutError, COpsBeaconError, CException}"
  "isinstance (ValidationError m fld) C \<longleftrightarrow> C \<in> {CValidationError, COpsBeaconError, CException}"
  "isinstance (ResourceNotFoundError rt ri) C \<longleftrightarrow> C \<in> {CResourceNotFoundError, COpsBeaconError, CException}"
  "isinstance (CommandExecutionError m cm cn) C \<longleftrightarrow> C \<in> {CCommandExecutionError, COpsBeaconError, CException}"
  "isinstance (FileOperationError m fn op) C \<longleftrightarrow> C \<in> {CFileOperationError, COpsBeaconError, CException}"
  "isinstance (MCPError m tn) C \<longleftrightarrow> C \<in> {CMCPError, COpsBeaconError, CException}"
  by (auto simp: isinstance_def)

lemma is_api_error_iff: "is_api_error e \<longleftrightarrow> (\<exists>m s b. e = APIError m s b) \<or> (\<exists>m r. e = RateLimitError m r)"
proof (cases e)
  case (Builtin p)
  then show ?thesis
  proof (cases p)
    case (Requests r)
    with Builtin show ?thesis by (cases r) (simp_all add: isinstance_def)
  qed (simp_all add: isinstance_def)
qed simp_all

lemma builtin_not_opsbeacon: "\<not> isinstance (Builtin p) COpsBeaconError"
proof (cases p)
  case (Requests r)
  then show ?thesis by (cases r) (simp_all add: isinstance_def)
qed (simp_all add: isinstance_def)

lemma builtin_not_api [simp]: "\<not> isinstance (Builtin p) CAPIError"
  using is_api_error_iff by blast

end
