(* ===== verification/PyJson.thy ===== *)
theory PyJson
  imports Exceptions
begin

text \<open>
  The operations of Python's data model that the client applies to parsed JSON
  values, each raising what CPython raises on a value of the wrong type:
  truthiness (\<open>if x:\<close>), \<open>d.get(k, default)\<close>, \<open>d[k]\<close>, \<open>d[k] = v\<close>, \<open>x[0]\<close>,
  \<open>k in x\<close>, iteration (\<open>for t in x\<close>, \<open>list(x)\<close>) and \<open>str(x)\<close>.
  A server may answer any JSON, so the client's \<open>.get\<close> on a list, or iteration of a
  number, are behaviours of the client and kept in the model.
\<close>

section \<open>Type names and truthiness\<close>

fun type_name :: "json \<Rightarrow> string" where
  "type_name JNull = ''NoneType''"
| "type_name (JBool _) = ''bool''"
| "type_name (JInt _) = ''int''"
| "type_name (JStr _) = ''str''"
| "type_name (JList _) = ''list''"
| "type_name (JObj _) = ''dict''"

fun truthy :: "json \<Rightarrow> bool" where
  "truthy JNull = False"
| "truthy (JBool b) = b"
| "truthy (JInt i) = (i \<noteq> 0)"
| "truthy (JStr s) = (s \<noteq> [])"
| "truthy (JList xs) = (xs \<noteq> [])"
| "truthy (JObj kvs) = (kvs \<noteq> [])"

definition quoted :: "string \<Rightarrow> string" where
  "quoted s = [CHR 0x27] @ s @ [CHR 0x27]"

section \<open>Dictionaries\<close>

text \<open>\<open>d[k] = v\<close> on a dict: a present key keeps its position, a new key goes last.\<close>

fun dict_set :: "('k \<times> 'v) list \<Rightarrow> 'k \<Rightarrow> 'v \<Rightarrow> ('k \<times> 'v) list" where
  "dict_set [] k v = [(k, v)]"
| "dict_set ((k', v') # kvs) k v = (if k' = k then (k, v) # kvs else (k', v') # dict_set kvs k v)"

text \<open>\<open>d.get(k, default)\<close> on a dict.\<close>

definition dget :: "dict \<Rightarrow> string \<Rightarrow> json \<Rightarrow> json" where
  "dget kvs k d = (case map_of kvs k of Some v \<Rightarrow> v | None \<Rightarrow> d)"

fun py_get :: "json \<Rightarrow> string \<Rightarrow> json \<Rightarrow> error + json" where
  "py_get (JObj kvs) k d = Inr (dget kvs k d)"
| "py_get x k d = Inl (Builtin (AttributeError (quoted (type_name x) @ '' object has no attribute '' @ quoted ''get'')))"

fun py_getitem :: "json \<Rightarrow> string \<Rightarrow> error + json" where
  "py_getitem (JObj kvs) k = (case map_of kvs k of Some v \<Rightarrow> Inr v | None \<Rightarrow> Inl (Builtin (KeyError (quoted k))))"
| "py_getitem (JList _) k = Inl (Builtin (TypeError ''list indices must be integers or slices, not str''))"
| "py_getitem (JStr _) k = Inl (Builtin (TypeError (''string indices must be integers, not '' @ quoted ''str'')))"
| "py_getitem x k = Inl (Builtin (TypeError (quoted (type_name x) @ '' object is not subscriptable'')))"

fun py_setitem :: "json \<Rightarrow> string \<Rightarrow> json \<Rightarrow> error + json" where
  "py_setitem (JObj kvs) k v = Inr (JObj (dict_set kvs k v))"
| "py_setitem (JList _) k v = Inl (Builtin (TypeError ''list indices must be integers or slices, not str''))"
| "py_setitem x k v = Inl (Builtin (TypeError (quoted (type_name x) @ '' object does not support item assignment'')))"

fun py_index0 :: "json \<Rightarrow> error + json" where
  "py_index0 (JList []) = Inl (Builtin (IndexError ''list index out of range''))"
| "py_index0 (JList (x # _)) = Inr x"
| "py_index0 (JStr []) = Inl (Builtin (IndexError ''string index out of range''))"
| "py_index0 (JStr (c # _)) = Inr (JStr [c])"
| "py_index0 (JObj _) = Inl (Builtin (KeyError ''0''))"
| "py_index0 x = Inl (Builtin (TypeError (quoted (type_name x) @ '' object is not subscriptable'')))"

section \<open>Iteration and membership\<close>

fun py_iter :: "json \<Rightarrow> error + json list" where
  "py_iter (JList xs) = Inr xs"
| "py_iter (JObj kvs) = Inr (map (\<lambda>kv. JStr (fst kv)) kvs)"
| "py_iter (JStr s) = Inr (map (\<lambda>c. JStr [c]) s)"
| "py_iter x = Inl (Builtin (TypeError (quoted (type_name x) @ '' object is not iterable'')))"

fun has_infix :: "string \<Rightarrow> string \<Rightarrow> bool" where
  "has_infix p [] = (p = [])"
| "has_infix p (c # cs) = (take (length p) (c # cs) = p \<or> has_infix p cs)"

text \<open>\<open>k in x\<close> for a string \<open>k\<close>: a key of a dict, an element of a list, a substring of a string.\<close>

fun py_contains :: "json \<Rightarrow> string \<Rightarrow> error + bool" where
  "py_contains (JObj kvs) k = Inr (k \<in> fst ` set kvs)"
| "py_contains (JList xs) k = Inr (JStr k \<in> set xs)"
| "py_contains (JStr s) k = Inr (has_infix k s)"
| "py_contains x k = Inl (Builtin (TypeError (''argument of type '' @ quoted (type_name x) @ '' is not iterable'')))"

section \<open>Printing\<close>

text \<open>
  \<open>repr\<close> of a value, as \<open>str()\<close> of a container prints its elements. Strings are
  printed in single quotes without escaping (CPython switches to double quotes for a
  string holding a single quote and escapes control characters).
\<close>

primrec py_repr :: "json \<Rightarrow> string"
  and repr_elems :: "json list \<Rightarrow> string"
  and repr_items :: "(string \<times> json) list \<Rightarrow> string"
  and repr_item :: "string \<times> json \<Rightarrow> string" where
  "py_repr JNull = ''None''"
| "py_repr (JBool b) = (if b then ''True'' else ''False'')"
| "py_repr (JInt i) = int_str i"
| "py_repr (JStr s) = quoted s"
| "py_repr (JList xs) = ''['' @ repr_elems xs @ '']''"
| "py_repr (JObj kvs) = ''{'' @ repr_items kvs @ ''}''"
| "repr_elems [] = []"
| "repr_elems (x # xs) = py_repr x @ (if xs = [] then [] else '', '' @ repr_elems xs)"
| "repr_items [] = []"
| "repr_items (kv # kvs) = repr_item kv @ (if kvs = [] then [] else '', '' @ repr_items kvs)"
| "repr_item (k, v) = quoted k @ '': '' @ py_repr v"

definition py_str :: "json \<Rightarrow> string" where
  "py_str x = (case x of JStr s \<Rightarrow> s | _ \<Rightarrow> py_repr x)"

section \<open>Lemmas\<close>

lemma py_get_obj_iff: "py_get x k d = Inr v \<longleftrightarrow> (\<exists>kvs. x = JObj kvs \<and> v = dget kvs k d)"
  by (cases x) auto

lemma dget_cons [simp]: "dget ((k', v) # kvs) k d = (if k' = k then v else dget kvs k d)"
  by (simp add: dget_def)

lemma dget_nil [simp]: "dget [] k d = d"
  by (simp add: dget_def)

lemma py_str_JStr [simp]: "py_str (JStr s) = s"
  by (simp add: py_str_def)

lemma map_of_dict_set [simp]: "map_of (dict_set kvs k v) = (map_of kvs)(k \<mapsto> v)"
  by (induction kvs) (auto simp: fun_eq_iff)

lemma py_getitem_setitem: "py_setitem x k v = Inr y \<Longrightarrow> py_getitem y k = Inr v"
  by (cases x) auto

lemma py_contains_dict_getitem:
  "py_contains (JObj kvs) k = Inr True \<Longrightarrow> \<exists>v. py_getitem (JObj kvs) k = Inr v"
  by (auto simp: weak_map_of_SomeI split: option.splits)

lemma has_infix_self [simp]: "has_infix p p"
  by (cases p) auto

lemma py_repr_nonempty: "py_repr x \<noteq> []"
  by (cases x) (simp_all add: quoted_def int_str_def nat_str_nonempty)

lemma truthy_py_str: "truthy x \<Longrightarrow> py_str x \<noteq> []"
  by (cases x) (simp_all add: py_str_def py_repr_nonempty int_str_def nat_str_nonempty)

end
