(* ===== verification/Transport.thy ===== *)
theory Transport
  imports PyJson
begin

text \<open>
  The transport layer of \<open>OpsBeaconClient\<close> (\<open>src/opsbeacon/client.py\<close>, lines 60--228):
  construction, \<open>base_url\<close>, the debug logging of requests and responses, the
  classification of HTTP error statuses and \<open>_request\<close>.

  The world the client acts on is a record: the HTTP requests sent so far, in order
  (\<open>sent\<close>), the lines written to the logger (\<open>logs\<close>), the local files
  (\<open>local_files\<close>), the number of \<open>uuid4()\<close> values drawn and whether the session's
  pool holds a connection (\<open>pooled\<close>, set when a reply comes back through the session).
  What the network answers is the environment's function \<open>net\<close> of the requests sent
  before and the request itself: any deterministic server, including one whose state
  changes between two calls.

  Besides the operations, the theory holds the abstract view of the session's
  \<open>CaseInsensitiveDict\<close> (\<open>ci_abs\<close>, with the refinement of \<open>ci_update\<close>), the log
  invariant \<open>log_masked\<close>, and \<open>sends_only\<close> with its rules \<open>sends_intros\<close>, which
  bound the requests a computation appends to \<open>sent\<close>.
\<close>

section \<open>Configuration, requests, responses, world\<close>

record client =
  api_domain :: string
  api_token :: string
  timeout :: real
  debug :: bool
  session_headers :: "(string \<times> string) list"

datatype upload = Upload string string string

record http_request =
  req_method :: string
  req_url :: string
  req_headers :: "(string \<times> string) list"
  req_json :: "json option"
  req_data :: "(string \<times> string) list option"
  req_files :: "(string \<times> upload) list option"
  req_timeout :: "real option"

text \<open>A response: status, headers, body text and the JSON the text parses to, if any.\<close>

record response =
  status :: int
  resp_headers :: "(string \<times> string) list"
  resp_text :: string
  resp_body :: "json option"

datatype net_outcome = Reply response | Failure req_exc

datatype log_entry =
    DebugRequest string string
  | DebugHeaders "(string \<times> string) list"
  | DebugBody json
  | DebugResponse int
  | DebugResponseBody json
  | DebugResponseText string
  | ErrorLine string

record world =
  sent :: "http_request list"
  logs :: "log_entry list"
  local_files :: "string \<rightharpoonup> string"
  uuids_drawn :: nat
  pooled :: bool

record env =
  net :: "http_request list \<Rightarrow> http_request \<Rightarrow> net_outcome"
  set_order :: "json list \<Rightarrow> json list"
  uuid4 :: "nat \<Rightarrow> string"

type_synonym 'a op = "(world, error, 'a) exn"

section \<open>Header dictionaries\<close>

text \<open>
  \<open>requests\<close> keeps session headers in a \<open>CaseInsensitiveDict\<close>: keys compare by their
  lower-case form and an update keeps the position of the key it replaces. The copy
  \<open>dict(self._session.headers)\<close> that \<open>_request\<close> logs is a plain dict.
\<close>

fun ci_set :: "(string \<times> string) list \<Rightarrow> string \<Rightarrow> string \<Rightarrow> (string \<times> string) list" where
  "ci_set [] k v = [(k, v)]"
| "ci_set ((k', v') # hs) k v =
     (if lower_ascii k' = lower_ascii k then (k, v) # hs else (k', v') # ci_set hs k v)"

definition ci_update :: "(string \<times> string) list \<Rightarrow> (string \<times> string) list \<Rightarrow> (string \<times> string) list" where
  "ci_update hs new = fold (\<lambda>(k, v) acc. ci_set acc k v) new hs"

definition ci_get :: "(string \<times> string) list \<Rightarrow> string \<Rightarrow> string option" where
  "ci_get hs k = map_of (map (\<lambda>(k', v). (lower_ascii k', v)) hs) (lower_ascii k)"

definition dict_update :: "('k \<times> 'v) list \<Rightarrow> ('k \<times> 'v) list \<Rightarrow> ('k \<times> 'v) list" where
  "dict_update d new = fold (\<lambda>(k, v) acc. dict_set acc k v) new d"

definition dict_pop :: "('k \<times> 'v) list \<Rightarrow> 'k \<Rightarrow> ('k \<times> 'v) list" where
  "dict_pop d k = filter (\<lambda>kv. fst kv \<noteq> k) d"

section \<open>Construction\<close>

definition SDK_VERSION :: string where
  "SDK_VERSION = ''1.3.0''"

definition DEFAULT_TIMEOUT :: real where
  "DEFAULT_TIMEOUT = 30"

text \<open>\<open>lib_headers\<close> are the headers \<open>requests.Session()\<close> starts with.\<close>

definition client_init :: "(string \<times> string) list \<Rightarrow> string \<Rightarrow> string \<Rightarrow> real \<Rightarrow> bool \<Rightarrow> error + client" where
  "client_init lib_headers domain tok t dbg =
     (if domain = [] then Inl (ValidationError ''api_domain is required'' (Some ''api_domain''))
      else if tok = [] then Inl (ValidationError ''api_token is required'' (Some ''api_token''))
      else Inr \<lparr>api_domain = rstrip_char CHR ''/'' domain, api_token = tok, timeout = t, debug = dbg,
                session_headers = ci_update lib_headers
                  [(''Authorization'', ''Bearer '' @ tok), (''Content-Type'', ''application/json''),
                   (''User-Agent'', ''OpsBeacon-Python-SDK/'' @ SDK_VERSION)]\<rparr>)"

definition base_url :: "client \<Rightarrow> string" where
  "base_url c = ''https://'' @ api_domain c"

section \<open>Debug logging\<close>

definition mask_headers :: "(string \<times> string) list \<Rightarrow> (string \<times> string) list" where
  "mask_headers hs = map (\<lambda>(k, v). (k, if lower_ascii k = ''authorization'' then ''***'' else v)) hs"

definition log_request :: "client \<Rightarrow> string \<Rightarrow> string \<Rightarrow> (string \<times> string) list \<Rightarrow> json option \<Rightarrow> log_entry list" where
  "log_request c m url hs j =
     (if debug c then
        [DebugRequest m url, DebugHeaders (mask_headers hs)]
        @ (case j of Some b \<Rightarrow> if truthy b then [DebugBody b] else [] | None \<Rightarrow> [])
      else [])"

definition log_response :: "client \<Rightarrow> response \<Rightarrow> log_entry list" where
  "log_response c r =
     (if debug c then
        [DebugResponse (status r),
         case resp_body r of Some b \<Rightarrow> DebugResponseBody b | None \<Rightarrow> DebugResponseText (take 500 (resp_text r))]
      else [])"

definition emit :: "log_entry list \<Rightarrow> unit op" where
  "emit es = modifyE (\<lambda>w. w\<lparr>logs := logs w @ es\<rparr>)"

section \<open>Python's int() on a header value\<close>

definition py_space :: "char \<Rightarrow> bool" where
  "py_space c \<longleftrightarrow> of_char c \<in> {9, 10, 11, 12, 13, 28, 29, 30, 31, 32, 133, 160 :: nat}"

definition digit_val :: "char \<Rightarrow> nat option" where
  "digit_val c = (let n = of_char c :: nat in if 48 \<le> n \<and> n \<le> 57 then Some (n - 48) else None)"

fun parse_digits :: "nat \<Rightarrow> bool \<Rightarrow> string \<Rightarrow> nat option" where
  "parse_digits acc us [] = (if us then None else Some acc)"
| "parse_digits acc us (c # cs) =
     (case digit_val c of
        Some d \<Rightarrow> parse_digits (10 * acc + d) False cs
      | None \<Rightarrow> if c = CHR ''_'' \<and> \<not> us then parse_digits acc True cs else None)"

definition parse_decimal :: "string \<Rightarrow> nat option" where
  "parse_decimal s = (case s of c # cs \<Rightarrow> (case digit_val c of Some d \<Rightarrow> parse_digits d False cs | None \<Rightarrow> None)
                       | [] \<Rightarrow> None)"

definition py_strip :: "string \<Rightarrow> string" where
  "py_strip s = rev (dropWhile py_space (rev (dropWhile py_space s)))"

definition py_int :: "string \<Rightarrow> int option" where
  "py_int s =
     (let t = py_strip s in
      if t \<noteq> [] \<and> hd t = CHR ''-'' then map_option (\<lambda>n. - int n) (parse_decimal (tl t))
      else if t \<noteq> [] \<and> hd t = CHR ''+'' then map_option int (parse_decimal (tl t))
      else map_option int (parse_decimal t))"

section \<open>Error statuses\<close>

definition resp_ok :: "response \<Rightarrow> bool" where
  "resp_ok r \<longleftrightarrow> \<not> (400 \<le> status r \<and> status r < 600)"

definition resp_json :: "response \<Rightarrow> error + json" where
  "resp_json r = (case resp_body r of Some j \<Rightarrow> Inr j
     | None \<Rightarrow> Inl (Builtin (Requests (ReqJSONDecodeError ''Expecting value: line 1 column 1 (char 0)''))))"

definition handle_response_error :: "response \<Rightarrow> error + unit" where
  "handle_response_error r =
     (if status r = 401 then Inl authentication_error_default
      else if status r = 403 then Inl (AuthenticationError ''Access forbidden. Check your API token permissions.'')
      else if status r = 404 then Inl (APIError ''Resource not found'' (Some 404) (Some (resp_text r)))
      else if status r = 429 then
        (case ci_get (resp_headers r) ''Retry-After'' of
           None \<Rightarrow> Inl (rate_limit_error None)
         | Some v \<Rightarrow>
             if v = [] then Inl (rate_limit_error None)
             else (case py_int v of
                     Some n \<Rightarrow> Inl (rate_limit_error (Some n))
                   | None \<Rightarrow> Inl (Builtin (ValueError (''invalid literal for int() with base 10: '' @ quoted v)))))
      else if 400 \<le> status r then
        (let msg = (case resp_body r of
                      None \<Rightarrow> Inr (JStr (resp_text r))
                    | Some b \<Rightarrow> (case py_get b ''error'' (JStr (resp_text r)) of
                                  Inl e \<Rightarrow> Inl e
                                | Inr d \<Rightarrow> py_get b ''err'' d))
         in case msg of
              Inl e \<Rightarrow> Inl e
            | Inr m \<Rightarrow> Inl (APIError (''API error: '' @ py_str m) (Some (status r)) (Some (resp_text r))))
      else Inr ())"

section \<open>Sending a request\<close>

text \<open>One call of the \<open>requests\<close> library: the request is recorded, the network answers.\<close>

definition send :: "env \<Rightarrow> http_request \<Rightarrow> net_outcome op" where
  "send E q = (\<lambda>w. (Inr (net E (sent w) q), w\<lparr>sent := sent w @ [q]\<rparr>))"

fun req_exc_msg :: "req_exc \<Rightarrow> string" where
  "req_exc_msg (ReqConnectionError m) = m"
| "req_exc_msg (ReqConnectTimeout m) = m"
| "req_exc_msg (ReqReadTimeout m) = m"
| "req_exc_msg (ReqHTTPError m) = m"
| "req_exc_msg (ReqJSONDecodeError m) = m"
| "req_exc_msg (ReqOtherError m) = m"

definition wire_request ::
  "client \<Rightarrow> string \<Rightarrow> string \<Rightarrow> json option \<Rightarrow> (string \<times> string) list option
   \<Rightarrow> (string \<times> upload) list option \<Rightarrow> (string \<times> string) list option \<Rightarrow> http_request" where
  "wire_request c m endpoint j d f h =
     \<lparr>req_method = m, req_url = base_url c @ endpoint,
      req_headers = ci_update (session_headers c) (case h of Some hs \<Rightarrow> hs | None \<Rightarrow> []),
      req_json = j, req_data = d, req_files = f, req_timeout = Some (timeout c)\<rparr>"

definition logged_headers ::
  "client \<Rightarrow> (string \<times> upload) list option \<Rightarrow> (string \<times> string) list option \<Rightarrow> (string \<times> string) list" where
  "logged_headers c f h =
     (let hs = (case h of Some x \<Rightarrow> if x \<noteq> [] then dict_update (session_headers c) x else session_headers c
                        | None \<Rightarrow> session_headers c)
      in case f of Some fs \<Rightarrow> if fs \<noteq> [] then dict_pop hs ''Content-Type'' else hs | None \<Rightarrow> hs)"

text \<open>The three \<open>except\<close> clauses of \<open>_request\<close>, in their order: the line logged and the error raised.\<close>

definition transport_failure :: "client \<Rightarrow> string \<Rightarrow> req_exc \<Rightarrow> log_entry \<times> error" where
  "transport_failure c url x =
     (if CReqConnectionError \<in> set (req_classes x) then
        (ErrorLine (''Connection error: '' @ req_exc_msg x), ConnectionError (''Failed to connect to '' @ url))
      else if CReqTimeout \<in> set (req_classes x) then
        (ErrorLine (''Request timeout: '' @ req_exc_msg x), timeout_error (Some (timeout c)))
      else
        (ErrorLine (''Request error: '' @ req_exc_msg x), APIError (''Request failed: '' @ req_exc_msg x) None None))"

text \<open>\<open>if not response.ok: self._handle_response_error(response)\<close>, then \<open>return response\<close>.\<close>

definition check_response :: "response \<Rightarrow> error + response" where
  "check_response r =
     (if resp_ok r then Inr r
      else case handle_response_error r of Inl e \<Rightarrow> Inl e | Inr _ \<Rightarrow> Inr r)"

definition request ::
  "env \<Rightarrow> client \<Rightarrow> string \<Rightarrow> string \<Rightarrow> json option \<Rightarrow> (string \<times> string) list option
   \<Rightarrow> (string \<times> upload) list option \<Rightarrow> (string \<times> string) list option \<Rightarrow> response op" where
  "request E c m endpoint j d f h =
     (let url = base_url c @ endpoint in
      bindE (emit (log_request c m url (logged_headers c f h) j)) (\<lambda>_.
      bindE (send E (wire_request c m endpoint j d f h)) (\<lambda>out.
      case out of
        Failure x \<Rightarrow> bindE (emit [fst (transport_failure c url x)]) (\<lambda>_. throw (snd (transport_failure c url x)))
      | Reply r \<Rightarrow>
          bindE (emit (log_response c r)) (\<lambda>_.
          bindE (modifyE (\<lambda>w. w\<lparr>pooled := True\<rparr>)) (\<lambda>_. liftE (check_response r))))))"

text \<open>The requests an operation sends, and the requests a request of the model is.\<close>

abbreviation simple_request :: "client \<Rightarrow> string \<Rightarrow> string \<Rightarrow> json option \<Rightarrow> http_request" where
  "simple_request c m endpoint j \<equiv> wire_request c m endpoint j None None None"

section \<open>Fixtures for concrete runs\<close>

text \<open>
  A client as \<open>OpsBeaconClient("api.example.com", "tok")\<close> builds it (without the
  library's default headers), the world before the first call, and networks that answer
  every request alike.
\<close>

definition demo_client :: client where
  "demo_client = \<lparr>api_domain = ''api.example.com'', api_token = ''tok'', timeout = 30, debug = False,
     session_headers = [(''Authorization'', ''Bearer tok''), (''Content-Type'', ''application/json''),
                        (''User-Agent'', ''OpsBeacon-Python-SDK/1.3.0'')]\<rparr>"

definition world0 :: world where
  "world0 = \<lparr>sent = [], logs = [], local_files = Map.empty, uuids_drawn = 0, pooled = False\<rparr>"

definition reply :: "int \<Rightarrow> json \<Rightarrow> response" where
  "reply s j = \<lparr>status = s, resp_headers = [], resp_text = [], resp_body = Some j\<rparr>"

definition answer_env :: "(http_request list \<Rightarrow> http_request \<Rightarrow> net_outcome) \<Rightarrow> env" where
  "answer_env f = \<lparr>net = f, set_order = remdups, uuid4 = (\<lambda>n. ''uuid-'' @ nat_str n)\<rparr>"

definition const_env :: "net_outcome \<Rightarrow> env" where
  "const_env out = answer_env (\<lambda>_ _. out)"

text \<open>A server that answers by method and path (below \<open>demo_client\<close>'s base URL).\<close>

definition route_env :: "(string \<Rightarrow> string \<Rightarrow> net_outcome) \<Rightarrow> env" where
  "route_env f = answer_env (\<lambda>_ q. f (req_method q) (drop (length (base_url demo_client)) (req_url q)))"

section \<open>The debug log hides the token\<close>

text \<open>A log line of headers is masked when every \<open>Authorization\<close> header in it reads \<open>***\<close>.\<close>

fun entry_masked :: "log_entry \<Rightarrow> bool" where
  "entry_masked (DebugHeaders hs) = (\<forall>(k, v) \<in> set hs. lower_ascii k = ''authorization'' \<longrightarrow> v = ''***'')"
| "entry_masked _ = True"

definition log_masked :: "world \<Rightarrow> bool" where
  "log_masked w \<longleftrightarrow> list_all entry_masked (logs w)"

section \<open>Header dictionaries as maps\<close>

text \<open>
  The abstract view of a \<open>CaseInsensitiveDict\<close>: the map from lower-cased names to values,
  and its invariant, no two keys equal up to case.
\<close>

definition ci_abs :: "(string \<times> string) list \<Rightarrow> string \<rightharpoonup> string" where
  "ci_abs hs = map_of (map (\<lambda>(k, v). (lower_ascii k, v)) hs)"

definition ci_distinct :: "(string \<times> string) list \<Rightarrow> bool" where
  "ci_distinct hs \<longleftrightarrow> distinct (map (lower_ascii \<circ> fst) hs)"

definition ci_abs_update :: "(string \<rightharpoonup> string) \<Rightarrow> (string \<times> string) list \<Rightarrow> string \<rightharpoonup> string" where
  "ci_abs_update m new = fold (\<lambda>(k, v) m. m(lower_ascii k \<mapsto> v)) new m"

section \<open>The requests an operation sends\<close>

text \<open>
  \<open>sends_only P m\<close>: from every world, \<open>m\<close> only appends requests to \<open>sent\<close>, and
  each request it appends satisfies \<open>P\<close>. The rules in \<open>sends_intros\<close> prove it
  one combinator at a time, as \<open>preserves_intros\<close> do for state predicates.
\<close>

definition sends_only :: "(http_request \<Rightarrow> bool) \<Rightarrow> 'a op \<Rightarrow> bool" where
  "sends_only P m \<longleftrightarrow> (\<forall>w. \<exists>qs. sent (snd (m w)) = sent w @ qs \<and> list_all P qs)"

section \<open>Lemmas\<close>

lemma request_apply:
  "request E c m ep j d f h w =
     (let q = wire_request c m ep j d f h;
          w1 = w\<lparr>logs := logs w @ log_request c m (base_url c @ ep) (logged_headers c f h) j, sent := sent w @ [q]\<rparr>
      in case net E (sent w) q of
           Failure x \<Rightarrow> (Inl (snd (transport_failure c (base_url c @ ep) x)),
                         w1\<lparr>logs := logs w1 @ [fst (transport_failure c (base_url c @ ep) x)]\<rparr>)
         | Reply r \<Rightarrow> (check_response r, w1\<lparr>logs := logs w1 @ log_response c r, pooled := True\<rparr>))"
  by (simp add: request_def emit_def send_def Let_def bindE_apply split: net_outcome.splits)

lemma request_sent: "sent (snd (request E c m ep j d f h w)) = sent w @ [wire_request c m ep j d f h]"
  by (simp add: request_apply Let_def split: net_outcome.splits)

lemma request_local_files [simp]: "local_files (snd (request E c m ep j d f h w)) = local_files w"
  by (simp add: request_apply Let_def split: net_outcome.splits)

lemma request_uuids [simp]: "uuids_drawn (snd (request E c m ep j d f h w)) = uuids_drawn w"
  by (simp add: request_apply Let_def split: net_outcome.splits)

lemma resp_json_Inl: "resp_json r = Inl e \<Longrightarrow> \<not> is_api_error e"
  by (auto simp: resp_json_def split: option.splits)

lemma check_response_ok: "resp_ok r \<Longrightarrow> check_response r = Inr r"
  by (simp add: check_response_def)

lemma handle_response_error_raises: "400 \<le> status r \<Longrightarrow> \<exists>e. handle_response_error r = Inl e"
  by (auto simp: handle_response_error_def Let_def split: option.splits sum.splits)

lemma check_response_Inr: "check_response r = Inr r' \<Longrightarrow> r' = r \<and> resp_ok r"
  using handle_response_error_raises [of r]
  by (auto simp: check_response_def resp_ok_def split: sum.splits if_splits)

lemma handle_generic_status:
  assumes "400 \<le> status r" and "status r \<notin> {401, 403, 404, 429}" and "resp_body r = Some (JObj kvs)"
  shows "handle_response_error r =
           Inl (APIError (''API error: '' @ py_str (dget kvs ''err'' (dget kvs ''error'' (JStr (resp_text r)))))
                (Some (status r)) (Some (resp_text r)))"
  using assms by (simp add: handle_response_error_def)

lemma handle_generic_list_body:
  assumes "400 \<le> status r" and "status r \<notin> {401, 403, 404, 429}" and "resp_body r = Some (JList xs)"
  shows "\<exists>m. handle_response_error r = Inl (Builtin (AttributeError m))"
  using assms by (simp add: handle_response_error_def)

lemma digit_val_char [simp]: "k < 10 \<Longrightarrow> digit_val (char_of (48 + k)) = Some k"
  by (simp add: digit_val_def of_char_of)

lemma parse_digits_all:
  "\<forall>c \<in> set xs. digit_val c \<noteq> None \<Longrightarrow>
   parse_digits acc us xs = (if xs = [] \<and> us then None else Some (foldl (\<lambda>a c. 10 * a + the (digit_val c)) acc xs))"
  by (induction xs arbitrary: acc us) auto

lemma nat_str_props:
  "nat_str n \<noteq> [] \<and> (\<forall>c \<in> set (nat_str n). digit_val c \<noteq> None)
   \<and> foldl (\<lambda>a c. 10 * a + the (digit_val c)) 0 (nat_str n) = n"
proof (induction n rule: nat_str.induct)
  case (1 n)
  show ?case
  proof (cases "n < 10")
    case True
    then show ?thesis by (simp add: nat_str.simps)
  next
    case False
    have "10 * (n div 10) + n mod 10 = n" by simp
    with "1.IH" False show ?thesis
      by (simp add: nat_str.simps [of n])
  qed
qed

lemma parse_decimal_nat_str: "parse_decimal (nat_str n) = Some n"
proof -
  obtain c cs where cs: "nat_str n = c # cs" using nat_str_props [of n] by (cases "nat_str n") auto
  with nat_str_props [of n] obtain d where d: "digit_val c = Some d" by auto
  have "parse_digits d False cs = Some (foldl (\<lambda>a c. 10 * a + the (digit_val c)) d cs)"
    using nat_str_props [of n] cs by (simp add: parse_digits_all)
  also have "\<dots> = Some n" using nat_str_props [of n] cs d by simp
  finally show ?thesis using cs d by (simp add: parse_decimal_def)
qed

lemma digit_not_space: "digit_val c \<noteq> None \<Longrightarrow> \<not> py_space c"
  by (auto simp: digit_val_def py_space_def Let_def split: if_splits)

lemma py_strip_digits:
  assumes "xs \<noteq> []" "\<forall>c \<in> set xs. digit_val c \<noteq> None" "\<not> py_space x"
  shows "py_strip (x # xs) = x # xs"
proof -
  have "\<not> py_space (last xs)" using assms by (simp add: digit_not_space)
  then have "dropWhile py_space (rev (x # xs)) = rev (x # xs)"
    using assms(1) by (cases "rev xs") (auto simp: last_rev [symmetric] dest: arg_cong[where f=hd])
  with assms show ?thesis by (simp add: py_strip_def)
qed

lemma py_int_int_str: "py_int (int_str i) = Some i"
proof -
  obtain c cs where cs: "nat_str (nat \<bar>i\<bar>) = c # cs" using nat_str_props [of "nat \<bar>i\<bar>"]
    by (cases "nat_str (nat \<bar>i\<bar>)") auto
  have dig: "\<forall>x \<in> set (c # cs). digit_val x \<noteq> None" using nat_str_props [of "nat \<bar>i\<bar>"] cs by simp
  show ?thesis
  proof (cases "i < 0")
    case True
    have "\<not> py_space (CHR ''-'')" by (simp add: py_space_def)
    then have "py_strip (int_str i) = CHR ''-'' # c # cs"
      using True cs dig by (simp add: int_str_def py_strip_digits)
    have pd: "parse_decimal (c # cs) = Some (nat \<bar>i\<bar>)"
      using parse_decimal_nat_str [of "nat \<bar>i\<bar>"] cs by simp
    with True \<open>py_strip (int_str i) = CHR ''-'' # c # cs\<close> show ?thesis
      by (simp add: py_int_def)
  next
    case False
    have sp: "\<not> py_space c" using dig digit_not_space by simp
    have strip: "py_strip (int_str i) = c # cs"
    proof (cases cs)
      case Nil
      with False cs sp show ?thesis by (simp add: int_str_def py_strip_def)
    next
      case (Cons a as)
      with False cs sp dig show ?thesis by (simp add: int_str_def py_strip_digits)
    qed
    have "c \<noteq> CHR ''-'' \<and> c \<noteq> CHR ''+''" using dig by (auto simp: digit_val_def)
    moreover have "parse_decimal (c # cs) = Some (nat \<bar>i\<bar>)"
      using parse_decimal_nat_str [of "nat \<bar>i\<bar>"] cs by simp
    ultimately show ?thesis using False strip
      by (simp add: py_int_def)
  qed
qed

lemma handle_429_header:
  assumes "status r = 429" and "ci_get (resp_headers r) ''Retry-After'' = Some v" and "v \<noteq> []"
  shows "handle_response_error r =
           (case py_int v of Some n \<Rightarrow> Inl (rate_limit_error (Some n))
            | None \<Rightarrow> Inl (Builtin (ValueError (''invalid literal for int() with base 10: '' @ quoted v))))"
  using assms by (simp add: handle_response_error_def split: option.splits)

text \<open>
  Claim C8: a 429 response whose \<open>Retry-After\<close> header is the decimal text of an integer
  \<open>n\<close> (as the server writes it, \<open>str(n)\<close>) raises \<open>RateLimitError\<close> with
  \<open>retry_after = n\<close>.
\<close>

theorem handle_429_str: "status r = 429 \<Longrightarrow> ci_get (resp_headers r) ''Retry-After'' = Some (int_str n)
  \<Longrightarrow> handle_response_error r = Inl (rate_limit_error (Some n))"
proof -
  have "int_str n \<noteq> []" by (simp add: int_str_def nat_str_props)
  then show "status r = 429 \<Longrightarrow> ci_get (resp_headers r) ''Retry-After'' = Some (int_str n)
    \<Longrightarrow> handle_response_error r = Inl (rate_limit_error (Some n))"
    by (simp add: handle_429_header py_int_int_str)
qed

theorem handle_429_str_witness: "handle_response_error \<lparr>status = 429, resp_headers = [(''Retry-After'', ''60'')], resp_text = [], resp_body = None\<rparr>
   = Inl (rate_limit_error (Some 60))"
  using handle_429_str [of "\<lparr>status = 429, resp_headers = [(''Retry-After'', ''60'')], resp_text = [], resp_body = None\<rparr>" 60]
proof -
  have s: "int_str 60 = ''60''" by code_simp
  have g: "ci_get [(''Retry-After'', ''60'')] ''Retry-After'' = Some ''60''" by code_simp
  show ?thesis using handle_429_str [of "\<lparr>status = 429, resp_headers = [(''Retry-After'', ''60'')], resp_text = [], resp_body = None\<rparr>" 60] s g
    by simp
qed

text \<open>
  Claim C24: a 429 response whose \<open>Retry-After\<close> header is present, non-empty and not an
  integer (for instance an HTTP date) makes \<open>_handle_response_error\<close> raise Python's
  \<open>ValueError\<close> from \<open>int()\<close>, not a \<open>RateLimitError\<close> with an unset
  \<open>retry_after\<close>.
\<close>

theorem handle_429_non_numeric:
  assumes "status r = 429" and "ci_get (resp_headers r) ''Retry-After'' = Some v" and "v \<noteq> []" and "py_int v = None"
  shows "\<exists>m. handle_response_error r = Inl (Builtin (ValueError m))"
  using assms by (simp add: handle_429_header)

theorem handle_429_non_numeric_witness:
  "\<exists>m. handle_response_error \<lparr>status = 429, resp_headers = [(''Retry-After'', ''soon'')], resp_text = [], resp_body = None\<rparr>
      = Inl (Builtin (ValueError m))"
proof -
  have g: "ci_get [(''Retry-After'', ''soon'')] ''Retry-After'' = Some ''soon''" by code_simp
  have p: "py_int ''soon'' = None" by code_simp
  show ?thesis using handle_429_non_numeric [OF _ _ _ p, of "\<lparr>status = 429, resp_headers = [(''Retry-After'', ''soon'')], resp_text = [], resp_body = None\<rparr>"] g
    by simp
qed

lemma mask_headers_masked: "entry_masked (DebugHeaders (mask_headers hs))"
  by (auto simp: mask_headers_def)

lemma log_request_masked: "list_all entry_masked (log_request c m url hs j)"
  using mask_headers_masked [of hs] by (simp add: log_request_def split: option.splits)

lemma log_response_masked: "list_all entry_masked (log_response c r)"
  by (simp add: log_response_def split: option.splits)

lemma preserves_emit [preserves_intros]: "list_all entry_masked es \<Longrightarrow> preserves log_masked (emit es)"
  by (simp add: emit_def preserves_def log_masked_def)

lemma preserves_send [preserves_intros]: "preserves log_masked (send E q)"
  by (simp add: send_def preserves_def log_masked_def)

lemma transport_failure_masked: "entry_masked (fst (transport_failure c url x))"
  by (simp add: transport_failure_def)

lemma preserves_case_net_outcome [preserves_intros]:
  "(\<And>r. preserves P (f r)) \<Longrightarrow> (\<And>x. preserves P (g x)) \<Longrightarrow> preserves P (case_net_outcome f g out)"
  by (cases out) simp_all

lemma request_preserves_masked [preserves_intros]: "preserves log_masked (request E c m ep j d f h)"
  unfolding request_def
  by (intro preserves_intros)
     (simp_all add: log_request_masked log_response_masked transport_failure_masked log_masked_def)

lemma ci_get_cons: "ci_get ((k', v') # hs) k = (if lower_ascii k' = lower_ascii k then Some v' else ci_get hs k)"
  by (simp add: ci_get_def)

lemma ci_get_ci_set: "ci_get (ci_set hs k v) k' = (if lower_ascii k = lower_ascii k' then Some v else ci_get hs k')"
  by (induction hs) (auto simp: ci_get_cons)

lemma client_init_validation:
  "domain = [] \<or> tok = [] \<Longrightarrow> \<exists>m f. client_init lib domain tok t dbg = Inl (ValidationError m f)"
  by (auto simp: client_init_def)

lemma client_init_ok:
  assumes "domain \<noteq> []" and "tok \<noteq> []"
  shows "\<exists>c. client_init lib domain tok t dbg = Inr c
           \<and> base_url c = ''https://'' @ rstrip_char CHR ''/'' domain
           \<and> (\<exists>n. domain = api_domain c @ replicate n CHR ''/'')
           \<and> (api_domain c = [] \<or> last (api_domain c) \<noteq> CHR ''/'')
           \<and> ci_get (session_headers c) ''Authorization'' = Some (''Bearer '' @ tok)"
proof -
  have ne: "(lower_ascii ''Content-Type'' = lower_ascii ''Authorization'') = False"
           "(lower_ascii ''User-Agent'' = lower_ascii ''Authorization'') = False" by code_simp+
  have hdr: "ci_get (ci_update lib [(''Authorization'', ''Bearer '' @ tok), (''Content-Type'', ''application/json''),
                   (''User-Agent'', ''OpsBeacon-Python-SDK/'' @ SDK_VERSION)]) ''Authorization'' = Some (''Bearer '' @ tok)"
    by (simp only: ci_update_def fold.simps comp_def case_prod_conv id_apply ci_get_ci_set ne if_False if_True refl)
  show ?thesis using assms hdr rstrip_char_prefix [of domain] rstrip_char_no_trailing [of "CHR ''/''" domain]
    by (simp add: client_init_def base_url_def)
qed

lemma demo_base [simp]: "base_url demo_client = ''https://api.example.com''"
  by (simp add: base_url_def demo_client_def)

section \<open>Requests sent\<close>

lemma sends_only_ret [sends_intros]: "sends_only P (ret x)"
  and sends_only_throw [sends_intros]: "sends_only P (throw e)"
  and sends_only_liftE [sends_intros]: "sends_only P (liftE r)"
  and sends_only_getsE [sends_intros]: "sends_only P (getsE g)"
  by (simp_all add: sends_only_def)

lemma sends_only_modifyE [sends_intros]: "(\<And>w. sent (f w) = sent w) \<Longrightarrow> sends_only P (modifyE f)"
  by (simp add: sends_only_def)

lemma sends_only_emit [sends_intros]: "sends_only P (emit es)"
  by (simp add: sends_only_def emit_def)

lemma sends_only_send [sends_intros]: "P q \<Longrightarrow> sends_only P (send E q)"
  by (auto simp: sends_only_def send_def)

lemma sends_only_bindE [sends_intros]:
  assumes "sends_only P m" and "\<And>x. sends_only P (f x)"
  shows "sends_only P (bindE m f)"
  unfolding sends_only_def
proof
  fix w
  obtain qs where m: "sent (snd (m w)) = sent w @ qs" "list_all P qs"
    using assms(1) by (auto simp: sends_only_def)
  show "\<exists>qs. sent (snd (bindE m f w)) = sent w @ qs \<and> list_all P qs"
  proof (cases "fst (m w)")
    case (Inl e)
    then show ?thesis using m by (auto simp: bindE_def split: prod.splits)
  next
    case (Inr x)
    obtain rs where "sent (snd (f x (snd (m w)))) = sent (snd (m w)) @ rs" "list_all P rs"
      using assms(2) by (auto simp: sends_only_def)
    with Inr m show ?thesis
      by (intro exI [of _ "qs @ rs"]) (auto simp: bindE_def split: prod.splits)
  qed
qed

lemma sends_only_catchE [sends_intros]:
  assumes "sends_only P m" and "\<And>e. sends_only P (h e)"
  shows "sends_only P (catchE m p h)"
  unfolding sends_only_def
proof
  fix w
  obtain qs where m: "sent (snd (m w)) = sent w @ qs" "list_all P qs"
    using assms(1) by (auto simp: sends_only_def)
  show "\<exists>qs. sent (snd (catchE m p h w)) = sent w @ qs \<and> list_all P qs"
  proof (cases "fst (m w)")
    case (Inr x)
    then show ?thesis using m by (auto simp: catchE_def split: prod.splits)
  next
    case (Inl e)
    obtain rs where "sent (snd (h e (snd (m w)))) = sent (snd (m w)) @ rs" "list_all P rs"
      using assms(2) by (auto simp: sends_only_def)
    with Inl m show ?thesis
      by (intro exI [of _ "if p e then qs @ rs else qs"]) (auto simp: catchE_def split: prod.splits)
  qed
qed

lemma sends_only_if [sends_intros]: "sends_only P m1 \<Longrightarrow> sends_only P m2 \<Longrightarrow> sends_only P (if b then m1 else m2)"
  by simp

lemma sends_only_case_sum [sends_intros]:
  "(\<And>e. sends_only P (f e)) \<Longrightarrow> (\<And>x. sends_only P (g x)) \<Longrightarrow> sends_only P (case_sum f g r)"
  by (cases r) simp_all

lemma sends_only_case_option [sends_intros]:
  "sends_only P m \<Longrightarrow> (\<And>x. sends_only P (g x)) \<Longrightarrow> sends_only P (case_option m g r)"
  by (cases r) simp_all

lemma sends_only_case_net_outcome [sends_intros]:
  "(\<And>r. sends_only P (f r)) \<Longrightarrow> (\<And>x. sends_only P (g x)) \<Longrightarrow> sends_only P (case_net_outcome f g out)"
  by (cases out) simp_all

lemma sends_only_case_prod [sends_intros]:
  "(\<And>a b. sends_only P (f a b)) \<Longrightarrow> sends_only P (case_prod f x)"
  by (cases x) simp

lemma sends_only_Let [sends_intros]: "(\<And>x. sends_only P (f x)) \<Longrightarrow> sends_only P (Let v f)"
  by simp

lemma sends_only_request [sends_intros]:
  "P (wire_request c m ep j d f h) \<Longrightarrow> sends_only P (request E c m ep j d f h)"
  unfolding request_def by (intro sends_intros) simp_all



section \<open>Round trips and refinement\<close>

lemma ci_abs_ci_set: "ci_abs (ci_set hs k v) = (ci_abs hs)(lower_ascii k \<mapsto> v)"
  by (induction hs) (auto simp: ci_abs_def fun_upd_twist)

lemma ci_keys_ci_set:
  "map (lower_ascii \<circ> fst) (ci_set hs k v) =
     (if lower_ascii k \<in> set (map (lower_ascii \<circ> fst) hs) then map (lower_ascii \<circ> fst) hs
      else map (lower_ascii \<circ> fst) hs @ [lower_ascii k])"
  by (induction hs) (auto, force)

lemma ci_distinct_ci_set: "ci_distinct hs \<Longrightarrow> ci_distinct (ci_set hs k v)"
  by (simp add: ci_distinct_def ci_keys_ci_set del: set_map)

lemma ci_distinct_ci_update: "ci_distinct hs \<Longrightarrow> ci_distinct (ci_update hs new)"
  by (induction new arbitrary: hs) (auto simp: ci_update_def ci_distinct_ci_set)

lemma py_strip_pad:
  assumes "list_all py_space a" and "list_all py_space b" and "t \<noteq> []" and "\<not> py_space (hd t)" and "\<not> py_space (last t)"
  shows "py_strip (a @ t @ b) = t"
proof -
  have "dropWhile py_space (a @ t @ b) = t @ b"
    using assms(1,3,4) by (simp add: dropWhile_append2 list_all_iff dropWhile_eq_self_iff)
  moreover have "dropWhile py_space (rev b @ rev t) = rev t"
    using assms(2,3,5) by (subst dropWhile_append2) (auto simp: list_all_iff dropWhile_eq_self_iff hd_rev)
  ultimately show ?thesis by (simp add: py_strip_def)
qed

lemma py_int_strip: "py_strip s = py_strip s' \<Longrightarrow> py_int s = py_int s'"
  by (simp add: py_int_def)

text \<open>
  The session's headers are a \<open>CaseInsensitiveDict\<close>: read through the abstraction \<open>ci_abs\<close> (lower-cased name to value), \<open>ci_update\<close> is the update of a map by each new header in turn, later ones winning, and it keeps the keys distinct up to case.
\<close>

theorem ci_update_refines:
  "ci_abs (ci_update hs new) = ci_abs_update (ci_abs hs) new
   \<and> (ci_distinct hs \<longrightarrow> ci_distinct (ci_update hs new))"
proof (induction new arbitrary: hs)
  case Nil
  then show ?case by (simp add: ci_update_def ci_abs_update_def)
next
  case (Cons kv new)
  obtain k v where kv: "kv = (k, v)" by fastforce
  have u: "ci_update hs (kv # new) = ci_update (ci_set hs k v) new" by (simp add: ci_update_def kv)
  have a: "ci_abs_update (ci_abs (ci_set hs k v)) new = ci_abs_update (ci_abs hs) (kv # new)"
    by (simp only: ci_abs_update_def kv fold_Cons comp_def ci_abs_ci_set prod.case)
  show ?case
    using Cons [of "ci_set hs k v"] u a ci_distinct_ci_set [of hs k v] by simp
qed

theorem ci_update_refines_witness:
  "ci_abs (ci_update [(''content-type'', ''text/plain'')] [(''Content-Type'', ''application/json''), (''X-A'', ''1'')]) ''content-type''
     = Some ''application/json''
   \<and> ci_distinct (ci_update [(''content-type'', ''text/plain'')] [(''Content-Type'', ''application/json''), (''X-A'', ''1'')])"
proof -
  have d: "ci_distinct [(''content-type'', ''text/plain'')]" by (simp add: ci_distinct_def)
  have l: "lower_ascii ''Content-Type'' = ''content-type''" "lower_ascii ''X-A'' = ''x-a''"
    by code_simp+
  show ?thesis
    using ci_update_refines [of "[(''content-type'', ''text/plain'')]" "[(''Content-Type'', ''application/json''), (''X-A'', ''1'')]"] d l
    by (simp add: ci_abs_update_def)
qed

text \<open>
  A \<open>Retry-After\<close> value that is the decimal text of an integer, padded with any whitespace Python's \<open>int()\<close> strips, is read back as that integer.
\<close>

theorem py_int_padded_roundtrip:
  assumes "list_all py_space a" and "list_all py_space b"
  shows "py_int (a @ int_str i @ b) = Some i"
proof -
  obtain c cs where cs: "nat_str (nat \<bar>i\<bar>) = c # cs" using nat_str_props [of "nat \<bar>i\<bar>"]
    by (cases "nat_str (nat \<bar>i\<bar>)") auto
  have dig: "\<forall>x \<in> set (c # cs). digit_val x \<noteq> None" using nat_str_props [of "nat \<bar>i\<bar>"] cs by simp
  have ne: "int_str i \<noteq> []" and hd: "\<not> py_space (hd (int_str i))" and lst: "\<not> py_space (last (int_str i))"
    using cs dig digit_not_space by (auto simp: int_str_def py_space_def)
  have "py_strip (a @ int_str i @ b) = int_str i" by (rule py_strip_pad [OF assms ne hd lst])
  moreover have "py_strip (int_str i) = int_str i" using py_strip_pad [of "[]" "[]", OF _ _ ne hd lst] by simp
  ultimately have "py_int (a @ int_str i @ b) = py_int (int_str i)" by (intro py_int_strip) simp
  then show ?thesis by (simp add: py_int_int_str)
qed

theorem py_int_padded_roundtrip_witness: "py_int ('' '' @ int_str (-7) @ [CHR 0x09]) = Some (-7)"
proof -
  have "list_all py_space '' ''" "list_all py_space [CHR 0x09]" by (simp_all add: py_space_def)
  then show ?thesis by (rule py_int_padded_roundtrip)
qed

end
