(* ===== verification/Shlex.thy ===== *)
theory Shlex
  imports Exceptions
begin

text \<open>
  \<open>shlex.split(s)\<close> of the Python standard library, which \<open>run\<close> applies to a string of
  arguments. \<open>shlex.split\<close> builds \<open>shlex(s, posix=True)\<close> with
  \<open>whitespace_split = True\<close> and no comment characters, and collects \<open>get_token()\<close>
  until it returns \<open>None\<close>. The function \<open>shlex_go\<close> is \<open>shlex.read_token\<close> with that
  outer loop folded in: its arguments are the lexer's \<open>state\<close> (\<open>None\<close> at end of
  input, else one of \<open>' '\<close>, \<open>'a'\<close>, a quote or the escape character), the
  locals \<open>escapedstate\<close>, \<open>quoted\<close> and \<open>token\<close> of the current \<open>read_token\<close> call,
  the tokens returned so far and the unread input. A \<open>break\<close> of \<open>read_token\<close>
  returns the token and starts the next call with fresh locals.
\<close>

definition shlex_whitespace :: string where
  "shlex_whitespace = [CHR '' '', CHR 0x09, CHR 0x0D, CHR 0x0A]"

definition shlex_quotes :: string where
  "shlex_quotes = [CHR 0x27, CHR 0x22]"

definition shlex_escape :: string where
  "shlex_escape = [CHR 0x5C]"

definition shlex_escapedquotes :: string where
  "shlex_escapedquotes = [CHR 0x22]"

text \<open>\<open>read_token\<close>'s result: \<open>None\<close> (end of tokens) for an empty, unquoted token.\<close>

definition emit_token :: "bool \<Rightarrow> string \<Rightarrow> string list \<Rightarrow> string list" where
  "emit_token quoted tok acc = (if tok = [] \<and> \<not> quoted then acc else acc @ [tok])"

fun shlex_go :: "char option \<Rightarrow> char \<Rightarrow> bool \<Rightarrow> string \<Rightarrow> string list \<Rightarrow> string \<Rightarrow> error + string list" where
  "shlex_go None esc quoted tok acc inp = Inr acc"
| "shlex_go (Some st) esc quoted tok acc [] =
     (if st = CHR '' '' then Inr acc
      else if st \<in> set shlex_quotes then Inl (Builtin (ValueError ''No closing quotation''))
      else if st \<in> set shlex_escape then Inl (Builtin (ValueError ''No escaped character''))
      else Inr (emit_token quoted tok acc))"
| "shlex_go (Some st) esc quoted tok acc (c # cs) =
     (if st = CHR '' '' then
        (if c \<in> set shlex_whitespace then
           (if tok \<noteq> [] \<or> quoted then shlex_go (Some st) CHR '' '' False [] (acc @ [tok]) cs
            else shlex_go (Some st) esc quoted tok acc cs)
         else if c \<in> set shlex_escape then shlex_go (Some c) CHR ''a'' quoted tok acc cs
         else if c \<in> set shlex_quotes then shlex_go (Some c) esc quoted tok acc cs
         else shlex_go (Some CHR ''a'') esc quoted [c] acc cs)
      else if st \<in> set shlex_quotes then
        (if c = st then shlex_go (Some CHR ''a'') esc True tok acc cs
         else if c \<in> set shlex_escape \<and> st \<in> set shlex_escapedquotes then shlex_go (Some c) st True tok acc cs
         else shlex_go (Some st) esc True (tok @ [c]) acc cs)
      else if st \<in> set shlex_escape then
        shlex_go (Some esc) esc quoted
          (tok @ (if esc \<in> set shlex_quotes \<and> c \<noteq> st \<and> c \<noteq> esc then [st] else []) @ [c]) acc cs
      else
        (if c \<in> set shlex_whitespace then
           (if tok \<noteq> [] \<or> quoted then shlex_go (Some CHR '' '') CHR '' '' False [] (acc @ [tok]) cs
            else shlex_go (Some CHR '' '') esc quoted tok acc cs)
         else if c \<in> set shlex_quotes then shlex_go (Some c) esc quoted tok acc cs
         else if c \<in> set shlex_escape then shlex_go (Some c) CHR ''a'' quoted tok acc cs
         else shlex_go (Some CHR ''a'') esc quoted (tok @ [c]) acc cs))"

definition shlex_split :: "string \<Rightarrow> error + string list" where
  "shlex_split s = shlex_go (Some CHR '' '') CHR '' '' False [] [] s"

text \<open>A word that \<open>shlex\<close> reads back as itself: no whitespace, quote or backslash.\<close>

definition plain_word :: "string \<Rightarrow> bool" where
  "plain_word w \<longleftrightarrow> w \<noteq> [] \<and> (\<forall>c \<in> set w. c \<notin> set shlex_whitespace \<and> c \<notin> set shlex_quotes \<and> c \<notin> set shlex_escape)"

text \<open>Words joined by single spaces, as a caller writes an argument string.\<close>

fun join_words :: "string list \<Rightarrow> string" where
  "join_words [] = []"
| "join_words [w] = w"
| "join_words (w # ws) = w @ '' '' @ join_words ws"

section \<open>Lemmas\<close>

lemma shlex_go_word:
  "\<forall>c \<in> set w. c \<notin> set shlex_whitespace \<and> c \<notin> set shlex_quotes \<and> c \<notin> set shlex_escape \<Longrightarrow>
   shlex_go (Some CHR ''a'') esc q tok acc (w @ rest) = shlex_go (Some CHR ''a'') esc q (tok @ w) acc rest"
proof (induction w arbitrary: tok)
  case Nil
  then show ?case by simp
next
  case (Cons c w)
  have "CHR ''a'' \<notin> set shlex_quotes" "CHR ''a'' \<notin> set shlex_escape" "CHR ''a'' \<noteq> CHR '' ''"
    by (simp_all add: shlex_quotes_def shlex_escape_def)
  with Cons show ?case by simp
qed

lemma shlex_go_plain_start:
  assumes "plain_word w"
  shows "shlex_go (Some CHR '' '') esc False [] acc (w @ rest) = shlex_go (Some CHR ''a'') esc False w acc rest"
proof -
  obtain c w' where w: "w = c # w'" using assms by (cases w) (auto simp: plain_word_def)
  with assms have "shlex_go (Some CHR ''a'') esc False [c] acc (w' @ rest) = shlex_go (Some CHR ''a'') esc False w acc rest"
    by (simp add: shlex_go_word plain_word_def)
  with w assms show ?thesis by (simp add: plain_word_def)
qed

lemma shlex_go_join_words:
  "\<forall>w \<in> set ws. plain_word w \<Longrightarrow> shlex_go (Some CHR '' '') esc False [] acc (join_words ws) = Inr (acc @ ws)"
proof (induction ws arbitrary: acc esc rule: join_words.induct)
  case 1
  then show ?case by simp
next
  case (2 w)
  then have "shlex_go (Some CHR '' '') esc False [] acc (w @ []) = shlex_go (Some CHR ''a'') esc False w acc []"
    by (intro shlex_go_plain_start) simp
  with "2.prems" show ?case
    by (simp add: plain_word_def emit_token_def shlex_quotes_def shlex_escape_def)
next
  case (3 w v ws)
  have sp: "CHR '' '' \<in> set shlex_whitespace" by (simp add: shlex_whitespace_def)
  have "shlex_go (Some CHR '' '') esc False [] acc (w @ '' '' @ join_words (v # ws))
        = shlex_go (Some CHR ''a'') esc False w acc ('' '' @ join_words (v # ws))"
    using "3.prems" by (intro shlex_go_plain_start) simp
  also have "\<dots> = shlex_go (Some CHR '' '') CHR '' '' False [] (acc @ [w]) (join_words (v # ws))"
    using "3.prems" sp by (simp add: plain_word_def shlex_quotes_def shlex_escape_def)
  also have "\<dots> = Inr (acc @ w # v # ws)"
    using "3" by simp
  finally show ?case by simp
qed

end
