(* ===== verification/CommandExec.thy ===== *)
theory CommandExec
  imports Transport Shlex
begin

text \<open>
  Command execution, \<open>OpsBeaconClient.run\<close> (\<open>src/opsbeacon/client.py\<close>, lines 512--576).
  Its keyword arguments are \<open>Optional\<close>: \<open>None\<close> is \<open>None\<close>, and Python's truthiness
  makes \<open>None\<close> and the empty string alike in its tests. \<open>args\<close> is a string, split by
  \<open>shlex.split\<close>, or a list of strings.
\<close>

datatype run_args = ArgsStr string | ArgsList "string list"

fun opt_truthy :: "string option \<Rightarrow> bool" where
  "opt_truthy None = False"
| "opt_truthy (Some s) = (s \<noteq> [])"

text \<open>\<open>a or b\<close> on optional strings.\<close>

definition opt_or :: "string option \<Rightarrow> string option \<Rightarrow> string option" where
  "opt_or a b = (if opt_truthy a then a else b)"

definition opt_json :: "string option \<Rightarrow> json" where
  "opt_json s = (case s of Some x \<Rightarrow> JStr x | None \<Rightarrow> JNull)"

text \<open>The body of the execution request, or the error raised before any request.\<close>

definition run_body :: "string option \<Rightarrow> string option \<Rightarrow> string option \<Rightarrow> run_args option \<Rightarrow> error + json" where
  "run_body command_text connection command args =
     (if opt_truthy command_text then Inr (JObj [(''commandLine'', opt_json command_text)])
      else if opt_truthy command \<and> opt_truthy connection then
        (let args_list = (case args of
                            Some (ArgsStr s) \<Rightarrow> if s \<noteq> [] then shlex_split s else Inr []
                          | Some (ArgsList xs) \<Rightarrow> Inr xs
                          | None \<Rightarrow> Inr [])
         in case args_list of
              Inl e \<Rightarrow> Inl e
            | Inr xs \<Rightarrow> Inr (JObj [(''command'', opt_json command), (''connection'', opt_json connection),
                                   (''arguments'', JList (map JStr xs))]))
      else Inl (ValidationError ''Either command_text or both connection and command are required'' None))"

definition run :: "env \<Rightarrow> client \<Rightarrow> string option \<Rightarrow> string option \<Rightarrow> string option \<Rightarrow> run_args option \<Rightarrow> json op" where
  "run E c command_text connection command args =
     (case run_body command_text connection command args of
        Inl e \<Rightarrow> throw e
      | Inr body \<Rightarrow>
          catchE
            (bindE (request E c ''POST'' ''/trigger/v1/api'' (Some body) None None None) (\<lambda>r. liftE (resp_json r)))
            is_api_error
            (\<lambda>e. throw (CommandExecutionError (''Command execution failed: '' @ err_str e)
                                               (opt_or command command_text) connection)))"

section \<open>Lemmas\<close>

lemma run_apply:
  "run E c command_text connection command args w =
     (case run_body command_text connection command args of
        Inl e \<Rightarrow> (Inl e, w)
      | Inr body \<Rightarrow>
          (let (res, w') = request E c ''POST'' ''/trigger/v1/api'' (Some body) None None None w in
           case res of
             Inr r \<Rightarrow> (resp_json r, w')
           | Inl e \<Rightarrow> (if is_api_error e
                       then Inl (CommandExecutionError (''Command execution failed: '' @ err_str e)
                                   (opt_or command command_text) connection)
                       else Inl e, w')))"
  by (auto simp: run_def monad_simps dest: resp_json_Inl split: sum.splits prod.splits)

lemma run_body_args_str:
  "s \<noteq> [] \<Longrightarrow> shlex_split s = Inr xs \<Longrightarrow>
   run_body command_text connection command (Some (ArgsStr s)) = run_body command_text connection command (Some (ArgsList xs))"
  by (simp add: run_body_def)

lemma run_preserves [preserves_intros]:
  "(\<And>E c m ep j d f h. preserves P (request E c m ep j d f h)) \<Longrightarrow> preserves P (run E c t cn cm a)"
  unfolding run_def by (intro preserves_intros) simp_all

lemma run_reply:
  assumes "run_body ct cn cm a = Inr body"
    and "net E (sent w) (simple_request c ''POST'' ''/trigger/v1/api'' (Some body)) = Reply r"
  shows "fst (run E c ct cn cm a w) =
           (case check_response r of
              Inr _ \<Rightarrow> resp_json r
            | Inl e \<Rightarrow> Inl (if is_api_error e
                           then CommandExecutionError (''Command execution failed: '' @ err_str e) (opt_or cm ct) cn
                           else e))"
  using assms by (auto simp: run_apply request_apply Let_def dest: check_response_Inr split: sum.splits)

lemma run_body_structured:
  "run_body None (Some ''srv'') (Some ''df'') None = Inr (JObj [(''command'', JStr ''df''), (''connection'', JStr ''srv''), (''arguments'', JList [])])"
  by (simp add: run_body_def opt_json_def)

section \<open>Properties of run\<close>

text \<open>
  Claim C6: \<open>run\<close> called with neither a command line nor both a connection and a command
  raises \<open>ValidationError\<close> and leaves the world untouched: no request is sent and
  nothing is logged.
\<close>

theorem run_validation_no_request:
  assumes "\<not> opt_truthy command_text" and "\<not> (opt_truthy command \<and> opt_truthy connection)"
  shows "run E c command_text connection command args w =
           (Inl (ValidationError ''Either command_text or both connection and command are required'' None), w)"
proof -
  have "run_body command_text connection command args =
          Inl (ValidationError ''Either command_text or both connection and command are required'' None)"
    using assms by (auto simp: run_body_def)
  then show ?thesis by (simp add: run_def)
qed

theorem run_validation_no_request_witness:
  "run (const_env (Failure (ReqOtherError ''unused''))) demo_client None (Some ''srv'') None None world0 =
     (Inl (ValidationError ''Either command_text or both connection and command are required'' None), world0)"
  by (rule run_validation_no_request) simp_all

text \<open>
  Claim C15: passing the arguments as one string of plain words joined by spaces and passing
  them as the list of those words are the same call: the same request, the same result,
  the same world.
\<close>

theorem run_args_string_as_list:
  assumes "\<forall>a \<in> set ws. plain_word a" and "ws \<noteq> []"
  shows "run E c command_text connection command (Some (ArgsStr (join_words ws)))
           = run E c command_text connection command (Some (ArgsList ws))"
proof -
  have split: "shlex_split (join_words ws) = Inr ws"
    using assms(1) shlex_go_join_words [of ws _ "[]"] by (simp add: shlex_split_def)
  have "join_words ws \<noteq> []"
    using assms by (cases ws rule: join_words.cases) (auto simp: plain_word_def)
  with split show ?thesis
    by (simp add: run_def run_body_args_str)
qed

theorem run_args_string_as_list_witness:
  "run (const_env (Reply (reply 200 (JObj [])))) demo_client None (Some ''srv'') (Some ''df'') (Some (ArgsStr ''--a b''))
     = run (const_env (Reply (reply 200 (JObj [])))) demo_client None (Some ''srv'') (Some ''df'') (Some (ArgsList [''--a'', ''b'']))"
proof -
  have "plain_word ''--a''" "plain_word ''b''" by code_simp+
  then show ?thesis
    using run_args_string_as_list [of "[''--a'', ''b'']"] by simp
qed



text \<open>
  When the execution request is answered with a success status, \<open>run\<close> returns the reply's JSON unchanged.
\<close>

theorem run_returns_json:
  assumes "run_body ct cn cm a = Inr body"
    and "net E (sent w) (simple_request c ''POST'' ''/trigger/v1/api'' (Some body)) = Reply r"
    and "resp_ok r" and "resp_body r = Some j"
  shows "fst (run E c ct cn cm a w) = Inr j"
  using assms by (simp add: run_reply check_response_ok resp_json_def)

theorem run_returns_json_witness:
  "fst (run (const_env (Reply (reply 200 (JObj [(''success'', JBool True)])))) demo_client None (Some ''srv'') (Some ''df'') None world0)
     = Inr (JObj [(''success'', JBool True)])"
  using run_returns_json [OF run_body_structured, of "const_env (Reply (reply 200 (JObj [(''success'', JBool True)])))" world0 demo_client]
  by (simp add: const_env_def answer_env_def reply_def resp_ok_def)

text \<open>
  Claim C33: An error status other than 401, 403, 404 and 429 with a JSON object body is re-raised as \<open>CommandExecutionError\<close> whose message is the \<open>APIError\<close>'s text with its status, carrying the command and the connection.
\<close>

theorem run_http_error_wrapped:
  assumes "run_body ct cn cm a = Inr body"
    and "net E (sent w) (simple_request c ''POST'' ''/trigger/v1/api'' (Some body)) = Reply r"
    and "400 \<le> status r" and "status r < 600" and "status r \<notin> {401, 403, 404, 429}" and "resp_body r = Some (JObj kvs)"
  shows "fst (run E c ct cn cm a w) =
           Inl (CommandExecutionError
                  (''Command execution failed: API error: '' @ py_str (dget kvs ''err'' (dget kvs ''error'' (JStr (resp_text r))))
                   @ '' (status: '' @ int_str (status r) @ '')'')
                  (opt_or cm ct) cn)"
proof -
  have "check_response r = Inl (APIError (''API error: '' @ py_str (dget kvs ''err'' (dget kvs ''error'' (JStr (resp_text r)))))
                                  (Some (status r)) (Some (resp_text r)))"
    using assms(3-6) by (simp add: check_response_def resp_ok_def handle_generic_status)
  then show ?thesis
    using assms(1,2,3) by (simp add: run_reply err_str_def)
qed

theorem run_http_error_wrapped_witness:
  "fst (run (const_env (Reply (reply 500 (JObj [(''err'', JStr ''bad'')])))) demo_client None (Some ''srv'') (Some ''df'') None world0)
     = Inl (CommandExecutionError ''Command execution failed: API error: bad (status: 500)'' (Some ''df'') (Some ''srv''))"
proof -
  have "fst (run (const_env (Reply (reply 500 (JObj [(''err'', JStr ''bad'')])))) demo_client None (Some ''srv'') (Some ''df'') None world0)
          = Inl (CommandExecutionError
                  (''Command execution failed: API error: '' @ py_str (dget [(''err'', JStr ''bad'')] ''err'' (dget [(''err'', JStr ''bad'')] ''error'' (JStr [])))
                   @ '' (status: '' @ int_str 500 @ '')'') (opt_or (Some ''df'') None) (Some ''srv''))"
    using run_http_error_wrapped [OF run_body_structured, of "const_env (Reply (reply 500 (JObj [(''err'', JStr ''bad'')])))" world0 demo_client
                                  "reply 500 (JObj [(''err'', JStr ''bad'')])"]
    by (simp add: const_env_def answer_env_def reply_def)
  moreover have "int_str 500 = ''500''" by code_simp
  ultimately show ?thesis by (simp add: opt_or_def)
qed

text \<open>
  Claim C7: A connection failure and a 401 reply are not wrapped: \<open>run\<close> raises \<open>ConnectionError\<close> and \<open>AuthenticationError\<close> as \<open>_request\<close> does, without the command's context, because neither class derives from \<open>APIError\<close>.
\<close>

theorem run_non_api_errors_unwrapped:
  assumes "run_body ct cn cm a = Inr body"
  shows "(net E (sent w) (simple_request c ''POST'' ''/trigger/v1/api'' (Some body)) = Failure (ReqConnectionError m) \<longrightarrow>
            fst (run E c ct cn cm a w) = Inl (ConnectionError (''Failed to connect to '' @ base_url c @ ''/trigger/v1/api'')))
       \<and> (net E (sent w) (simple_request c ''POST'' ''/trigger/v1/api'' (Some body)) = Reply r \<and> status r = 401 \<longrightarrow>
            fst (run E c ct cn cm a w) = Inl authentication_error_default)"
  using assms
  by (auto simp: run_reply run_apply request_apply transport_failure_def Let_def check_response_def resp_ok_def
                 handle_response_error_def authentication_error_default_def)

theorem run_non_api_errors_unwrapped_witness:
  "fst (run (const_env (Failure (ReqConnectionError ''refused''))) demo_client None (Some ''srv'') (Some ''df'') None world0)
     = Inl (ConnectionError ''Failed to connect to https://api.example.com/trigger/v1/api'')
   \<and> fst (run (const_env (Reply (reply 401 (JObj [])))) demo_client None (Some ''srv'') (Some ''df'') None world0)
     = Inl authentication_error_default"
proof -
  have n1: "net (const_env (Failure (ReqConnectionError ''refused''))) (sent world0)
              (simple_request demo_client ''POST'' ''/trigger/v1/api'' (Some (JObj [(''command'', JStr ''df''), (''connection'', JStr ''srv''), (''arguments'', JList [])])))
            = Failure (ReqConnectionError ''refused'')"
    by (simp add: const_env_def answer_env_def)
  have n2: "net (const_env (Reply (reply 401 (JObj [])))) (sent world0)
              (simple_request demo_client ''POST'' ''/trigger/v1/api'' (Some (JObj [(''command'', JStr ''df''), (''connection'', JStr ''srv''), (''arguments'', JList [])])))
            = Reply (reply 401 (JObj [])) \<and> status (reply 401 (JObj [])) = 401"
    by (simp add: const_env_def answer_env_def reply_def)
  show ?thesis
    using run_non_api_errors_unwrapped [OF run_body_structured, of "const_env (Failure (ReqConnectionError ''refused''))" world0 demo_client]
          run_non_api_errors_unwrapped [OF run_body_structured, of "const_env (Reply (reply 401 (JObj [])))" world0 demo_client]
          n1 n2 by (simp add: base_url_def demo_client_def)
qed

end
