(* ===== verification/Resources.thy ===== *)
theory Resources
  imports Transport
begin

text \<open>
  The resource accessors of \<open>OpsBeaconClient\<close> (\<open>src/opsbeacon/client.py\<close>): commands
  (lines 234--245), connections (251--262), users (268--318), groups (324--373) and
  policies (1041--1135). A list accessor is one GET and \<open>response.json().get(key, [])\<close>;
  a create is a POST of the caller's data after a truthiness check; a delete is a DELETE
  after a non-empty check; \<open>get_policy\<close> falls back to scanning \<open>policies()\<close> when the
  direct GET raises an \<open>APIError\<close>. Nothing is cached: every call sends its request.
\<close>

section \<open>Shared steps\<close>

text \<open>\<open>response.json()\<close> after a request.\<close>

definition request_json :: "env \<Rightarrow> client \<Rightarrow> string \<Rightarrow> string \<Rightarrow> json option \<Rightarrow> json op" where
  "request_json E c m ep j = bindE (request E c m ep j None None None) (\<lambda>r. liftE (resp_json r))"

text \<open>\<open>response.json().get(key, [])\<close> of a GET.\<close>

definition list_field :: "env \<Rightarrow> client \<Rightarrow> string \<Rightarrow> string \<Rightarrow> json op" where
  "list_field E c ep key = bindE (request_json E c ''GET'' ep None) (\<lambda>j. liftE (py_get j key (JList [])))"

text \<open>\<open>for x in xs: if x.get("name") == name: return x\<close>.\<close>

fun find_named :: "json list \<Rightarrow> string \<Rightarrow> error + json option" where
  "find_named [] n = Inr None"
| "find_named (t # ts) n = bindR (py_get t ''name'' JNull) (\<lambda>v. if v = JStr n then Inr (Some t) else find_named ts n)"

definition required :: "string \<Rightarrow> string \<Rightarrow> error" where
  "required msg fld = ValidationError msg (Some fld)"

section \<open>Commands and connections\<close>

definition commands :: "env \<Rightarrow> client \<Rightarrow> json op" where
  "commands E c = list_field E c ''/workspace/v2/commands'' ''commands''"

definition connections :: "env \<Rightarrow> client \<Rightarrow> json op" where
  "connections E c = list_field E c ''/workspace/v2/connections'' ''connections''"

section \<open>Users\<close>

definition users :: "env \<Rightarrow> client \<Rightarrow> json op" where
  "users E c = list_field E c ''/workspace/v2/users'' ''users''"

definition add_user :: "env \<Rightarrow> client \<Rightarrow> json \<Rightarrow> json op" where
  "add_user E c user =
     (if \<not> truthy user then throw (required ''User data is required'' ''user'')
      else request_json E c ''POST'' ''/workspace/v2/users'' (Some user))"

definition delete_user :: "env \<Rightarrow> client \<Rightarrow> string \<Rightarrow> bool op" where
  "delete_user E c user_id =
     (if user_id = [] then throw (required ''user_id is required'' ''user_id'')
      else bindE (request E c ''DELETE'' (''/workspace/v2/users/'' @ user_id) None None None None) (\<lambda>_. ret True))"

section \<open>Groups\<close>

definition groups :: "env \<Rightarrow> client \<Rightarrow> json op" where
  "groups E c = list_field E c ''/workspace/v2/policy/group'' ''groups''"

definition add_group :: "env \<Rightarrow> client \<Rightarrow> json \<Rightarrow> json op" where
  "add_group E c grp =
     (if \<not> truthy grp then throw (required ''Group data is required'' ''group'')
      else request_json E c ''POST'' ''/workspace/v2/policy/group'' (Some grp))"

definition delete_group :: "env \<Rightarrow> client \<Rightarrow> string \<Rightarrow> bool op" where
  "delete_group E c group_name =
     (if group_name = [] then throw (required ''group_name is required'' ''group_name'')
      else bindE (request E c ''DELETE'' (''/workspace/v2/policy/group/'' @ group_name) None None None None) (\<lambda>_. ret True))"

section \<open>Policies\<close>

definition policies :: "env \<Rightarrow> client \<Rightarrow> json op" where
  "policies E c = list_field E c ''/workspace/v2/policy'' ''policies''"

definition policy_payload :: "string \<Rightarrow> string \<Rightarrow> string list option \<Rightarrow> string list option \<Rightarrow> json" where
  "policy_payload name description cmds conns =
     JObj [(''name'', JStr name), (''description'', JStr description),
           (''commands'', JList (map JStr (case cmds of Some xs \<Rightarrow> xs | None \<Rightarrow> []))),
           (''connections'', JList (map JStr (case conns of Some xs \<Rightarrow> xs | None \<Rightarrow> [])))]"

definition create_policy :: "env \<Rightarrow> client \<Rightarrow> string \<Rightarrow> string \<Rightarrow> string list option \<Rightarrow> string list option \<Rightarrow> json op" where
  "create_policy E c name description cmds conns =
     (if name = [] then throw (required ''name is required'' ''name'')
      else request_json E c ''POST'' ''/workspace/v2/policy'' (Some (policy_payload name description cmds conns)))"

definition get_policy :: "env \<Rightarrow> client \<Rightarrow> string \<Rightarrow> json op" where
  "get_policy E c name =
     (if name = [] then throw (required ''name is required'' ''name'')
      else catchE (request_json E c ''GET'' (''/workspace/v2/policy/'' @ name) None) is_api_error
             (\<lambda>_. bindE (policies E c) (\<lambda>all.
                    liftE (bindR (py_iter all) (\<lambda>xs. bindR (find_named xs name) (\<lambda>found.
                      case found of Some p \<Rightarrow> Inr p | None \<Rightarrow> Inl (ResourceNotFoundError ''Policy'' name)))))))"

definition delete_policy :: "env \<Rightarrow> client \<Rightarrow> string \<Rightarrow> bool op" where
  "delete_policy E c name =
     (if name = [] then throw (required ''name is required'' ''name'')
      else bindE (request E c ''DELETE'' (''/workspace/v2/policy/'' @ name) None None None None) (\<lambda>_. ret True))"


section \<open>Fixtures\<close>

definition policy_env :: env where
  "policy_env = route_env (\<lambda>m p. if p = ''/workspace/v2/policy''
                                  then Reply (reply 200 (JObj [(''policies'', JList [JObj [(''name'', JStr ''ops'')]])]))
                                  else Reply (reply 500 (JObj [(''err'', JStr ''boom'')])))"

section \<open>Lemmas\<close>

lemma request_json_apply:
  "request_json E c m ep j w =
     (case request E c m ep j None None None w of
        (Inl e, w') \<Rightarrow> (Inl e, w')
      | (Inr r, w') \<Rightarrow> (resp_json r, w'))"
  by (simp add: request_json_def bindE_apply split: prod.splits sum.splits)

lemma request_json_sent: "sent (snd (request_json E c m ep j w)) = sent w @ [simple_request c m ep j]"
proof (cases "request E c m ep j None None None w")
  case (Pair res w')
  with request_sent [of E c m ep j None None None w] show ?thesis
    by (cases res) (simp_all add: request_json_apply)
qed

lemma request_json_reply:
  "net E (sent w) (simple_request c m ep j) = Reply r \<Longrightarrow> resp_ok r \<Longrightarrow> resp_body r = Some b \<Longrightarrow>
   fst (request_json E c m ep j w) = Inr b"
  by (simp add: request_json_apply request_apply check_response_ok resp_json_def Let_def)

lemma list_field_reply:
  "net E (sent w) (simple_request c ''GET'' ep None) = Reply r \<Longrightarrow> resp_ok r \<Longrightarrow> resp_body r = Some (JObj kvs) \<Longrightarrow>
   fst (list_field E c ep key w) = Inr (dget kvs key (JList []))"
proof -
  assume a: "net E (sent w) (simple_request c ''GET'' ep None) = Reply r" "resp_ok r" "resp_body r = Some (JObj kvs)"
  obtain w' where "request_json E c ''GET'' ep None w = (Inr (JObj kvs), w')"
    using request_json_reply [OF a] by (cases "request_json E c ''GET'' ep None w") auto
  then show ?thesis by (simp add: list_field_def)
qed

lemma find_named_Some: "find_named xs n = Inr (Some t) \<Longrightarrow> t \<in> set xs \<and> py_get t ''name'' JNull = Inr (JStr n)"
  by (induction xs) (auto simp: bindR_def split: sum.splits if_splits)

lemma find_named_dicts:
  "\<forall>t \<in> set xs. \<exists>kvs. t = JObj kvs \<Longrightarrow>
   find_named xs n = Inr (find (\<lambda>t. py_get t ''name'' JNull = Inr (JStr n)) xs)"
  by (induction xs) auto



lemma get_policy_fallback_apply:
  "name \<noteq> [] \<Longrightarrow> request_json E c ''GET'' (''/workspace/v2/policy/'' @ name) None w = (Inl e, w1) \<Longrightarrow>
   is_api_error e \<Longrightarrow>
   get_policy E c name w =
     (case policies E c w1 of
        (Inl e', w2) \<Rightarrow> (Inl e', w2)
      | (Inr all, w2) \<Rightarrow> (bindR (py_iter all) (\<lambda>xs. bindR (find_named xs name) (\<lambda>found.
                          case found of Some p \<Rightarrow> Inr p | None \<Rightarrow> Inl (ResourceNotFoundError ''Policy'' name))), w2))"
  by (simp add: get_policy_def bindE_apply catchE_apply split: prod.splits sum.splits)


section \<open>Properties\<close>

text \<open>
  Claim C31: Every resource operation given a falsy body or an empty name raises \<open>ValidationError\<close> naming the field, and leaves the world as it was: no request is sent and nothing is logged.
\<close>

theorem resource_validation_no_request:
  assumes "\<not> truthy user" and "\<not> truthy grp"
  shows "add_user E c user w = (Inl (ValidationError ''User data is required'' (Some ''user'')), w)
       \<and> delete_user E c [] w = (Inl (ValidationError ''user_id is required'' (Some ''user_id'')), w)
       \<and> add_group E c grp w = (Inl (ValidationError ''Group data is required'' (Some ''group'')), w)
       \<and> delete_group E c [] w = (Inl (ValidationError ''group_name is required'' (Some ''group_name'')), w)
       \<and> create_policy E c [] d cmds conns w = (Inl (ValidationError ''name is required'' (Some ''name'')), w)
       \<and> get_policy E c [] w = (Inl (ValidationError ''name is required'' (Some ''name'')), w)
       \<and> delete_policy E c [] w = (Inl (ValidationError ''name is required'' (Some ''name'')), w)"
  using assms by (simp add: add_user_def delete_user_def add_group_def delete_group_def create_policy_def
                            get_policy_def delete_policy_def required_def)

theorem resource_validation_no_request_witness:
  "add_user (const_env (Reply (reply 200 (JObj [])))) demo_client (JObj []) world0 = (Inl (ValidationError ''User data is required'' (Some ''user'')), world0)
   \<and> add_group (const_env (Reply (reply 200 (JObj [])))) demo_client JNull world0 = (Inl (ValidationError ''Group data is required'' (Some ''group'')), world0)"
  using resource_validation_no_request [of "JObj []" JNull "const_env (Reply (reply 200 (JObj [])))" demo_client world0] by simp

text \<open>
  Claim C32: When the direct lookup of a policy raises an API error (any status, not only 404), \<open>get_policy\<close> answers from the full policy listing: the first policy with the name, else \<open>ResourceNotFoundError('Policy', name)\<close>.
\<close>

theorem get_policy_fallback:
  assumes "name \<noteq> []"
    and "request_json E c ''GET'' (''/workspace/v2/policy/'' @ name) None w = (Inl e, w1)" and "is_api_error e"
    and "fst (policies E c w1) = Inr (JList ps)" and "\<forall>p \<in> set ps. \<exists>kvs. p = JObj kvs"
  shows "fst (get_policy E c name w) =
           (case find (\<lambda>p. py_get p ''name'' JNull = Inr (JStr name)) ps of
              Some p \<Rightarrow> Inr p | None \<Rightarrow> Inl (ResourceNotFoundError ''Policy'' name))"
  using assms by (auto simp: get_policy_fallback_apply find_named_dicts split: prod.splits sum.splits option.splits)

theorem get_policy_fallback_witness:
  "fst (get_policy policy_env demo_client ''ops'' world0) = Inr (JObj [(''name'', JStr ''ops'')])"
proof -
  let ?r = "request_json policy_env demo_client ''GET'' (''/workspace/v2/policy/'' @ ''ops'') None world0"
  have e: "?r = (Inl (APIError ''API error: boom'' (Some 500) (Some [])), snd ?r)"
    by (simp add: prod_eq_iff request_json_apply request_apply policy_env_def route_env_def answer_env_def
                  wire_request_def reply_def check_response_def resp_ok_def handle_response_error_def Let_def)
  have p: "fst (policies policy_env demo_client (snd ?r)) = Inr (JList [JObj [(''name'', JStr ''ops'')]])"
    by (simp add: policies_def list_field_def bindE_apply request_json_apply request_apply policy_env_def route_env_def
                  answer_env_def wire_request_def reply_def check_response_def resp_ok_def resp_json_def Let_def)
  have a: "is_api_error (APIError ''API error: boom'' (Some 500) (Some []))" by simp
  have d: "\<forall>p \<in> set [JObj [(''name'', JStr ''ops'')]]. \<exists>kvs. p = JObj kvs" by simp
  show ?thesis using get_policy_fallback [OF _ e a p d] by simp
qed

end
