(* ===== verification/Files.thy ===== *)
theory Files
  imports CommandExec Resources
begin

text \<open>
  The file operations of \<open>OpsBeaconClient\<close> (\<open>src/opsbeacon/client.py\<close>): \<open>file_upload\<close>
  (lines 379--438), \<open>get_file_download_url\<close> (440--469) and \<open>file_download\<close> (471--506).
  The local file system is the world's \<open>local_files\<close>, a map from path strings to
  contents: \<open>Path(p).exists()\<close> is \<open>p \<in> dom (local_files w)\<close>, \<open>open("rb")\<close> reads the
  content, \<open>write_bytes\<close> updates the map. Paths are compared as written (no
  normalisation besides \<open>Path.name\<close>). The download is a bare \<open>requests.get\<close>: it goes
  through \<open>net\<close> like every request but bypasses the session, so it carries none of the
  session's headers and is not logged.
\<close>

section \<open>Paths\<close>

text \<open>The components of a POSIX path: split at \<open>/\<close>, empty and \<open>.\<close> components dropped.\<close>

fun path_parts :: "string \<Rightarrow> string \<Rightarrow> string list" where
  "path_parts cur [] = (if cur = [] \<or> cur = ''.'' then [] else [cur])"
| "path_parts cur (ch # cs) =
     (if ch = CHR ''/'' then (if cur = [] \<or> cur = ''.'' then [] else [cur]) @ path_parts [] cs
      else path_parts (cur @ [ch]) cs)"

text \<open>\<open>Path(p).name\<close>: the last component, empty for a path with none.\<close>

definition path_name :: "string \<Rightarrow> string" where
  "path_name p = (case path_parts [] p of [] \<Rightarrow> [] | xs \<Rightarrow> last xs)"

text \<open>\<open>a or b\<close> of an optional string and a string.\<close>

definition str_or :: "string option \<Rightarrow> string \<Rightarrow> string" where
  "str_or a b = (case a of Some x \<Rightarrow> if x \<noteq> [] then x else b | None \<Rightarrow> b)"

section \<open>Upload\<close>

text \<open>
  The \<open>files\<close> and \<open>data\<close> of the upload, or the error raised before the request:
  the \<open>if\<close>/\<open>elif\<close>/\<open>else\<close> of lines 401--423.
\<close>

definition upload_parts :: "string option \<Rightarrow> string option \<Rightarrow> string option
    \<Rightarrow> ((string \<times> upload) list \<times> (string \<times> string) list) op" where
  "upload_parts file_content file_name input_file =
     (case file_content of
        Some content \<Rightarrow>
          (case file_name of
             Some n \<Rightarrow> if n \<noteq> [] then ret ([(''file'', Upload n content ''text/csv'')], [(''filename'', n)])
                      else throw (required ''file_name is required when uploading content'' ''file_name'')
           | None \<Rightarrow> throw (required ''file_name is required when uploading content'' ''file_name''))
      | None \<Rightarrow>
          (case input_file of
             Some p \<Rightarrow>
               bindE (getsE (\<lambda>w. local_files w p)) (\<lambda>stored.
                 case stored of
                   None \<Rightarrow> throw (FileOperationError (''File not found: '' @ p) (Some p) (Some ''upload''))
                 | Some bytes \<Rightarrow>
                     (let actual_file_name = str_or file_name (path_name p) in
                      ret ([(''file'', Upload actual_file_name bytes ''application/octet-stream'')],
                           [(''filename'', actual_file_name)])))
           | None \<Rightarrow> throw (ValidationError ''Either file_content or input_file must be provided'' None)))"

definition file_upload :: "env \<Rightarrow> client \<Rightarrow> string option \<Rightarrow> string option \<Rightarrow> string option \<Rightarrow> string op" where
  "file_upload E c file_content file_name input_file =
     bindE (upload_parts file_content file_name input_file) (\<lambda>(files, data).
       catchE
         (bindE (request E c ''POST'' ''/workspace/v2/files'' None (Some data) (Some files) None)
                (\<lambda>r. ret (resp_text r)))
         is_api_error
         (\<lambda>e. throw (FileOperationError (''Failed to upload file: '' @ err_str e) file_name (Some ''upload''))))"

section \<open>Download\<close>

definition get_file_download_url :: "env \<Rightarrow> client \<Rightarrow> string \<Rightarrow> json op" where
  "get_file_download_url E c file_id =
     (if file_id = [] then throw (required ''file_id is required'' ''file_id'')
      else
        bindE (request_json E c ''GET'' (''/workspace/v2/file-url/'' @ file_id) None) (\<lambda>result.
        bindE (liftE (py_get result ''success'' (JBool False))) (\<lambda>ok.
        if \<not> truthy ok then
          bindE (liftE (py_get result ''err'' (JStr ''Unknown error''))) (\<lambda>error_msg.
          throw (FileOperationError (py_str error_msg) (Some file_id) (Some ''get_download_url'')))
        else liftE (py_getitem result ''url''))))"

text \<open>\<open>requests.get(url, timeout=self.timeout)\<close>: no session, so no session headers.\<close>

definition download_request :: "client \<Rightarrow> string \<Rightarrow> http_request" where
  "download_request c url =
     \<lparr>req_method = ''GET'', req_url = url, req_headers = [], req_json = None, req_data = None,
      req_files = None, req_timeout = Some (timeout c)\<rparr>"

text \<open>
  \<open>str(e)\<close> of the \<open>HTTPError\<close> of \<open>raise_for_status\<close>; the model's responses carry no
  reason phrase, which is empty here.
\<close>

definition http_error_msg :: "string \<Rightarrow> response \<Rightarrow> string" where
  "http_error_msg url r =
     int_str (status r) @ (if status r < 500 then '' Client Error: '' else '' Server Error: '') @ '' for url: '' @ url"

definition file_download :: "env \<Rightarrow> client \<Rightarrow> string \<Rightarrow> string option \<Rightarrow> bool op" where
  "file_download E c file_name destination_path =
     (if file_name = [] then throw (required ''file_name is required'' ''file_name'')
      else
        bindE (get_file_download_url E c file_name) (\<lambda>download_url.
        (let dest = str_or destination_path file_name; url = py_str download_url in
         bindE (send E (download_request c url)) (\<lambda>out.
         case out of
           Failure x \<Rightarrow>
             throw (FileOperationError (''Failed to download file: '' @ req_exc_msg x) (Some file_name) (Some ''download''))
         | Reply r \<Rightarrow>
             if \<not> resp_ok r then
               throw (FileOperationError (''Failed to download file: '' @ http_error_msg url r) (Some file_name) (Some ''download''))
             else bindE (modifyE (\<lambda>w. w\<lparr>local_files := (local_files w)(dest \<mapsto> resp_text r)\<rparr>)) (\<lambda>_. ret True)))))"


section \<open>Fixtures\<close>

definition file_url_reply :: json where
  "file_url_reply = JObj [(''success'', JBool True), (''url'', JStr ''https://files.example.com/r.csv'')]"

definition file_env :: env where
  "file_env = answer_env (\<lambda>_ q. if req_url q = ''https://files.example.com/r.csv''
                                 then Reply \<lparr>status = 200, resp_headers = [], resp_text = ''a,b'', resp_body = None\<rparr>
                                 else Reply (reply 200 file_url_reply))"


section \<open>Lemmas\<close>

lemma upload_parts_content:
  "n \<noteq> [] \<Longrightarrow> upload_parts (Some content) (Some n) inp w = (Inr ([(''file'', Upload n content ''text/csv'')], [(''filename'', n)]), w)"
  by (simp add: upload_parts_def)

lemma file_upload_apply:
  "upload_parts fc fn inp w = (Inr (files, data), w1) \<Longrightarrow>
   file_upload E c fc fn inp w =
     (case request E c ''POST'' ''/workspace/v2/files'' None (Some data) (Some files) None w1 of
        (Inr r, w2) \<Rightarrow> (Inr (resp_text r), w2)
      | (Inl e, w2) \<Rightarrow> (if is_api_error e then Inl (FileOperationError (''Failed to upload file: '' @ err_str e) fn (Some ''upload'')) else Inl e, w2))"
  by (simp add: file_upload_def bindE_apply catchE_apply split: prod.splits sum.splits)

lemma file_upload_sent:
  assumes "upload_parts fc fn inp w = (Inr (files, data), w1)"
  shows "sent (snd (file_upload E c fc fn inp w)) = sent w1 @ [wire_request c ''POST'' ''/workspace/v2/files'' None (Some data) (Some files) None]"
proof -
  obtain res w2 where r: "request E c ''POST'' ''/workspace/v2/files'' None (Some data) (Some files) None w1 = (res, w2)"
    by fastforce
  moreover have "sent w2 = sent w1 @ [wire_request c ''POST'' ''/workspace/v2/files'' None (Some data) (Some files) None]"
    using request_sent [of E c "''POST''" "''/workspace/v2/files''" None "Some data" "Some files" None w1] r by simp
  ultimately show ?thesis
    using file_upload_apply [OF assms, where E = E and c = c] by (cases res) simp_all
qed

lemma ci_get_ci_update: "ci_get (ci_update hs new) k = (case map_of (rev (map (\<lambda>(k', v). (lower_ascii k', v)) new)) (lower_ascii k) of Some v \<Rightarrow> Some v | None \<Rightarrow> ci_get hs k)"
  by (induction new arbitrary: hs) (auto simp: ci_update_def ci_get_ci_set split: option.splits)

lemma client_init_content_type:
  "client_init lib domain tok t dbg = Inr c \<Longrightarrow> ci_get (session_headers c) ''Content-Type'' = Some ''application/json''"
proof -
  have "lower_ascii ''User-Agent'' \<noteq> lower_ascii ''Content-Type''"
    by (simp add: lower_ascii_def lower_char_def)
  then show "client_init lib domain tok t dbg = Inr c \<Longrightarrow> ci_get (session_headers c) ''Content-Type'' = Some ''application/json''"
    by (auto simp: client_init_def ci_get_ci_update split: if_splits)
qed

lemma content_type_not_logged: "fs \<noteq> [] \<Longrightarrow> ''Content-Type'' \<notin> fst ` set (logged_headers c (Some fs) None)"
  by (auto simp: logged_headers_def dict_pop_def Let_def)

lemma get_file_download_url_reply:
  assumes "file_id \<noteq> []"
    and "net E (sent w) (simple_request c ''GET'' (''/workspace/v2/file-url/'' @ file_id) None) = Reply r"
    and "resp_ok r" and "resp_body r = Some (JObj kvs)"
  shows "fst (get_file_download_url E c file_id w) =
           (if truthy (dget kvs ''success'' (JBool False)) then py_getitem (JObj kvs) ''url''
            else Inl (FileOperationError (py_str (dget kvs ''err'' (JStr ''Unknown error''))) (Some file_id) (Some ''get_download_url'')))"
proof -
  obtain w' where "request_json E c ''GET'' (''/workspace/v2/file-url/'' @ file_id) None w = (Inr (JObj kvs), w')"
    using request_json_reply [OF assms(2-4)] by (metis prod.collapse)
  then show ?thesis using assms(1) by (simp add: get_file_download_url_def bindE_apply)
qed

lemma request_json_local_files [simp]: "local_files (snd (request_json E c m ep j w)) = local_files w"
proof (cases "request E c m ep j None None None w")
  case (Pair res w')
  with request_local_files [of E c m ep j None None None w] show ?thesis
    by (cases res) (simp_all add: request_json_apply)
qed

lemma get_file_download_url_ok:
  assumes "file_id \<noteq> []"
    and "net E (sent w) (simple_request c ''GET'' (''/workspace/v2/file-url/'' @ file_id) None) = Reply r"
    and "resp_ok r" and "resp_body r = Some (JObj kvs)" and "truthy (dget kvs ''success'' (JBool False))"
    and "map_of kvs ''url'' = Some u"
  shows "\<exists>w1. get_file_download_url E c file_id w = (Inr u, w1) \<and> local_files w1 = local_files w
           \<and> sent w1 = sent w @ [simple_request c ''GET'' (''/workspace/v2/file-url/'' @ file_id) None]"
proof -
  obtain w1 where q: "request_json E c ''GET'' (''/workspace/v2/file-url/'' @ file_id) None w = (Inr (JObj kvs), w1)"
    using request_json_reply [OF assms(2-4)] by (metis prod.collapse)
  then have "get_file_download_url E c file_id w = (Inr u, w1)"
    using assms(1,5,6) by (simp add: get_file_download_url_def bindE_apply dget_def)
  moreover have "sent w1 = sent w @ [simple_request c ''GET'' (''/workspace/v2/file-url/'' @ file_id) None]"
    using request_json_sent [of E c "''GET''" "''/workspace/v2/file-url/'' @ file_id" None w] q by simp
  moreover have "local_files w1 = local_files w"
    using arg_cong [OF q, of "\<lambda>x. local_files (snd x)"] by simp
  ultimately show ?thesis by blast
qed

lemma client_init_demo: "client_init [] ''api.example.com'' ''tok'' 30 False = Inr demo_client"
  by (simp add: client_init_def demo_client_def ci_update_def SDK_VERSION_def lower_ascii_def lower_char_def rstrip_char_def)


section \<open>Properties\<close>

text \<open>
  Claim C3: Uploading content sends the multipart request with the session's \<open>Content-Type: application/json\<close> still set: \<open>_request\<close> pops \<open>Content-Type\<close> only from the copy of the headers it logs, and passes the caller's \<open>headers\<close> (here none) to the session, which merges its own.
\<close>

theorem file_upload_keeps_json_content_type:
  assumes "client_init lib domain tok t dbg = Inr c" and "n \<noteq> []"
  shows "\<exists>q. sent (snd (file_upload E c (Some content) (Some n) None w)) = sent w @ [q]
             \<and> req_files q = Some [(''file'', Upload n content ''text/csv'')]
             \<and> ci_get (req_headers q) ''Content-Type'' = Some ''application/json''
             \<and> ''Content-Type'' \<notin> fst ` set (logged_headers c (req_files q) None)"
proof -
  let ?q = "wire_request c ''POST'' ''/workspace/v2/files'' None (Some [(''filename'', n)]) (Some [(''file'', Upload n content ''text/csv'')]) None"
  have s: "sent (snd (file_upload E c (Some content) (Some n) None w)) = sent w @ [?q]"
    using file_upload_sent [OF upload_parts_content [OF assms(2)]] .
  have h: "ci_get (req_headers ?q) ''Content-Type'' = Some ''application/json''"
    using client_init_content_type [OF assms(1)] by (simp add: wire_request_def ci_update_def)
  show ?thesis
    using s h content_type_not_logged by (intro exI [of _ ?q]) (simp add: wire_request_def)
qed

theorem file_upload_keeps_json_content_type_witness:
  "\<exists>q. sent (snd (file_upload (const_env (Reply (reply 200 (JObj [])))) demo_client (Some ''a,b'') (Some ''r.csv'') None world0)) = sent world0 @ [q]
       \<and> req_files q = Some [(''file'', Upload ''r.csv'' ''a,b'' ''text/csv'')]
       \<and> ci_get (req_headers q) ''Content-Type'' = Some ''application/json''
       \<and> ''Content-Type'' \<notin> fst ` set (logged_headers demo_client (req_files q) None)"
  using file_upload_keeps_json_content_type [OF client_init_demo, of "''r.csv''"] by simp

text \<open>
  Claim C28: Uploading a local file that does not exist raises \<open>FileOperationError\<close> naming the path, before any request.
\<close>

theorem file_upload_missing_file:
  "local_files w p = None \<Longrightarrow>
   file_upload E c None fn (Some p) w = (Inl (FileOperationError (''File not found: '' @ p) (Some p) (Some ''upload'')), w)"
  by (simp add: file_upload_def upload_parts_def bindE_apply)

theorem file_upload_missing_file_witness:
  "file_upload (const_env (Reply (reply 200 (JObj [])))) demo_client None None (Some ''data.csv'') world0
     = (Inl (FileOperationError (''File not found: '' @ ''data.csv'') (Some ''data.csv'') (Some ''upload'')), world0)"
  by (rule file_upload_missing_file) (simp add: world0_def)

text \<open>
  Claim C19: When the upload of a local file given without \<open>file_name\<close> fails with an API error, the \<open>FileOperationError\<close> raised carries no file name, although the request named the file by its path's last component.
\<close>

theorem file_upload_error_loses_name:
  assumes "local_files w p = Some bytes"
    and "fst (request E c ''POST'' ''/workspace/v2/files'' None (Some [(''filename'', path_name p)])
               (Some [(''file'', Upload (path_name p) bytes ''application/octet-stream'')]) None w) = Inl e"
    and "is_api_error e"
  shows "fst (file_upload E c None None (Some p) w) = Inl (FileOperationError (''Failed to upload file: '' @ err_str e) None (Some ''upload''))"
proof -
  have "upload_parts None None (Some p) w = (Inr ([(''file'', Upload (path_name p) bytes ''application/octet-stream'')], [(''filename'', path_name p)]), w)"
    using assms(1) by (simp add: upload_parts_def str_or_def bindE_apply Let_def)
  from file_upload_apply [OF this, where E = E and c = c] show ?thesis
    using assms(2,3) by (simp split: prod.splits sum.splits)
qed

theorem file_upload_error_loses_name_witness:
  "fst (file_upload (const_env (Reply (reply 500 (JObj [(''error'', JStr ''disk full'')])))) demo_client None None (Some ''dir/report.csv'')
          (world0\<lparr>local_files := [''dir/report.csv'' \<mapsto> ''x'']\<rparr>))
     = Inl (FileOperationError (''Failed to upload file: '' @ err_str (APIError ''API error: disk full'' (Some 500) (Some []))) None (Some ''upload''))"
proof -
  let ?w = "world0\<lparr>local_files := [''dir/report.csv'' \<mapsto> ''x'']\<rparr>"
  have l: "local_files ?w ''dir/report.csv'' = Some ''x''" by simp
  have r: "fst (request (const_env (Reply (reply 500 (JObj [(''error'', JStr ''disk full'')])))) demo_client ''POST'' ''/workspace/v2/files'' None
              (Some [(''filename'', path_name ''dir/report.csv'')])
              (Some [(''file'', Upload (path_name ''dir/report.csv'') ''x'' ''application/octet-stream'')]) None ?w)
           = Inl (APIError ''API error: disk full'' (Some 500) (Some []))"
    by (simp add: request_apply const_env_def answer_env_def reply_def check_response_def resp_ok_def
                  handle_response_error_def Let_def)
  have a: "is_api_error (APIError ''API error: disk full'' (Some 500) (Some []))" by simp
  show ?thesis using file_upload_error_loses_name [OF l r a] .
qed

text \<open>
  A download-URL reply whose \<open>success\<close> is falsy raises \<open>FileOperationError\<close> with the reply's \<open>err\<close> as message.
\<close>

theorem get_file_download_url_unsuccessful:
  assumes "file_id \<noteq> []"
    and "net E (sent w) (simple_request c ''GET'' (''/workspace/v2/file-url/'' @ file_id) None) = Reply r"
    and "resp_ok r" and "resp_body r = Some (JObj kvs)" and "\<not> truthy (dget kvs ''success'' (JBool False))"
  shows "fst (get_file_download_url E c file_id w) =
           Inl (FileOperationError (py_str (dget kvs ''err'' (JStr ''Unknown error''))) (Some file_id) (Some ''get_download_url''))"
  using get_file_download_url_reply [OF assms(1-4)] assms(5) by simp

theorem get_file_download_url_unsuccessful_witness:
  "fst (get_file_download_url (const_env (Reply (reply 200 (JObj [(''success'', JBool False), (''err'', JStr ''no such file'')])))) demo_client ''r.csv'' world0)
     = Inl (FileOperationError ''no such file'' (Some ''r.csv'') (Some ''get_download_url''))"
proof -
  have n: "net (const_env (Reply (reply 200 (JObj [(''success'', JBool False), (''err'', JStr ''no such file'')])))) (sent world0)
             (simple_request demo_client ''GET'' (''/workspace/v2/file-url/'' @ ''r.csv'') None)
           = Reply (reply 200 (JObj [(''success'', JBool False), (''err'', JStr ''no such file'')]))"
    by (simp add: const_env_def answer_env_def)
  have o: "resp_ok (reply 200 (JObj [(''success'', JBool False), (''err'', JStr ''no such file'')]))"
    by (simp add: reply_def resp_ok_def)
  have b: "resp_body (reply 200 (JObj [(''success'', JBool False), (''err'', JStr ''no such file'')]))
             = Some (JObj [(''success'', JBool False), (''err'', JStr ''no such file'')])"
    by (simp add: reply_def)
  have f: "\<not> truthy (dget [(''success'', JBool False), (''err'', JStr ''no such file'')] ''success'' (JBool False))" by simp
  show ?thesis using get_file_download_url_unsuccessful [OF _ n o b f] by simp
qed

text \<open>
  Claim C29: A successful download writes the downloaded text at the destination (the file name when none is given), after exactly two requests: the URL lookup and a bare GET of the URL that carries no \<open>Authorization\<close> header.
\<close>

theorem file_download_saves:
  assumes "file_name \<noteq> []"
    and "net E (sent w) (simple_request c ''GET'' (''/workspace/v2/file-url/'' @ file_name) None) = Reply r"
    and "resp_ok r" and "resp_body r = Some (JObj kvs)" and "truthy (dget kvs ''success'' (JBool False))"
    and "map_of kvs ''url'' = Some (JStr u)"
    and "net E (sent w @ [simple_request c ''GET'' (''/workspace/v2/file-url/'' @ file_name) None]) (download_request c u) = Reply r2"
    and "resp_ok r2"
  shows "\<exists>w'. file_download E c file_name dest w = (Inr True, w')
           \<and> local_files w' = (local_files w)(str_or dest file_name \<mapsto> resp_text r2)
           \<and> sent w' = sent w @ [simple_request c ''GET'' (''/workspace/v2/file-url/'' @ file_name) None, download_request c u]
           \<and> ci_get (req_headers (last (sent w'))) ''Authorization'' = None"
proof -
  obtain w1 where g: "get_file_download_url E c file_name w = (Inr (JStr u), w1)" and l: "local_files w1 = local_files w"
    and s: "sent w1 = sent w @ [simple_request c ''GET'' (''/workspace/v2/file-url/'' @ file_name) None]"
    using get_file_download_url_ok [OF assms(1-6)] by blast
  show ?thesis
    using assms(1,7,8) g l s
    by (simp add: file_download_def bindE_apply send_def Let_def ci_get_def download_request_def)
qed

theorem file_download_saves_witness:
  "\<exists>w'. file_download file_env demo_client ''r.csv'' None world0 = (Inr True, w')
         \<and> local_files w' = [''r.csv'' \<mapsto> ''a,b'']
         \<and> sent w' = [simple_request demo_client ''GET'' (''/workspace/v2/file-url/'' @ ''r.csv'') None,
                      download_request demo_client ''https://files.example.com/r.csv'']
         \<and> ci_get (req_headers (last (sent w'))) ''Authorization'' = None"
proof -
  have n1: "net file_env (sent world0) (simple_request demo_client ''GET'' (''/workspace/v2/file-url/'' @ ''r.csv'') None)
              = Reply (reply 200 file_url_reply)"
    by (simp add: file_env_def answer_env_def wire_request_def)
  have n2: "net file_env (sent world0 @ [simple_request demo_client ''GET'' (''/workspace/v2/file-url/'' @ ''r.csv'') None])
              (download_request demo_client ''https://files.example.com/r.csv'')
            = Reply \<lparr>status = 200, resp_headers = [], resp_text = ''a,b'', resp_body = None\<rparr>"
    by (simp add: file_env_def answer_env_def download_request_def)
  have o: "resp_ok (reply 200 file_url_reply)" "resp_ok \<lparr>status = 200, resp_headers = [], resp_text = ''a,b'', resp_body = None\<rparr>"
    by (simp_all add: reply_def resp_ok_def)
  have b: "resp_body (reply 200 file_url_reply) = Some (JObj [(''success'', JBool True), (''url'', JStr ''https://files.example.com/r.csv'')])"
    by (simp add: reply_def file_url_reply_def)
  have t: "truthy (dget [(''success'', JBool True), (''url'', JStr ''https://files.example.com/r.csv'')] ''success'' (JBool False))" by simp
  have u: "map_of [(''success'', JBool True), (''url'', JStr ''https://files.example.com/r.csv'')] ''url'' = Some (JStr ''https://files.example.com/r.csv'')"
    by simp
  show ?thesis
    using file_download_saves [OF _ n1 o(1) b t u n2 o(2), of None] by (simp add: str_or_def world0_def)
qed

end
