(* ===== verification/McpTester.thy ===== *)
theory McpTester
  imports Files
begin

text \<open>
  The MCP protocol tester, \<open>OpsBeaconClient.test_mcp_protocol\<close> (\<open>src/opsbeacon/client.py\<close>,
  lines 933--1035): three JSON-RPC posts to the trigger's URL with the trigger's token,
  \<open>initialize\<close>, \<open>tools/list\<close> and \<open>tools/call\<close>. Each post is a bare
  \<open>requests.post\<close> (no session, not logged) followed by \<open>raise_for_status()\<close> and
  \<open>response.json()\<close> inside \<open>try ... except requests.RequestException\<close>; a caught
  exception is recorded in the results as \<open>{"error": str(e)}\<close>. Python errors raised
  outside those handlers (a \<open>KeyError\<close> on a tool without \<open>name\<close>, a \<open>TypeError\<close> on a
  reply that is not a container) propagate as values of the error type.
\<close>

section \<open>Requests\<close>

definition mcp_headers :: "string \<Rightarrow> (string \<times> string) list" where
  "mcp_headers token = [(''Authorization'', ''Bearer '' @ token), (''Content-Type'', ''application/json'')]"

text \<open>\<open>requests.post(mcp_url, json=body, headers=headers, timeout=self.timeout)\<close>.\<close>

definition mcp_request :: "client \<Rightarrow> string \<Rightarrow> string \<Rightarrow> json \<Rightarrow> http_request" where
  "mcp_request c mcp_url token body =
     \<lparr>req_method = ''POST'', req_url = mcp_url, req_headers = mcp_headers token, req_json = Some body,
      req_data = None, req_files = None, req_timeout = Some (timeout c)\<rparr>"

definition init_request :: json where
  "init_request =
     JObj [(''jsonrpc'', JStr ''2.0''), (''method'', JStr ''initialize''),
           (''params'', JObj [(''protocolVersion'', JStr ''0.1.0''), (''capabilities'', JObj []),
                             (''clientInfo'', JObj [(''name'', JStr ''OpsBeacon Python SDK''), (''version'', JStr SDK_VERSION)])]),
           (''id'', JInt 1)]"

definition list_request :: json where
  "list_request = JObj [(''jsonrpc'', JStr ''2.0''), (''method'', JStr ''tools/list''), (''params'', JObj []), (''id'', JInt 2)]"

definition exec_request :: "json \<Rightarrow> json" where
  "exec_request name =
     JObj [(''jsonrpc'', JStr ''2.0''), (''method'', JStr ''tools/call''),
           (''params'', JObj [(''name'', name), (''arguments'', JObj [])]), (''id'', JInt 3)]"

text \<open>
  One guarded post: \<open>Inl (str e)\<close> for an exception the \<open>except requests.RequestException\<close>
  clause catches (a transport failure, the \<open>HTTPError\<close> of \<open>raise_for_status\<close>, the
  \<open>JSONDecodeError\<close> of \<open>response.json()\<close>), \<open>Inr\<close> the reply's JSON otherwise.
\<close>

definition mcp_post :: "env \<Rightarrow> client \<Rightarrow> string \<Rightarrow> string \<Rightarrow> json \<Rightarrow> (string + json) op" where
  "mcp_post E c mcp_url token body =
     bindE (send E (mcp_request c mcp_url token body)) (\<lambda>out.
       case out of
         Failure x \<Rightarrow> ret (Inl (req_exc_msg x))
       | Reply r \<Rightarrow>
           if \<not> resp_ok r then ret (Inl (http_error_msg mcp_url r))
           else (case resp_json r of
                   Inr j \<Rightarrow> ret (Inr j)
                 | Inl (Builtin (Requests x)) \<Rightarrow> ret (Inl (req_exc_msg x))
                 | Inl e \<Rightarrow> throw e))"

section \<open>Tools\<close>

text \<open>
  \<open>tools = []; if "result" in tools_response and "tools" in tools_response["result"]:
  tools = tools_response["result"]["tools"]\<close>.
\<close>

definition listed_tools :: "json \<Rightarrow> error + json" where
  "listed_tools tools_response =
     bindR (py_contains tools_response ''result'') (\<lambda>has_result.
     if \<not> has_result then Inr (JList [])
     else bindR (py_getitem tools_response ''result'') (\<lambda>res.
          bindR (py_contains res ''tools'') (\<lambda>has_tools.
          if has_tools then py_getitem res ''tools'' else Inr (JList []))))"

text \<open>\<open>next((t for t in tools if t["name"] == tool_name), None)\<close>.\<close>

fun find_tool :: "json list \<Rightarrow> string \<Rightarrow> error + json option" where
  "find_tool [] n = Inr None"
| "find_tool (t # ts) n = bindR (py_getitem t ''name'') (\<lambda>v. if v = JStr n then Inr (Some t) else find_tool ts n)"

text \<open>\<open>tool_to_execute\<close> after lines 1011--1015: the named tool if found and truthy, else \<open>tools[0]\<close>.\<close>

definition select_tool :: "json \<Rightarrow> string option \<Rightarrow> error + json" where
  "select_tool tools tool_name =
     bindR (case tool_name of
              Some n \<Rightarrow> if n \<noteq> [] then bindR (py_iter tools) (\<lambda>ts. find_tool ts n) else Inr None
            | None \<Rightarrow> Inr None) (\<lambda>found.
     case found of
       Some t \<Rightarrow> if truthy t then Inr t else py_index0 tools
     | None \<Rightarrow> py_index0 tools)"

section \<open>The test\<close>

text \<open>The \<open>results\<close> dict, its keys in the order the code first sets them.\<close>

definition mcp_results :: "json \<Rightarrow> json \<Rightarrow> json \<Rightarrow> bool \<Rightarrow> json" where
  "mcp_results initialize tools execution success =
     JObj [(''initialize'', initialize), (''tools'', tools), (''execution'', execution), (''success'', JBool success)]"

definition err_obj :: "string \<Rightarrow> json" where
  "err_obj msg = JObj [(''error'', JStr msg)]"

definition test_mcp_protocol :: "env \<Rightarrow> client \<Rightarrow> string \<Rightarrow> string \<Rightarrow> string option \<Rightarrow> json op" where
  "test_mcp_protocol E c mcp_url token tool_name =
     (if mcp_url = [] then throw (required ''mcp_url is required'' ''mcp_url'')
      else if token = [] then throw (required ''api_token is required'' ''api_token'')
      else
        bindE (mcp_post E c mcp_url token init_request) (\<lambda>r1.
        case r1 of
          Inl msg \<Rightarrow> ret (mcp_results (err_obj msg) JNull JNull False)
        | Inr initialize \<Rightarrow>
            bindE (mcp_post E c mcp_url token list_request) (\<lambda>r2.
            case r2 of
              Inl msg \<Rightarrow> ret (mcp_results initialize (err_obj msg) JNull False)
            | Inr tools_response \<Rightarrow>
                bindE (liftE (listed_tools tools_response)) (\<lambda>tools.
                if \<not> truthy tools then
                  ret (mcp_results initialize tools_response (JObj [(''message'', JStr ''No tools available to execute'')]) False)
                else
                  bindE (liftE (select_tool tools tool_name)) (\<lambda>tool_to_execute.
                  if \<not> truthy tool_to_execute then ret (mcp_results initialize tools_response JNull False)
                  else
                    bindE (liftE (py_getitem tool_to_execute ''name'')) (\<lambda>name.
                    bindE (mcp_post E c mcp_url token (exec_request name)) (\<lambda>r3.
                    case r3 of
                      Inl msg \<Rightarrow> ret (mcp_results initialize tools_response (err_obj msg) False)
                    | Inr execution \<Rightarrow>
                        bindE (liftE (py_contains execution ''result'')) (\<lambda>success.
                        ret (mcp_results initialize tools_response execution success)))))))))"


section \<open>Fixtures\<close>

definition mcp_tools :: "json list" where
  "mcp_tools = [JObj [(''name'', JStr ''disk'')], JObj [(''name'', JStr ''up'')]]"

definition mcp_env :: env where
  "mcp_env = answer_env (\<lambda>_ q.
     if req_json q = Some init_request then Reply (reply 200 (JObj [(''protocolVersion'', JStr ''0.1.0'')]))
     else if req_json q = Some list_request then Reply (reply 200 (JObj [(''result'', JObj [(''tools'', JList mcp_tools)])]))
     else Reply (reply 200 (JObj [(''result'', JObj [(''content'', JList [])])])))"


section \<open>Lemmas\<close>

lemma sends_only_mcp_post:
  "P (mcp_request c u t b) \<Longrightarrow> sends_only P (mcp_post E c u t b)"
  unfolding mcp_post_def by (intro sends_intros) (simp_all add: sends_only_ret sends_only_throw split: sum.splits error.splits py_exc.splits)

lemma mcp_post_reply:
  "net E (sent w) (mcp_request c u t b) = Reply r \<Longrightarrow> resp_ok r \<Longrightarrow> resp_body r = Some j \<Longrightarrow>
   mcp_post E c u t b w = (Inr (Inr j), w\<lparr>sent := sent w @ [mcp_request c u t b]\<rparr>)"
  by (simp add: mcp_post_def bindE_apply send_def resp_json_def)

lemma mcp_post_failure:
  "net E (sent w) (mcp_request c u t b) = Failure x \<Longrightarrow>
   mcp_post E c u t b w = (Inr (Inl (req_exc_msg x)), w\<lparr>sent := sent w @ [mcp_request c u t b]\<rparr>)"
  by (simp add: mcp_post_def bindE_apply send_def)

lemma find_tool_dicts:
  "\<forall>t \<in> set ts. \<exists>kvs. t = JObj kvs \<and> ''name'' \<in> fst ` set kvs \<Longrightarrow>
   find_tool ts n = Inr (find (\<lambda>t. py_getitem t ''name'' = Inr (JStr n)) ts)"
proof (induction ts)
  case (Cons t ts)
  then obtain kvs v where "t = JObj kvs" "map_of kvs ''name'' = Some v"
    by (metis list.set_intros(1) map_of_eq_None_iff not_None_eq)
  with Cons show ?case by auto
qed simp


lemma mcp_post_preserves: "preserves log_masked (mcp_post E c u t b)"
  by (auto simp: preserves_def mcp_post_def bindE_apply send_def log_masked_def
           split: net_outcome.splits sum.splits error.splits py_exc.splits)

section \<open>Properties\<close>

text \<open>
  Claim C18: Every request the MCP tester sends is a POST to the trigger URL carrying exactly the trigger's token and a JSON content type: the workspace session, and with it the workspace token, is never used.
\<close>

theorem test_mcp_protocol_trigger_token:
  "sends_only (\<lambda>q. req_url q = mcp_url \<and> req_headers q = mcp_headers token \<and> req_method q = ''POST'')
     (test_mcp_protocol E c mcp_url token tool_name)"
  unfolding test_mcp_protocol_def
  by (intro sends_intros sends_only_mcp_post) (simp_all add: mcp_request_def)

text \<open>
  Claim C30: A transport failure of the \<open>initialize\<close> step short-circuits the test: one request is sent, the result records the error under \<open>initialize\<close> and \<open>success\<close> is false.
\<close>

theorem test_mcp_init_failure:
  assumes "mcp_url \<noteq> []" and "token \<noteq> []"
    and "net E (sent w) (mcp_request c mcp_url token init_request) = Failure x"
  shows "test_mcp_protocol E c mcp_url token tool_name w =
           (Inr (mcp_results (err_obj (req_exc_msg x)) JNull JNull False),
            w\<lparr>sent := sent w @ [mcp_request c mcp_url token init_request]\<rparr>)"
  using assms by (simp add: test_mcp_protocol_def bindE_apply mcp_post_failure)

theorem test_mcp_init_failure_witness:
  "test_mcp_protocol (const_env (Failure (ReqConnectionError ''refused''))) demo_client ''https://mcp/x'' ''t0k'' None world0 =
     (Inr (mcp_results (err_obj ''refused'') JNull JNull False),
      world0\<lparr>sent := [mcp_request demo_client ''https://mcp/x'' ''t0k'' init_request]\<rparr>)"
  using test_mcp_init_failure [of "''https://mcp/x''" "''t0k''" "const_env (Failure (ReqConnectionError ''refused''))" world0 demo_client
                               "ReqConnectionError ''refused''" None]
  by (simp add: const_env_def answer_env_def world0_def)

text \<open>
  When the tool listing has no \<open>result\<close>, no tool is called: two requests are sent and the execution records the no-tools message with \<open>success\<close> false.
\<close>

theorem test_mcp_no_tools:
  assumes "mcp_url \<noteq> []" and "token \<noteq> []"
    and "net E (sent w) (mcp_request c mcp_url token init_request) = Reply r1" and "resp_ok r1" and "resp_body r1 = Some init"
    and "net E (sent w @ [mcp_request c mcp_url token init_request]) (mcp_request c mcp_url token list_request) = Reply r2"
    and "resp_ok r2" and "resp_body r2 = Some (JObj kvs)" and "''result'' \<notin> fst ` set kvs"
  shows "test_mcp_protocol E c mcp_url token tool_name w =
           (Inr (mcp_results init (JObj kvs) (JObj [(''message'', JStr ''No tools available to execute'')]) False),
            w\<lparr>sent := sent w @ [mcp_request c mcp_url token init_request, mcp_request c mcp_url token list_request]\<rparr>)"
  using assms by (simp add: test_mcp_protocol_def bindE_apply mcp_post_reply listed_tools_def)

theorem test_mcp_no_tools_witness:
  "test_mcp_protocol (const_env (Reply (reply 200 (JObj [])))) demo_client ''https://mcp/x'' ''t0k'' None world0 =
     (Inr (mcp_results (JObj []) (JObj []) (JObj [(''message'', JStr ''No tools available to execute'')]) False),
      world0\<lparr>sent := [mcp_request demo_client ''https://mcp/x'' ''t0k'' init_request, mcp_request demo_client ''https://mcp/x'' ''t0k'' list_request]\<rparr>)"
proof -
  have n: "\<And>h q. net (const_env (Reply (reply 200 (JObj [])))) h q = Reply (reply 200 (JObj []))"
    by (simp add: const_env_def answer_env_def)
  have o: "resp_ok (reply 200 (JObj []))" "resp_body (reply 200 (JObj [])) = Some (JObj [])"
    by (simp_all add: reply_def resp_ok_def)
  show ?thesis
    using test_mcp_no_tools [OF _ _ n o n o] by (simp add: world0_def)
qed

text \<open>
  Claim C9: When the three posts succeed, \<open>success\<close> is true exactly when the execution reply has a \<open>result\<close> key.
\<close>

theorem test_mcp_success_iff_result:
  assumes "mcp_url \<noteq> []" and "token \<noteq> []"
    and "net E (sent w) (mcp_request c mcp_url token init_request) = Reply r1" and "resp_ok r1" and "resp_body r1 = Some init"
    and "net E (sent w @ [mcp_request c mcp_url token init_request]) (mcp_request c mcp_url token list_request) = Reply r2"
    and "resp_ok r2" and "resp_body r2 = Some tools_response"
    and "listed_tools tools_response = Inr tools" and "truthy tools"
    and "select_tool tools tool_name = Inr t" and "truthy t" and "py_getitem t ''name'' = Inr name"
    and "net E (sent w @ [mcp_request c mcp_url token init_request, mcp_request c mcp_url token list_request])
           (mcp_request c mcp_url token (exec_request name)) = Reply r3"
    and "resp_ok r3" and "resp_body r3 = Some (JObj ekvs)"
  shows "fst (test_mcp_protocol E c mcp_url token tool_name w) =
           Inr (mcp_results init tools_response (JObj ekvs) (''result'' \<in> fst ` set ekvs))"
  using assms by (simp add: test_mcp_protocol_def bindE_apply mcp_post_reply)

theorem test_mcp_success_iff_result_witness:
  "fst (test_mcp_protocol mcp_env demo_client ''https://mcp/x'' ''t0k'' (Some ''up'') world0) =
     Inr (mcp_results (JObj [(''protocolVersion'', JStr ''0.1.0'')]) (JObj [(''result'', JObj [(''tools'', JList mcp_tools)])])
            (JObj [(''result'', JObj [(''content'', JList [])])]) True)"
proof -
  have ne: "init_request \<noteq> list_request" "exec_request (JStr ''up'') \<noteq> init_request" "exec_request (JStr ''up'') \<noteq> list_request"
    by (simp_all add: init_request_def list_request_def exec_request_def)
  have n1: "net mcp_env (sent world0) (mcp_request demo_client ''https://mcp/x'' ''t0k'' init_request)
              = Reply (reply 200 (JObj [(''protocolVersion'', JStr ''0.1.0'')]))"
    by (simp add: mcp_env_def answer_env_def mcp_request_def)
  have n2: "net mcp_env (sent world0 @ [mcp_request demo_client ''https://mcp/x'' ''t0k'' init_request])
              (mcp_request demo_client ''https://mcp/x'' ''t0k'' list_request)
            = Reply (reply 200 (JObj [(''result'', JObj [(''tools'', JList mcp_tools)])]))"
    using ne by (simp add: mcp_env_def answer_env_def mcp_request_def)
  have n3: "net mcp_env (sent world0 @ [mcp_request demo_client ''https://mcp/x'' ''t0k'' init_request,
                                         mcp_request demo_client ''https://mcp/x'' ''t0k'' list_request])
              (mcp_request demo_client ''https://mcp/x'' ''t0k'' (exec_request (JStr ''up'')))
            = Reply (reply 200 (JObj [(''result'', JObj [(''content'', JList [])])]))"
    using ne by (simp add: mcp_env_def answer_env_def mcp_request_def)
  have o: "\<And>j. resp_ok (reply 200 j)" "\<And>j. resp_body (reply 200 j) = Some j"
    by (simp_all add: reply_def resp_ok_def)
  have l: "listed_tools (JObj [(''result'', JObj [(''tools'', JList mcp_tools)])]) = Inr (JList mcp_tools)"
    by (simp add: listed_tools_def)
  have t: "truthy (JList mcp_tools)" by (simp add: mcp_tools_def)
  have s: "select_tool (JList mcp_tools) (Some ''up'') = Inr (JObj [(''name'', JStr ''up'')])"
    by (simp add: select_tool_def mcp_tools_def)
  have g: "py_getitem (JObj [(''name'', JStr ''up'')]) ''name'' = Inr (JStr ''up'')" by simp
  show ?thesis
    using test_mcp_success_iff_result [OF _ _ n1 o n2 o l t s _ g n3 o] by simp
qed

text \<open>
  For a non-empty list of named tools, the tool called is the first one with the requested name, and the first tool when none has it.
\<close>

theorem select_tool_by_name:
  assumes "\<forall>t \<in> set ts. \<exists>kvs. t = JObj kvs \<and> ''name'' \<in> fst ` set kvs" and "ts \<noteq> []" and "n \<noteq> []"
  shows "select_tool (JList ts) (Some n) =
           Inr (case find (\<lambda>t. py_getitem t ''name'' = Inr (JStr n)) ts of Some t \<Rightarrow> t | None \<Rightarrow> hd ts)"
proof -
  have ft: "find_tool ts n = Inr (find (\<lambda>t. py_getitem t ''name'' = Inr (JStr n)) ts)"
    using find_tool_dicts [OF assms(1)] .
  have hd: "py_index0 (JList ts) = Inr (hd ts)"
    using assms(2) by (cases ts) simp_all
  show ?thesis
  proof (cases "find (\<lambda>t. py_getitem t ''name'' = Inr (JStr n)) ts")
    case None
    then show ?thesis using assms(3) ft hd by (simp add: select_tool_def)
  next
    case (Some t)
    then have "t \<in> set ts" by (auto simp: find_Some_iff)
    with assms(1) obtain kvs where "t = JObj kvs" "kvs \<noteq> []" by force
    with Some assms(3) ft show ?thesis by (simp add: select_tool_def)
  qed
qed

theorem select_tool_by_name_witness:
  "select_tool (JList mcp_tools) (Some ''gone'') = Inr (JObj [(''name'', JStr ''disk'')])"
proof -
  have d: "\<forall>t \<in> set mcp_tools. \<exists>kvs. t = JObj kvs \<and> ''name'' \<in> fst ` set kvs" by (simp add: mcp_tools_def)
  have ne: "mcp_tools \<noteq> []" "''gone'' \<noteq> []" by (simp_all add: mcp_tools_def)
  show ?thesis using select_tool_by_name [OF d ne] by (simp add: mcp_tools_def)
qed

end
