(* ===== verification/Triggers.thy ===== *)
theory Triggers
  imports Resources
begin

text \<open>
  Trigger and MCP-trigger management (\<open>src/opsbeacon/client.py\<close>, lines 582--927):
  listing with a kind filter, lookup by name with a fallback to the list, creation of an
  MCP trigger from tool instances, the merge-update, deletion, the trigger URL, and the
  addition and removal of one tool. Triggers are the server's JSON objects; the client
  keeps nothing between calls.

  Python's \<open>list(set(xs))\<close> iterates a set in an order fixed by string hashing, which
  changes from one process to the next: the model takes it from the environment
  (\<open>set_order\<close>), and \<open>set_order_ok\<close> is what Python guarantees of it on lists of
  strings, that it lists each distinct element once.
\<close>

section \<open>Helpers\<close>

definition set_order_ok :: "env \<Rightarrow> bool" where
  "set_order_ok E \<longleftrightarrow> (\<forall>xs. (\<forall>x \<in> set xs. \<exists>s. x = JStr s) \<longrightarrow>
                          distinct (set_order E xs) \<and> set (set_order E xs) = set xs)"

fun hashable :: "json \<Rightarrow> bool" where
  "hashable (JList _) = False"
| "hashable (JObj _) = False"
| "hashable _ = True"

text \<open>\<open>list(set(xs))\<close>: \<open>TypeError\<close> at the first unhashable element.\<close>

definition py_set_list :: "env \<Rightarrow> json list \<Rightarrow> error + json list" where
  "py_set_list E xs =
     (case find (\<lambda>x. \<not> hashable x) xs of
        Some x \<Rightarrow> Inl (Builtin (TypeError (''unhashable type: '' @ quoted (type_name x))))
      | None \<Rightarrow> Inr (set_order E xs))"

text \<open>
  The loop of \<open>create_mcp_trigger\<close> and \<open>update_mcp_trigger\<close> that collects the
  truthy \<open>overrides.command\<close> and \<open>overrides.connection\<close> of every tool instance.
\<close>

fun collect_tools :: "json list \<Rightarrow> error + json list \<times> json list" where
  "collect_tools [] = Inr ([], [])"
| "collect_tools (t # ts) =
     bindR (py_get t ''overrides'' (JObj [])) (\<lambda>ov.
     bindR (py_get ov ''command'' JNull) (\<lambda>cm.
     bindR (if truthy cm then map_sum id (\<lambda>v. [v]) (py_getitem ov ''command'') else Inr []) (\<lambda>cms.
     bindR (py_get ov ''connection'' JNull) (\<lambda>cn.
     bindR (if truthy cn then map_sum id (\<lambda>v. [v]) (py_getitem ov ''connection'') else Inr []) (\<lambda>cns.
     bindR (collect_tools ts) (\<lambda>(cs, ns). Inr (cms @ cs, cns @ ns)))))))"

text \<open>Both loops followed by \<open>commands = list(set(commands))\<close>, \<open>connections = list(set(connections))\<close>.\<close>

definition dedup_tools :: "env \<Rightarrow> json list \<Rightarrow> error + json list \<times> json list" where
  "dedup_tools E tools =
     bindR (collect_tools tools) (\<lambda>(cs, ns).
     bindR (py_set_list E cs) (\<lambda>cs'.
     bindR (py_set_list E ns) (\<lambda>ns'. Inr (cs', ns'))))"

definition not_mcp :: "string \<Rightarrow> error" where
  "not_mcp name = MCPError (quoted name @ '' is not an MCP trigger'') (Some name)"

text \<open>\<open>if x.get("kind") != "mcp": raise MCPError(...)\<close>\<close>

definition check_mcp :: "string \<Rightarrow> json \<Rightarrow> error + unit" where
  "check_mcp name t = bindR (py_get t ''kind'' JNull) (\<lambda>k. if k \<noteq> JStr ''mcp'' then Inl (not_mcp name) else Inr ())"

section \<open>Listing and lookup\<close>

definition triggers :: "env \<Rightarrow> client \<Rightarrow> string option \<Rightarrow> json op" where
  "triggers E c kind =
     bindE (request_json E c ''GET'' ''/workspace/v2/triggers'' None) (\<lambda>j.
     liftE (bindR (py_get j ''triggers'' (JList [])) (\<lambda>ts.
       case kind of
         Some k \<Rightarrow> if k \<noteq> [] then
                     bindR (py_iter ts) (\<lambda>xs.
                     bindR (filterR (\<lambda>t. map_sum id (\<lambda>v. v = JStr k) (py_get t ''kind'' JNull)) xs) (\<lambda>ys.
                     Inr (JList ys)))
                   else Inr ts
       | None \<Rightarrow> Inr ts)))"

definition mcp_triggers :: "env \<Rightarrow> client \<Rightarrow> json op" where
  "mcp_triggers E c = triggers E c (Some ''mcp'')"

definition get_trigger :: "env \<Rightarrow> client \<Rightarrow> string \<Rightarrow> json op" where
  "get_trigger E c name =
     (if name = [] then throw (required ''name is required'' ''name'')
      else catchE (request_json E c ''GET'' (''/workspace/v2/triggers/'' @ name) None) is_api_error
             (\<lambda>_. bindE (triggers E c None) (\<lambda>all.
                    liftE (bindR (py_iter all) (\<lambda>xs. bindR (find_named xs name) (\<lambda>found.
                      case found of Some t \<Rightarrow> Inr t | None \<Rightarrow> Inl (ResourceNotFoundError ''Trigger'' name)))))))"

section \<open>Creation\<close>

definition mcp_payload :: "string \<Rightarrow> string \<Rightarrow> json list \<Rightarrow> json list \<Rightarrow> string list \<Rightarrow> json list \<Rightarrow> json" where
  "mcp_payload name description cs ns pols tools =
     JObj [(''name'', JStr name), (''description'', JStr description), (''kind'', JStr ''mcp''),
           (''commands'', JList cs), (''connections'', JList ns), (''policies'', JList (map JStr pols)),
           (''mcpTriggerInfo'', JObj [(''toolInstances'', JList tools)])]"

text \<open>The interpretation of the creation response inside the \<open>try\<close> block.\<close>

definition create_result :: "string \<Rightarrow> json \<Rightarrow> error + json" where
  "create_result name result =
     bindR (py_get result ''url'' JNull) (\<lambda>u.
       if truthy u then
         bindR (py_get result ''apiToken'' JNull) (\<lambda>tok.
           Inr (JObj [(''success'', JBool True), (''name'', JStr name), (''url'', u), (''apiToken'', tok),
                      (''message'', JStr (''MCP trigger '' @ quoted name @ '' created successfully''))]))
       else
         bindR (py_get result ''err'' JNull) (\<lambda>e.
           if truthy e then bindR (py_getitem result ''err'') (\<lambda>m. Inl (MCPError (py_str m) (Some name)))
           else Inr result))"

definition create_mcp_trigger ::
  "env \<Rightarrow> client \<Rightarrow> string \<Rightarrow> string \<Rightarrow> json list option \<Rightarrow> string list option \<Rightarrow> json op" where
  "create_mcp_trigger E c name description tool_instances pols =
     (if name = [] then throw (required ''name is required'' ''name'')
      else
        (let tools = (case tool_instances of Some ts \<Rightarrow> ts | None \<Rightarrow> []) in
         bindE (liftE (dedup_tools E tools)) (\<lambda>(cs, ns).
         catchE
           (bindE (request_json E c ''POST'' ''/workspace/v2/triggers''
                     (Some (mcp_payload name description cs ns (case pols of Some ps \<Rightarrow> ps | None \<Rightarrow> []) tools)))
              (\<lambda>result. liftE (create_result name result)))
           is_api_error
           (\<lambda>e. throw (MCPError (''Failed to create MCP trigger: '' @ err_str e) (Some name))))))"

section \<open>Update and deletion\<close>

definition update_mcp_trigger :: "env \<Rightarrow> client \<Rightarrow> string \<Rightarrow> string option \<Rightarrow> json list option \<Rightarrow> json op" where
  "update_mcp_trigger E c name description tool_instances =
     (if name = [] then throw (required ''name is required'' ''name'')
      else
        bindE (get_trigger E c name) (\<lambda>existing.
        bindE (liftE (check_mcp name existing)) (\<lambda>_.
        bindE (liftE (case tool_instances of
                        Some ts \<Rightarrow> bindR (dedup_tools E ts) (\<lambda>(cs, ns). Inr (JList cs, JList ns))
                      | None \<Rightarrow> bindR (py_get existing ''commands'' (JList [])) (\<lambda>cs.
                                bindR (py_get existing ''connections'' (JList [])) (\<lambda>ns. Inr (cs, ns))))) (\<lambda>(cs, ns).
        bindE (liftE (case description of Some d \<Rightarrow> Inr (JStr d) | None \<Rightarrow> py_get existing ''description'' (JStr []))) (\<lambda>desc.
        bindE (liftE (py_get existing ''mcpTriggerInfo'' (JObj []))) (\<lambda>info.
        bindE (liftE (case tool_instances of Some ts \<Rightarrow> py_setitem info ''toolInstances'' (JList ts) | None \<Rightarrow> Inr info)) (\<lambda>info'.
        catchE
          (request_json E c ''PUT'' (''/workspace/v2/triggers/'' @ name)
             (Some (JObj [(''name'', JStr name), (''kind'', JStr ''mcp''), (''description'', desc),
                          (''commands'', cs), (''connections'', ns), (''mcpTriggerInfo'', info')])))
          is_api_error
          (\<lambda>e. throw (MCPError (''Failed to update MCP trigger: '' @ err_str e) (Some name))))))))))"

definition delete_trigger :: "env \<Rightarrow> client \<Rightarrow> string \<Rightarrow> bool op" where
  "delete_trigger E c name =
     (if name = [] then throw (required ''name is required'' ''name'')
      else bindE (request E c ''DELETE'' (''/workspace/v2/triggers/'' @ name) None None None None) (\<lambda>_. ret True))"

definition get_mcp_trigger_url :: "env \<Rightarrow> client \<Rightarrow> string \<Rightarrow> json op" where
  "get_mcp_trigger_url E c name =
     (if name = [] then throw (required ''name is required'' ''name'')
      else catchE
             (bindE (get_trigger E c name) (\<lambda>t.
                liftE (bindR (py_get t ''kind'' JNull) (\<lambda>k.
                  if k = JStr ''mcp'' then py_get t ''triggerUrl'' JNull else Inr JNull))))
             (\<lambda>e. isinstance e CResourceNotFoundError)
             (\<lambda>_. ret JNull))"

section \<open>Tools\<close>

text \<open>\<open>str(uuid.uuid4())\<close>: the environment's next identifier.\<close>

definition draw_uuid :: "env \<Rightarrow> string op" where
  "draw_uuid E = (\<lambda>w. (Inr (uuid4 E (uuids_drawn w)), w\<lparr>uuids_drawn := Suc (uuids_drawn w)\<rparr>))"

definition new_tool :: "string \<Rightarrow> nat \<Rightarrow> json \<Rightarrow> error + json" where
  "new_tool iid n cfg =
     bindR (py_get cfg ''name'' (JStr (''tool_'' @ nat_str (n + 1)))) (\<lambda>nm.
     bindR (py_get cfg ''description'' (JStr [])) (\<lambda>d.
     bindR (py_get cfg ''connection'' (JStr [])) (\<lambda>cn.
     bindR (py_get cfg ''command'' (JStr [])) (\<lambda>cm.
     bindR (py_get cfg ''arguments'' (JObj [])) (\<lambda>a.
     Inr (JObj [(''instanceId'', JStr iid), (''templateId'', JStr iid),
                (''overrides'', JObj [(''name'', nm), (''description'', d), (''connection'', cn),
                                      (''command'', cm), (''argumentOverrides'', a)])]))))))"

definition tool_instances_of :: "json \<Rightarrow> error + json" where
  "tool_instances_of t = bindR (py_get t ''mcpTriggerInfo'' (JObj [])) (\<lambda>info. py_get info ''toolInstances'' (JList []))"

definition add_tool_to_mcp_trigger :: "env \<Rightarrow> client \<Rightarrow> string \<Rightarrow> json \<Rightarrow> json op" where
  "add_tool_to_mcp_trigger E c trigger_name tool_config =
     (if trigger_name = [] then throw (required ''trigger_name is required'' ''trigger_name'')
      else if \<not> truthy tool_config then throw (required ''tool_config is required'' ''tool_config'')
      else
        bindE (get_trigger E c trigger_name) (\<lambda>trigger.
        bindE (liftE (check_mcp trigger_name trigger)) (\<lambda>_.
        bindE (liftE (bindR (tool_instances_of trigger) py_iter)) (\<lambda>tools.
        bindE (draw_uuid E) (\<lambda>iid.
        bindE (liftE (new_tool iid (length tools) tool_config)) (\<lambda>nt.
        update_mcp_trigger E c trigger_name None (Some (tools @ [nt]))))))))"

text \<open>\<open>t.get("overrides", {}).get("name") != tool_name\<close>.\<close>

definition keeps_tool :: "string \<Rightarrow> json \<Rightarrow> error + bool" where
  "keeps_tool tool_name t =
     bindR (py_get t ''overrides'' (JObj [])) (\<lambda>ov. bindR (py_get ov ''name'' JNull) (\<lambda>n. Inr (n \<noteq> JStr tool_name)))"

definition remove_tool_from_mcp_trigger :: "env \<Rightarrow> client \<Rightarrow> string \<Rightarrow> string \<Rightarrow> json op" where
  "remove_tool_from_mcp_trigger E c trigger_name tool_name =
     (if trigger_name = [] then throw (required ''trigger_name is required'' ''trigger_name'')
      else if tool_name = [] then throw (required ''tool_name is required'' ''tool_name'')
      else
        bindE (get_trigger E c trigger_name) (\<lambda>trigger.
        bindE (liftE (check_mcp trigger_name trigger)) (\<lambda>_.
        bindE (liftE (bindR (tool_instances_of trigger) py_iter)) (\<lambda>tools.
        bindE (liftE (filterR (keeps_tool tool_name) tools)) (\<lambda>updated.
        if length updated = length tools then throw (ResourceNotFoundError ''Tool'' tool_name)
        else update_mcp_trigger E c trigger_name None (Some updated))))))"


section \<open>Fixtures\<close>

text \<open>Concrete triggers and servers on which the properties below are evaluated.\<close>

definition spec_triggers :: json where
  "spec_triggers = JObj [(''triggers'', JList [JObj [(''name'', JStr ''t1''), (''kind'', JStr ''mcp'')],
                                              JObj [(''name'', JStr ''t2''), (''kind'', JStr ''webHook'')]])]"

definition trigger_x :: json where
  "trigger_x = JObj [(''name'', JStr ''x''), (''kind'', JStr ''mcp'')]"

definition fallback_env :: env where
  "fallback_env = route_env (\<lambda>m p. if p = ''/workspace/v2/triggers'' then Reply (reply 200 (JObj [(''triggers'', JList [trigger_x])]))
                                    else Reply (reply 404 (JObj [])))"

definition spec_tools :: "json list" where
  "spec_tools = [JObj [(''overrides'', JObj [(''command'', JStr ''a''), (''connection'', JStr ''x'')])],
                 JObj [(''overrides'', JObj [(''command'', JStr ''b''), (''connection'', JStr ''x'')])]]"

definition tool_disk :: json where
  "tool_disk = JObj [(''overrides'', JObj [(''name'', JStr ''disk''), (''command'', JStr ''df''), (''connection'', JStr ''srv'')])]"

definition trigger_mcp :: json where
  "trigger_mcp = JObj [(''name'', JStr ''x''), (''kind'', JStr ''mcp''), (''description'', JStr ''d''),
     (''commands'', JList [JStr ''df'']), (''connections'', JList [JStr ''srv'']),
     (''mcpTriggerInfo'', JObj [(''toolInstances'', JList [tool_disk])])]"

definition trigger_hook :: json where
  "trigger_hook = JObj [(''name'', JStr ''x''), (''kind'', JStr ''webHook'')]"

text \<open>A server holding one trigger \<open>x\<close> that accepts every update.\<close>

definition one_trigger_env :: "json \<Rightarrow> env" where
  "one_trigger_env t = route_env (\<lambda>m p. if m = ''GET'' then Reply (reply 200 t) else Reply (reply 200 (JObj [])))"

definition up_tool :: json where
  "up_tool = JObj [(''name'', JStr ''up''), (''command'', JStr ''uptime''), (''connection'', JStr ''srv'')]"


section \<open>Lemmas\<close>

lemma triggers_apply:
  "triggers E c kind w =
     (case request_json E c ''GET'' ''/workspace/v2/triggers'' None w of
        (Inl e, w') \<Rightarrow> (Inl e, w')
      | (Inr j, w') \<Rightarrow> (bindR (py_get j ''triggers'' (JList [])) (\<lambda>ts.
           case kind of
             Some k \<Rightarrow> if k \<noteq> [] then
                         bindR (py_iter ts) (\<lambda>xs.
                         bindR (filterR (\<lambda>t. map_sum id (\<lambda>v. v = JStr k) (py_get t ''kind'' JNull)) xs) (\<lambda>ys.
                         Inr (JList ys)))
                       else Inr ts
           | None \<Rightarrow> Inr ts), w'))"
  by (simp add: triggers_def bindE_apply split: prod.splits sum.splits)

lemma filterR_dicts:
  "\<forall>t \<in> set ts. \<exists>kvs. t = JObj kvs \<Longrightarrow>
   filterR (\<lambda>t. map_sum id (\<lambda>v. v = JStr k) (py_get t ''kind'' JNull)) ts
     = Inr (filter (\<lambda>t. py_get t ''kind'' JNull = Inr (JStr k)) ts)"
  by (induction ts) auto

lemma get_trigger_direct:
  "name \<noteq> [] \<Longrightarrow> request_json E c ''GET'' (''/workspace/v2/triggers/'' @ name) None w = (Inr t, w') \<Longrightarrow>
   get_trigger E c name w = (Inr t, w')"
  by (simp add: get_trigger_def)

lemma get_trigger_not_api:
  "name \<noteq> [] \<Longrightarrow> request_json E c ''GET'' (''/workspace/v2/triggers/'' @ name) None w = (Inl e, w') \<Longrightarrow>
   \<not> is_api_error e \<Longrightarrow> get_trigger E c name w = (Inl e, w')"
  by (simp add: get_trigger_def)

lemma get_trigger_fallback_apply:
  "name \<noteq> [] \<Longrightarrow> request_json E c ''GET'' (''/workspace/v2/triggers/'' @ name) None w = (Inl e, w1) \<Longrightarrow>
   is_api_error e \<Longrightarrow>
   get_trigger E c name w =
     (case triggers E c None w1 of
        (Inl e', w2) \<Rightarrow> (Inl e', w2)
      | (Inr all, w2) \<Rightarrow> (bindR (py_iter all) (\<lambda>xs. bindR (find_named xs name) (\<lambda>found.
                          case found of Some t \<Rightarrow> Inr t | None \<Rightarrow> Inl (ResourceNotFoundError ''Trigger'' name))), w2))"
  by (simp add: get_trigger_def bindE_apply split: prod.splits sum.splits)

lemma set_order_ok_answer_env: "set_order_ok (answer_env f)"
  by (simp add: set_order_ok_def answer_env_def)

lemma py_set_list_strs: "\<forall>x \<in> set xs. \<exists>s. x = JStr s \<Longrightarrow> py_set_list E xs = Inr (set_order E xs)"
proof -
  assume "\<forall>x \<in> set xs. \<exists>s. x = JStr s"
  then have "find (\<lambda>x. \<not> hashable x) xs = None" by (auto simp: find_None_iff)
  then show ?thesis by (simp add: py_set_list_def)
qed

lemma dedup_tools_strs:
  "collect_tools tools = Inr (cs, ns) \<Longrightarrow> \<forall>x \<in> set (cs @ ns). \<exists>s. x = JStr s \<Longrightarrow>
   dedup_tools E tools = Inr (set_order E cs, set_order E ns)"
  by (simp add: dedup_tools_def py_set_list_strs)

lemma create_mcp_trigger_apply:
  "name \<noteq> [] \<Longrightarrow> dedup_tools E tools = Inr (cs, ns) \<Longrightarrow>
   create_mcp_trigger E c name d (Some tools) pols w =
     catchE (bindE (request_json E c ''POST'' ''/workspace/v2/triggers''
                     (Some (mcp_payload name d cs ns (case pols of Some ps \<Rightarrow> ps | None \<Rightarrow> []) tools)))
              (\<lambda>result. liftE (create_result name result)))
            is_api_error
            (\<lambda>e. throw (MCPError (''Failed to create MCP trigger: '' @ err_str e) (Some name))) w"
  by (simp add: create_mcp_trigger_def)

lemma distinct_singleton_set: "distinct xs \<Longrightarrow> set xs = {x} \<Longrightarrow> xs = [x]"
  by (cases xs) (auto simp: subset_singleton_iff)

lemma getitem_truthy: "truthy (dget kvs k JNull) \<Longrightarrow> py_getitem (JObj kvs) k = Inr (dget kvs k JNull)"
  by (simp add: dget_def split: option.splits)

lemma create_result_obj:
  "create_result name (JObj kvs) =
     (if truthy (dget kvs ''url'' JNull) then
        Inr (JObj [(''success'', JBool True), (''name'', JStr name), (''url'', dget kvs ''url'' JNull),
                   (''apiToken'', dget kvs ''apiToken'' JNull),
                   (''message'', JStr (''MCP trigger '' @ quoted name @ '' created successfully''))])
      else if truthy (dget kvs ''err'' JNull) then Inl (MCPError (py_str (dget kvs ''err'' JNull)) (Some name))
      else Inr (JObj kvs))"
  by (auto simp: create_result_def dget_def split: option.splits)

lemma update_apply_mcp:
  assumes "name \<noteq> []" and "get_trigger E c name w = (Inr (JObj kvs), w1)" and "dget kvs ''kind'' JNull = JStr ''mcp''"
  shows "update_mcp_trigger E c name d ti w =
    (bindE (liftE (case ti of
                     Some ts \<Rightarrow> bindR (dedup_tools E ts) (\<lambda>(cs, ns). Inr (JList cs, JList ns))
                   | None \<Rightarrow> Inr (dget kvs ''commands'' (JList []), dget kvs ''connections'' (JList [])))) (\<lambda>(cs, ns).
     bindE (liftE (case d of Some x \<Rightarrow> Inr (JStr x) | None \<Rightarrow> Inr (dget kvs ''description'' (JStr [])))) (\<lambda>desc.
     bindE (liftE (case ti of Some ts \<Rightarrow> py_setitem (dget kvs ''mcpTriggerInfo'' (JObj [])) ''toolInstances'' (JList ts)
                   | None \<Rightarrow> Inr (dget kvs ''mcpTriggerInfo'' (JObj [])))) (\<lambda>info'.
       catchE
          (request_json E c ''PUT'' (''/workspace/v2/triggers/'' @ name)
             (Some (JObj [(''name'', JStr name), (''kind'', JStr ''mcp''), (''description'', desc),
                          (''commands'', cs), (''connections'', ns), (''mcpTriggerInfo'', info')])))
          is_api_error
          (\<lambda>e. throw (MCPError (''Failed to update MCP trigger: '' @ err_str e) (Some name))))))) w1"
  using assms by (simp add: update_mcp_trigger_def check_mcp_def split: option.splits)

lemma filterR_all_true: "\<forall>x \<in> set xs. p x = Inr True \<Longrightarrow> filterR p xs = Inr xs"
  by (induction xs) auto

lemma filterR_defined:
  "\<forall>x \<in> set xs. \<exists>b. p x = Inr b \<Longrightarrow> filterR p xs = Inr (filter (\<lambda>x. p x = Inr True) xs)"
  by (induction xs) auto

lemma remove_tool_apply:
  assumes "trigger_name \<noteq> []" and "tool_name \<noteq> []" and "get_trigger E c trigger_name w = (Inr t, w1)"
    and "check_mcp trigger_name t = Inr ()" and "bindR (tool_instances_of t) py_iter = Inr tools"
    and "filterR (keeps_tool tool_name) tools = Inr upd"
  shows "remove_tool_from_mcp_trigger E c trigger_name tool_name w =
           (if length upd = length tools then (Inl (ResourceNotFoundError ''Tool'' tool_name), w1)
            else update_mcp_trigger E c trigger_name None (Some upd) w1)"
  using assms by (simp add: remove_tool_from_mcp_trigger_def)

lemma add_tool_apply:
  assumes "trigger_name \<noteq> []" and "truthy cfg" and "get_trigger E c trigger_name w = (Inr t, w1)"
    and "check_mcp trigger_name t = Inr ()" and "bindR (tool_instances_of t) py_iter = Inr tools"
    and "new_tool (uuid4 E (uuids_drawn w1)) (length tools) cfg = Inr nt"
  shows "add_tool_to_mcp_trigger E c trigger_name cfg w =
           update_mcp_trigger E c trigger_name None (Some (tools @ [nt])) (w1\<lparr>uuids_drawn := Suc (uuids_drawn w1)\<rparr>)"
  using assms by (simp add: add_tool_to_mcp_trigger_def draw_uuid_def)

lemma request_json_uuids: "uuids_drawn (snd (request_json E c m ep j w)) = uuids_drawn w"
proof (cases "request E c m ep j None None None w")
  case (Pair res w')
  with request_uuids [of E c m ep j None None None w] show ?thesis
    by (cases res) (simp_all add: request_json_apply)
qed

lemma get_trigger_reply:
  assumes "name \<noteq> []" and "net E (sent w) (simple_request c ''GET'' (''/workspace/v2/triggers/'' @ name) None) = Reply r"
    and "resp_ok r" and "resp_body r = Some t"
  shows "\<exists>w'. get_trigger E c name w = (Inr t, w') \<and> sent w' = sent w @ [simple_request c ''GET'' (''/workspace/v2/triggers/'' @ name) None]
               \<and> uuids_drawn w' = uuids_drawn w"
proof -
  let ?q = "request_json E c ''GET'' (''/workspace/v2/triggers/'' @ name) None w"
  have "fst ?q = Inr t" using request_json_reply [OF assms(2-4)] .
  moreover have "sent (snd ?q) = sent w @ [simple_request c ''GET'' (''/workspace/v2/triggers/'' @ name) None]"
    by (rule request_json_sent)
  moreover have "uuids_drawn (snd ?q) = uuids_drawn w"
    by (rule request_json_uuids)
  ultimately show ?thesis
    using assms(1) by (intro exI [of _ "snd ?q"]) (simp add: get_trigger_direct [where t = t and w' = "snd ?q"] prod_eq_iff)
qed

lemma update_sent_put:
  assumes "name \<noteq> []" and "get_trigger E c name w = (Inr (JObj kvs), w1)" and "dget kvs ''kind'' JNull = JStr ''mcp''"
    and "dget kvs ''mcpTriggerInfo'' (JObj []) = JObj ikvs" and "dedup_tools E ts = Inr (cs, ns)"
  shows "\<exists>q. sent (snd (update_mcp_trigger E c name d (Some ts) w)) = sent w1 @ [q] \<and> req_method q = ''PUT''"
  using assms by (cases d) (simp_all add: update_apply_mcp request_json_sent wire_request_def)

lemmas run_simps = request_json_apply request_apply route_env_def answer_env_def const_env_def wire_request_def
  reply_def check_response_def resp_ok_def resp_json_def handle_response_error_def Let_def


lemma draw_uuid_preserves: "preserves log_masked (draw_uuid E)"
  by (simp add: preserves_def draw_uuid_def log_masked_def)

lemma sends_only_draw_uuid: "sends_only P (draw_uuid E)"
  by (simp add: sends_only_def draw_uuid_def)

section \<open>Properties of the trigger operations\<close>

text \<open>
  Claim C25: Listing triggers with a non-empty \<open>kind\<close> returns exactly the triggers of the unfiltered listing whose \<open>kind\<close> field is that kind, in the server's order.
\<close>

theorem triggers_kind_filter:
  assumes "fst (triggers E c None w) = Inr (JList ts)" and "\<forall>t \<in> set ts. \<exists>kvs. t = JObj kvs" and "k \<noteq> []"
  shows "fst (triggers E c (Some k) w) = Inr (JList (filter (\<lambda>t. py_get t ''kind'' JNull = Inr (JStr k)) ts))"
proof (cases "request_json E c ''GET'' ''/workspace/v2/triggers'' None w")
  case (Pair res w')
  then show ?thesis
    using assms by (cases res) (auto simp: triggers_apply filterR_dicts bindR_Inr_iff)
qed

theorem triggers_kind_filter_witness:
  "fst (triggers (const_env (Reply (reply 200 spec_triggers))) demo_client (Some ''mcp'') world0)
     = Inr (JList [JObj [(''name'', JStr ''t1''), (''kind'', JStr ''mcp'')]])"
proof -
  have t: "fst (triggers (const_env (Reply (reply 200 spec_triggers))) demo_client None world0)
             = Inr (JList [JObj [(''name'', JStr ''t1''), (''kind'', JStr ''mcp'')], JObj [(''name'', JStr ''t2''), (''kind'', JStr ''webHook'')]])"
    by (simp add: triggers_apply run_simps spec_triggers_def)
  have o: "\<forall>t \<in> set [JObj [(''name'', JStr ''t1''), (''kind'', JStr ''mcp'')], JObj [(''name'', JStr ''t2''), (''kind'', JStr ''webHook'')]].
             \<exists>kvs. t = JObj kvs" by simp
  have k: "''mcp'' \<noteq> []" by simp
  show ?thesis using triggers_kind_filter [OF t o k] by simp
qed

text \<open>
  On a server listing an MCP trigger and a webhook trigger, \<open>mcp_triggers\<close> returns only the MCP trigger.
\<close>

theorem mcp_triggers_scenario:
  "fst (mcp_triggers (const_env (Reply (reply 200 spec_triggers))) c w)
     = Inr (JList [JObj [(''name'', JStr ''t1''), (''kind'', JStr ''mcp'')]])"
  by (simp add: mcp_triggers_def triggers_apply request_json_apply request_apply const_env_def answer_env_def
                reply_def check_response_def resp_ok_def resp_json_def spec_triggers_def Let_def)

text \<open>
  Claim C4: When the direct lookup of a trigger fails with an API error, \<open>get_trigger\<close> falls back to the full listing and returns the first trigger there with the requested name.
\<close>

theorem get_trigger_fallback:
  assumes "name \<noteq> []"
    and "request_json E c ''GET'' (''/workspace/v2/triggers/'' @ name) None w = (Inl e, w1)" and "is_api_error e"
    and "fst (triggers E c None w1) = Inr (JList ts)" and "\<forall>t \<in> set ts. \<exists>kvs. t = JObj kvs"
    and "find (\<lambda>t. py_get t ''name'' JNull = Inr (JStr name)) ts = Some t"
  shows "fst (get_trigger E c name w) = Inr t"
  using assms by (auto simp: get_trigger_fallback_apply find_named_dicts split: prod.splits sum.splits)

theorem get_trigger_fallback_witness: "fst (get_trigger fallback_env demo_client ''x'' world0) = Inr trigger_x"
proof -
  let ?r = "request_json fallback_env demo_client ''GET'' (''/workspace/v2/triggers/'' @ ''x'') None world0"
  have e: "fst ?r = Inl (APIError ''Resource not found'' (Some 404) (Some []))"
    by (simp add: request_json_apply request_apply fallback_env_def route_env_def answer_env_def
                  wire_request_def reply_def check_response_def resp_ok_def handle_response_error_def Let_def)
  have t: "fst (triggers fallback_env demo_client None (snd ?r)) = Inr (JList [trigger_x])"
    by (simp add: triggers_apply request_json_apply request_apply fallback_env_def route_env_def answer_env_def
                  wire_request_def reply_def check_response_def resp_ok_def resp_json_def Let_def)
  have f: "find (\<lambda>t. py_get t ''name'' JNull = Inr (JStr ''x'')) [trigger_x] = Some trigger_x"
    by (simp add: trigger_x_def)
  show ?thesis
    using get_trigger_fallback [of "''x''" fallback_env demo_client world0 "APIError ''Resource not found'' (Some 404) (Some [])"
                                   "snd ?r" "[trigger_x]" trigger_x] e t f
    by (simp add: trigger_x_def prod_eq_iff)
qed

text \<open>
  When the direct lookup fails with an API error and no listed trigger has the name, \<open>get_trigger\<close> raises \<open>ResourceNotFoundError('Trigger', name)\<close>.
\<close>

theorem get_trigger_fallback_missing:
  assumes "name \<noteq> []"
    and "request_json E c ''GET'' (''/workspace/v2/triggers/'' @ name) None w = (Inl e, w1)" and "is_api_error e"
    and "fst (triggers E c None w1) = Inr (JList ts)" and "\<forall>t \<in> set ts. \<exists>kvs. t = JObj kvs"
    and "\<forall>t \<in> set ts. py_get t ''name'' JNull \<noteq> Inr (JStr name)"
  shows "fst (get_trigger E c name w) = Inl (ResourceNotFoundError ''Trigger'' name)"
proof -
  have "find (\<lambda>t. py_get t ''name'' JNull = Inr (JStr name)) ts = None"
    using assms(6) by (simp add: find_None_iff)
  then show ?thesis
    using assms by (auto simp: get_trigger_fallback_apply find_named_dicts split: prod.splits sum.splits)
qed

theorem get_trigger_fallback_missing_witness:
  "fst (get_trigger fallback_env demo_client ''y'' world0) = Inl (ResourceNotFoundError ''Trigger'' ''y'')"
proof -
  let ?r = "request_json fallback_env demo_client ''GET'' (''/workspace/v2/triggers/'' @ ''y'') None world0"
  have e: "?r = (Inl (APIError ''Resource not found'' (Some 404) (Some [])), snd ?r)"
    by (simp add: prod_eq_iff run_simps fallback_env_def)
  have t: "fst (triggers fallback_env demo_client None (snd ?r)) = Inr (JList [trigger_x])"
    by (simp add: triggers_apply run_simps fallback_env_def)
  have o: "\<forall>t \<in> set [trigger_x]. \<exists>kvs. t = JObj kvs" by (simp add: trigger_x_def)
  have n: "\<forall>t \<in> set [trigger_x]. py_get t ''name'' JNull \<noteq> Inr (JStr ''y'')" by (simp add: trigger_x_def)
  have a: "is_api_error (APIError ''Resource not found'' (Some 404) (Some []))" by simp
  have y: "''y'' \<noteq> []" by simp
  show ?thesis using get_trigger_fallback_missing [OF y e a t o n] .
qed

text \<open>
  Claim C10: Creating an MCP trigger sends one POST whose command and connection lists are the tools' commands and connections without duplicates.
\<close>

theorem create_mcp_trigger_dedup:
  assumes "name \<noteq> []" and "set_order_ok E" and "collect_tools tools = Inr (cs, ns)"
    and "\<forall>x \<in> set (cs @ ns). \<exists>s. x = JStr s"
  shows "\<exists>cs' ns'. sent (snd (create_mcp_trigger E c name d (Some tools) pols w))
                   = sent w @ [simple_request c ''POST'' ''/workspace/v2/triggers''
                                 (Some (mcp_payload name d cs' ns' (case pols of Some ps \<Rightarrow> ps | None \<Rightarrow> []) tools))]
                 \<and> distinct cs' \<and> set cs' = set cs \<and> distinct ns' \<and> set ns' = set ns"
proof -
  have d: "dedup_tools E tools = Inr (set_order E cs, set_order E ns)"
    using assms(3,4) by (rule dedup_tools_strs)
  have strs: "\<forall>x \<in> set cs. \<exists>s. x = JStr s" "\<forall>x \<in> set ns. \<exists>s. x = JStr s" using assms(4) by auto
  show ?thesis
    using assms(1,2) strs
    by (intro exI [of _ "set_order E cs"] exI [of _ "set_order E ns"])
       (simp add: create_mcp_trigger_apply [OF assms(1) d] request_json_sent set_order_ok_def)
qed

theorem create_mcp_trigger_dedup_witness:
  "\<exists>cs' ns'. sent (snd (create_mcp_trigger (const_env (Reply (reply 200 (JObj [])))) demo_client ''t'' [] (Some spec_tools) None world0))
                   = sent world0 @ [simple_request demo_client ''POST'' ''/workspace/v2/triggers''
                                 (Some (mcp_payload ''t'' [] cs' ns' [] spec_tools))]
             \<and> set cs' = {JStr ''a'', JStr ''b''} \<and> ns' = [JStr ''x'']"
proof -
  have ct: "collect_tools spec_tools = Inr ([JStr ''a'', JStr ''b''], [JStr ''x'', JStr ''x''])"
    by (simp add: spec_tools_def)
  have ok: "set_order_ok (const_env (Reply (reply 200 (JObj []))))"
    by (simp add: const_env_def set_order_ok_answer_env)
  have ne: "''t'' \<noteq> []" by simp
  have str: "\<forall>x \<in> set ([JStr ''a'', JStr ''b''] @ [JStr ''x'', JStr ''x'']). \<exists>s. x = JStr s" by simp
  have sets: "set [JStr ''a'', JStr ''b''] = {JStr ''a'', JStr ''b''}" "set [JStr ''x'', JStr ''x''] = {JStr ''x''}"
    by simp_all
  note th = create_mcp_trigger_dedup [OF ne ok ct str, of demo_client "[]" None world0, unfolded sets option.case]
  show ?thesis
    using th
    apply (elim exE conjE)
    apply (rule exI, rule exI, rule conjI, assumption, rule conjI, assumption)
    apply (rule distinct_singleton_set; assumption)
    done
qed

text \<open>
  Claim C26: The result of creating an MCP trigger is the success record when the server's reply has a truthy \<open>url\<close>, \<open>MCPError\<close> when it has a truthy \<open>err\<close> instead, and the reply itself otherwise.
\<close>

theorem create_mcp_trigger_response:
  assumes "name \<noteq> []" and "dedup_tools E tools = Inr (cs, ns)"
    and "net E (sent w) (simple_request c ''POST'' ''/workspace/v2/triggers'' (Some (mcp_payload name d cs ns ps tools))) = Reply r"
    and "resp_ok r" and "resp_body r = Some (JObj kvs)"
  shows "fst (create_mcp_trigger E c name d (Some tools) (Some ps) w) =
     (if truthy (dget kvs ''url'' JNull) then
        Inr (JObj [(''success'', JBool True), (''name'', JStr name), (''url'', dget kvs ''url'' JNull),
                   (''apiToken'', dget kvs ''apiToken'' JNull),
                   (''message'', JStr (''MCP trigger '' @ quoted name @ '' created successfully''))])
      else if truthy (dget kvs ''err'' JNull) then Inl (MCPError (py_str (dget kvs ''err'' JNull)) (Some name))
      else Inr (JObj kvs))"
proof -
  obtain w' where rq: "request_json E c ''POST'' ''/workspace/v2/triggers'' (Some (mcp_payload name d cs ns ps tools)) w
                       = (Inr (JObj kvs), w')"
    using request_json_reply [OF assms(3-5)] by (cases "request_json E c ''POST'' ''/workspace/v2/triggers'' (Some (mcp_payload name d cs ns ps tools)) w") auto
  show ?thesis
    by (simp add: create_mcp_trigger_apply [OF assms(1,2)] rq create_result_obj)
qed

theorem create_mcp_trigger_response_witness:
  "fst (create_mcp_trigger (const_env (Reply (reply 201 (JObj [(''url'', JStr ''https://mcp/x''), (''apiToken'', JStr ''secret'')]))))
          demo_client ''x'' [] (Some []) (Some []) world0)
   = Inr (JObj [(''success'', JBool True), (''name'', JStr ''x''), (''url'', JStr ''https://mcp/x''),
                (''apiToken'', JStr ''secret''), (''message'', JStr (''MCP trigger '' @ quoted ''x'' @ '' created successfully''))])"
proof -
  let ?E = "const_env (Reply (reply 201 (JObj [(''url'', JStr ''https://mcp/x''), (''apiToken'', JStr ''secret'')])))"
  have d: "dedup_tools ?E [] = Inr ([], [])"
    by (simp add: dedup_tools_def py_set_list_def const_env_def answer_env_def)
  have n: "net ?E (sent world0) (simple_request demo_client ''POST'' ''/workspace/v2/triggers'' (Some (mcp_payload ''x'' [] [] [] [] [])))
           = Reply (reply 201 (JObj [(''url'', JStr ''https://mcp/x''), (''apiToken'', JStr ''secret'')]))"
    by (simp add: const_env_def answer_env_def)
  show ?thesis
    using create_mcp_trigger_response [OF _ d n] by (simp add: reply_def resp_ok_def)
qed

text \<open>
  Updating a trigger whose kind is not \<open>mcp\<close> raises \<open>MCPError\<close> after the lookup and sends no update.
\<close>

theorem update_mcp_trigger_not_mcp:
  assumes "name \<noteq> []" and "get_trigger E c name w = (Inr (JObj kvs), w1)" and "dget kvs ''kind'' JNull \<noteq> JStr ''mcp''"
  shows "update_mcp_trigger E c name d ti w = (Inl (not_mcp name), w1)"
  using assms by (simp add: update_mcp_trigger_def check_mcp_def)

theorem update_mcp_trigger_not_mcp_witness:
  "fst (update_mcp_trigger (one_trigger_env trigger_hook) demo_client ''x'' None None world0) = Inl (not_mcp ''x'')"
proof -
  let ?g = "get_trigger (one_trigger_env trigger_hook) demo_client ''x'' world0"
  have g: "?g = (Inr trigger_hook, snd ?g)"
    by (simp add: prod_eq_iff get_trigger_def one_trigger_env_def run_simps)
  show ?thesis
    using update_mcp_trigger_not_mcp [OF _ g [unfolded trigger_hook_def], where d = None and ti = None]
    by (simp add: trigger_hook_def)
qed

text \<open>
  Claim C5: Updating an MCP trigger sends one PUT that keeps the stored description, commands, connections and tool instances for every argument left out, and replaces them for every argument given.
\<close>

theorem update_mcp_trigger_merge:
  assumes "name \<noteq> []" and "get_trigger E c name w = (Inr (JObj kvs), w1)" and "dget kvs ''kind'' JNull = JStr ''mcp''"
    and "dget kvs ''mcpTriggerInfo'' (JObj []) = JObj ikvs"
    and "case ti of Some ts \<Rightarrow> dedup_tools E ts = Inr (cs, ns) | None \<Rightarrow> True"
  shows "sent (snd (update_mcp_trigger E c name d ti w)) = sent w1 @
           [simple_request c ''PUT'' (''/workspace/v2/triggers/'' @ name)
              (Some (JObj [(''name'', JStr name), (''kind'', JStr ''mcp''),
                           (''description'', case d of Some x \<Rightarrow> JStr x | None \<Rightarrow> dget kvs ''description'' (JStr [])),
                           (''commands'', case ti of Some _ \<Rightarrow> JList cs | None \<Rightarrow> dget kvs ''commands'' (JList [])),
                           (''connections'', case ti of Some _ \<Rightarrow> JList ns | None \<Rightarrow> dget kvs ''connections'' (JList [])),
                           (''mcpTriggerInfo'', case ti of Some ts \<Rightarrow> JObj (dict_set ikvs ''toolInstances'' (JList ts))
                                                       | None \<Rightarrow> JObj ikvs)]))]"
  using assms by (cases ti; cases d) (simp_all add: update_apply_mcp request_json_sent)

theorem update_mcp_trigger_merge_witness:
  "sent (snd (update_mcp_trigger (one_trigger_env trigger_mcp) demo_client ''x'' None None world0))
   = [simple_request demo_client ''GET'' ''/workspace/v2/triggers/x'' None,
      simple_request demo_client ''PUT'' ''/workspace/v2/triggers/x''
        (Some (JObj [(''name'', JStr ''x''), (''kind'', JStr ''mcp''), (''description'', JStr ''d''),
                     (''commands'', JList [JStr ''df'']), (''connections'', JList [JStr ''srv'']),
                     (''mcpTriggerInfo'', JObj [(''toolInstances'', JList [tool_disk])])]))]"
proof -
  let ?g = "get_trigger (one_trigger_env trigger_mcp) demo_client ''x'' world0"
  have g: "?g = (Inr trigger_mcp, snd ?g)"
    by (simp add: prod_eq_iff get_trigger_def one_trigger_env_def run_simps)
  have s: "sent (snd ?g) = [simple_request demo_client ''GET'' ''/workspace/v2/triggers/x'' None]"
    by (simp add: get_trigger_def one_trigger_env_def run_simps world0_def)
  show ?thesis
    using update_mcp_trigger_merge [OF _ g [unfolded trigger_mcp_def], where d = None and ti = None
            and ikvs = "[(''toolInstances'', JList [tool_disk])]" and cs = "[]" and ns = "[]"] s
    by (simp add: trigger_mcp_def)
qed

text \<open>
  Claim C16: Removing a tool that no instance of the trigger names raises \<open>ResourceNotFoundError('Tool', name)\<close> after the lookup and sends no update.
\<close>

theorem remove_tool_absent:
  assumes "trigger_name \<noteq> []" and "tool_name \<noteq> []" and "get_trigger E c trigger_name w = (Inr t, w1)"
    and "check_mcp trigger_name t = Inr ()" and "bindR (tool_instances_of t) py_iter = Inr tools"
    and "\<forall>x \<in> set tools. keeps_tool tool_name x = Inr True"
  shows "remove_tool_from_mcp_trigger E c trigger_name tool_name w = (Inl (ResourceNotFoundError ''Tool'' tool_name), w1)"
  using remove_tool_apply [OF assms(1-5) filterR_all_true [OF assms(6)]] by simp

theorem remove_tool_absent_witness:
  "fst (remove_tool_from_mcp_trigger (one_trigger_env trigger_mcp) demo_client ''x'' ''ghost'' world0)
     = Inl (ResourceNotFoundError ''Tool'' ''ghost'')"
proof -
  let ?g = "get_trigger (one_trigger_env trigger_mcp) demo_client ''x'' world0"
  have g: "?g = (Inr trigger_mcp, snd ?g)"
    by (simp add: prod_eq_iff get_trigger_def one_trigger_env_def run_simps)
  have c: "check_mcp ''x'' trigger_mcp = Inr ()" by (simp add: check_mcp_def trigger_mcp_def)
  have t: "bindR (tool_instances_of trigger_mcp) py_iter = Inr [tool_disk]"
    by (simp add: tool_instances_of_def trigger_mcp_def)
  have k: "\<forall>x \<in> set [tool_disk]. keeps_tool ''ghost'' x = Inr True"
    by (simp add: keeps_tool_def tool_disk_def)
  show ?thesis using remove_tool_absent [OF _ _ g c t k] by simp
qed

text \<open>
  Claim C27: Removing a tool that some instance names is the update of the trigger with the tool list that keeps exactly the other instances.
\<close>

theorem remove_tool_present:
  assumes "trigger_name \<noteq> []" and "tool_name \<noteq> []" and "get_trigger E c trigger_name w = (Inr t, w1)"
    and "check_mcp trigger_name t = Inr ()" and "bindR (tool_instances_of t) py_iter = Inr tools"
    and "\<forall>x \<in> set tools. \<exists>b. keeps_tool tool_name x = Inr b"
    and "\<exists>x \<in> set tools. keeps_tool tool_name x = Inr False"
  shows "remove_tool_from_mcp_trigger E c trigger_name tool_name w =
           update_mcp_trigger E c trigger_name None (Some (filter (\<lambda>x. keeps_tool tool_name x = Inr True) tools)) w1"
proof -
  have "length (filter (\<lambda>x. keeps_tool tool_name x = Inr True) tools) < length tools"
    using assms(7) by (auto simp: length_filter_less)
  then show ?thesis
    using remove_tool_apply [OF assms(1-5) filterR_defined [OF assms(6)]] by simp
qed

theorem remove_tool_present_witness:
  "remove_tool_from_mcp_trigger (one_trigger_env trigger_mcp) demo_client ''x'' ''disk'' world0
     = update_mcp_trigger (one_trigger_env trigger_mcp) demo_client ''x'' None (Some [])
         (snd (get_trigger (one_trigger_env trigger_mcp) demo_client ''x'' world0))"
proof -
  let ?g = "get_trigger (one_trigger_env trigger_mcp) demo_client ''x'' world0"
  have g: "?g = (Inr trigger_mcp, snd ?g)"
    by (simp add: prod_eq_iff get_trigger_def one_trigger_env_def run_simps)
  have c: "check_mcp ''x'' trigger_mcp = Inr ()" by (simp add: check_mcp_def trigger_mcp_def)
  have t: "bindR (tool_instances_of trigger_mcp) py_iter = Inr [tool_disk]"
    by (simp add: tool_instances_of_def trigger_mcp_def)
  have k: "keeps_tool ''disk'' tool_disk = Inr False"
    by (simp add: keeps_tool_def tool_disk_def)
  have k1: "\<forall>x \<in> set [tool_disk]. \<exists>b. keeps_tool ''disk'' x = Inr b"
    using k by (simp only: list.set insert_iff empty_iff ball_simps) blast
  have k2: "\<exists>x \<in> set [tool_disk]. keeps_tool ''disk'' x = Inr False" using k by simp
  show ?thesis using remove_tool_present [OF _ _ g c t k1 k2] k by simp
qed

text \<open>
  Claim C14: Adding a tool sends three requests, GET, GET and PUT: \<open>update_mcp_trigger\<close> fetches the trigger a second time.
\<close>

theorem add_tool_three_requests:
  assumes "trigger_name \<noteq> []" and "truthy cfg"
    and "\<forall>h. net E h (simple_request c ''GET'' (''/workspace/v2/triggers/'' @ trigger_name) None) = Reply r"
    and "resp_ok r" and "resp_body r = Some (JObj kvs)" and "dget kvs ''kind'' JNull = JStr ''mcp''"
    and "dget kvs ''mcpTriggerInfo'' (JObj []) = JObj ikvs" and "dget ikvs ''toolInstances'' (JList []) = JList tools"
    and "new_tool (uuid4 E (uuids_drawn w)) (length tools) cfg = Inr nt"
    and "dedup_tools E (tools @ [nt]) = Inr (cs, ns)"
  shows "map req_method (drop (length (sent w)) (sent (snd (add_tool_to_mcp_trigger E c trigger_name cfg w))))
           = [''GET'', ''GET'', ''PUT'']"
proof -
  let ?g = "simple_request c ''GET'' (''/workspace/v2/triggers/'' @ trigger_name) None"
  obtain w1 where g1: "get_trigger E c trigger_name w = (Inr (JObj kvs), w1)" and s1: "sent w1 = sent w @ [?g]"
    and u1: "uuids_drawn w1 = uuids_drawn w"
    using get_trigger_reply [OF assms(1) assms(3) [rule_format] assms(4,5)] by blast
  let ?w2 = "w1\<lparr>uuids_drawn := Suc (uuids_drawn w1)\<rparr>"
  obtain w3 where g2: "get_trigger E c trigger_name ?w2 = (Inr (JObj kvs), w3)" and s3: "sent w3 = sent w1 @ [?g]"
    using get_trigger_reply [OF assms(1) assms(3) [rule_format, of "sent ?w2"] assms(4,5)] by auto
  have chk: "check_mcp trigger_name (JObj kvs) = Inr ()" using assms(6) by (simp add: check_mcp_def)
  have tl: "bindR (tool_instances_of (JObj kvs)) py_iter = Inr tools"
    using assms(7,8) by (simp add: tool_instances_of_def)
  have add: "add_tool_to_mcp_trigger E c trigger_name cfg w = update_mcp_trigger E c trigger_name None (Some (tools @ [nt])) ?w2"
    using add_tool_apply [OF assms(1,2) g1 chk tl] assms(9) u1 by simp
  obtain q where "sent (snd (update_mcp_trigger E c trigger_name None (Some (tools @ [nt])) ?w2)) = sent w3 @ [q]"
    and "req_method q = ''PUT''"
    using update_sent_put [OF assms(1) g2 assms(6,7,10)] by blast
  then show ?thesis using add s1 s3 by (simp add: wire_request_def)
qed

theorem add_tool_three_requests_witness:
  "map req_method (sent (snd (add_tool_to_mcp_trigger (one_trigger_env trigger_mcp) demo_client ''x'' up_tool world0)))
     = [''GET'', ''GET'', ''PUT'']"
proof -
  let ?E = "one_trigger_env trigger_mcp"
  let ?nt = "JObj [(''instanceId'', JStr (uuid4 ?E 0)), (''templateId'', JStr (uuid4 ?E 0)),
                   (''overrides'', JObj [(''name'', JStr ''up''), (''description'', JStr []), (''connection'', JStr ''srv''),
                                         (''command'', JStr ''uptime''), (''argumentOverrides'', JObj [])])]"
  have n: "\<forall>h. net ?E h (simple_request demo_client ''GET'' (''/workspace/v2/triggers/'' @ ''x'') None) = Reply (reply 200 trigger_mcp)"
    by (simp add: one_trigger_env_def route_env_def answer_env_def wire_request_def)
  have nt: "new_tool (uuid4 ?E (uuids_drawn world0)) (length [tool_disk]) up_tool = Inr ?nt"
    by (simp add: new_tool_def up_tool_def world0_def)
  have d: "dedup_tools ?E ([tool_disk] @ [?nt]) = Inr ([JStr ''df'', JStr ''uptime''], [JStr ''srv''])"
    by (simp add: dedup_tools_def py_set_list_def tool_disk_def one_trigger_env_def route_env_def answer_env_def)
  show ?thesis
    using add_tool_three_requests [OF _ _ n _ _ _ _ _ nt d, where kvs = "[(''name'', JStr ''x''), (''kind'', JStr ''mcp''), (''description'', JStr ''d''),
     (''commands'', JList [JStr ''df'']), (''connections'', JList [JStr ''srv'']),
     (''mcpTriggerInfo'', JObj [(''toolInstances'', JList [tool_disk])])]" and ikvs = "[(''toolInstances'', JList [tool_disk])]"]
    by (simp add: reply_def resp_ok_def trigger_mcp_def up_tool_def world0_def)
qed

end
