(* ===== verification/Session.thy ===== *)
theory Session
  imports Transport
begin

text \<open>
  The life cycle of the client's HTTP session (\<open>src/opsbeacon/client.py\<close>, lines
  1141--1151): \<open>__enter__\<close> returns the client, \<open>__exit__\<close> and \<open>close\<close> call
  \<open>self._session.close()\<close>. What the session holds between calls is the world's
  \<open>pooled\<close> flag: a request answered through the session leaves its connection in the
  pool (\<open>request\<close> sets the flag), \<open>Session.close()\<close> closes the pool's connections.
  A closed session stays usable (\<open>requests\<close> opens new connections on demand), so the
  flag is all the state close changes. A \<open>with\<close> block is \<open>__enter__\<close>, the body, and
  \<open>__exit__\<close> on every way out of the body (\<open>withE\<close>, after PEP 343): \<open>__exit__\<close> receives
  the body's exception, and its return value decides whether the exception propagates.
  The SDK's \<open>__exit__\<close> returns \<open>None\<close>, which is false.
\<close>

definition close :: "unit op" where
  "close = modifyE (\<lambda>w. w\<lparr>pooled := False\<rparr>)"

definition client_enter :: "client \<Rightarrow> client op" where
  "client_enter c = ret c"

definition client_exit :: "error option \<Rightarrow> bool op" where
  "client_exit exc = bindE close (\<lambda>_. ret False)"

definition with_client :: "client \<Rightarrow> (client \<Rightarrow> 'a op) \<Rightarrow> 'a option op" where
  "with_client c body = bindE (client_enter c) (\<lambda>ob. withE (body ob) client_exit)"

section \<open>Properties\<close>

text \<open>
  Claim C11: a \<open>with\<close> block gives the body's result, and the body's exception unchanged
  (\<open>__exit__\<close> returns \<open>None\<close> and so suppresses nothing), with the world the body left
  and the session's connections closed: the block releases the pool on every way out.
\<close>

theorem with_client_releases:
  "with_client c body w = (map_sum id Some (fst (body c w)), (snd (body c w))\<lparr>pooled := False\<rparr>)"
  by (simp add: with_client_def client_enter_def client_exit_def close_def withE_def bindE_apply modifyE_def
      split: prod.splits sum.splits)

text \<open>
  A session closed by \<open>close\<close> is still usable: a request after it is sent and
  answered as before, and leaves a connection in the pool again when it is answered.
\<close>

theorem request_after_close:
  "net E (sent w) (wire_request c m ep j d f h) = Reply r \<Longrightarrow>
   fst (bindE close (\<lambda>_. request E c m ep j d f h) w) = check_response r
   \<and> pooled (snd (bindE close (\<lambda>_. request E c m ep j d f h) w))"
  by (simp add: close_def bindE_apply request_apply Let_def)

theorem request_after_close_witness:
  "fst (bindE close (\<lambda>_. request (const_env (Reply (reply 200 (JObj [])))) demo_client ''GET'' ''/workspace/v2/commands'' None None None None) world0)
     = Inr (reply 200 (JObj []))
   \<and> pooled (snd (bindE close (\<lambda>_. request (const_env (Reply (reply 200 (JObj [])))) demo_client ''GET'' ''/workspace/v2/commands'' None None None None) world0))"
  using request_after_close [of "const_env (Reply (reply 200 (JObj [])))" world0 demo_client "''GET''" "''/workspace/v2/commands''" None None None None "reply 200 (JObj [])"]
  by (simp add: const_env_def answer_env_def check_response_def reply_def resp_ok_def)

end
