(* ===== verification/LambdaHandler.thy ===== *)
theory LambdaHandler
  imports CommandExec
begin

text \<open>
  The AWS Lambda example, \<open>lambda_handler(ob, event)\<close> (\<open>src/examples/lambda_handler.py\<close>,
  lines 1--73). The handler reads the event's fields as JSON values and passes them to
  \<open>ob.run\<close> unchanged; \<open>run\<close>'s model follows its \<open>str\<close>-typed signature. The two meet
  at an interface: the handler is defined over any function \<open>ob_run\<close> of the JSON
  arguments, and the contract \<open>runs_as_client\<close> says that on string arguments
  \<open>ob_run\<close> is the client's \<open>run\<close>. What \<open>run\<close> does with arguments of other JSON types
  is outside the model, and no lemma depends on it.
\<close>

type_synonym run_fn = "json option \<Rightarrow> json option \<Rightarrow> json option \<Rightarrow> json option \<Rightarrow> json op"

text \<open>The answer for an event without \<open>command\<close> or \<open>connection\<close>, lines 35--38.\<close>

definition missing_params_response :: json where
  "missing_params_response =
     JObj [(''statusCode'', JInt 400),
           (''body'', JObj [(''error'', JStr ''Missing required parameters: command and connection'')])]"

text \<open>Lines 46--73: the answer built from \<open>run\<close>'s response.\<close>

definition lambda_response :: "json \<Rightarrow> error + json" where
  "lambda_response response =
     bindR (py_contains response ''error'') (\<lambda>has_error.
     if has_error then
       bindR (py_getitem response ''error'') (\<lambda>err.
       Inr (JObj [(''statusCode'', JInt 500),
                  (''body'', JObj [(''error'', err), (''message'', JStr ''Command execution failed'')])]))
     else
       bindR (py_get response ''success'' JNull) (\<lambda>success.
       if success = JBool False then
         bindR (py_get response ''response'' (JStr ''Command execution failed'')) (\<lambda>err.
         Inr (JObj [(''statusCode'', JInt 400),
                    (''body'', JObj [(''error'', err), (''message'', JStr ''Command execution was not successful''),
                                     (''result'', response)])]))
       else
         Inr (JObj [(''statusCode'', JInt 200),
                    (''body'', JObj [(''message'', JStr ''Command executed successfully''), (''result'', response)])])))"

text \<open>The arguments of \<open>ob_run\<close> are \<open>command_text\<close>, \<open>connection\<close>, \<open>command\<close>, \<open>args\<close>.\<close>

definition lambda_handler :: "run_fn \<Rightarrow> json \<Rightarrow> json op" where
  "lambda_handler ob_run event =
     bindE (liftE (py_get event ''commandLine'' JNull)) (\<lambda>command_line.
     if truthy command_line then
       bindE (ob_run (Some command_line) None None None) (\<lambda>response. liftE (lambda_response response))
     else
       bindE (liftE (py_get event ''command'' (JStr []))) (\<lambda>command.
       bindE (liftE (py_get event ''connection'' (JStr []))) (\<lambda>connection.
       bindE (liftE (py_get event ''arguments'' (JList []))) (\<lambda>arguments.
       if \<not> truthy command \<or> \<not> truthy connection then ret missing_params_response
       else bindE (ob_run None (Some connection) (Some command) (Some arguments)) (\<lambda>response.
            liftE (lambda_response response))))))"

section \<open>The interface with the client\<close>

fun args_json :: "run_args \<Rightarrow> json" where
  "args_json (ArgsStr s) = JStr s"
| "args_json (ArgsList xs) = JList (map JStr xs)"

definition runs_as_client :: "env \<Rightarrow> client \<Rightarrow> run_fn \<Rightarrow> bool" where
  "runs_as_client E c ob_run \<longleftrightarrow>
     (\<forall>ct cn cm a. ob_run (map_option JStr ct) (map_option JStr cn) (map_option JStr cm) (map_option args_json a)
                   = run E c ct cn cm a)"


section \<open>The example events\<close>

text \<open>The four scenarios at the end of the example, lines 76--104.\<close>

definition example_event_1 :: json where
  "example_event_1 =
     JObj [(''command'', JStr ''restart-service''), (''connection'', JStr ''prod-web-server''),
           (''arguments'', JList [JStr ''--service'', JStr ''nginx'', JStr ''--graceful''])]"

definition example_event_2 :: json where
  "example_event_2 =
     JObj [(''command'', JStr ''deploy-app''), (''connection'', JStr ''staging-server''),
           (''arguments'', JList [JStr ''--version'', JStr ''2.1.0'', JStr ''--rollback-on-failure''])]"

definition example_event_3 :: json where
  "example_event_3 = JObj [(''commandLine'', JStr ''run-diagnostics prod-db-server --verbose --output json'')]"

definition example_event_4 :: json where
  "example_event_4 =
     JObj [(''command'', JStr ''backup-database''), (''connection'', JStr ''prod-db-master''),
           (''arguments'', JList [JStr ''--database'', JStr ''customers'', JStr ''--compression'', JStr ''gzip'',
                                 JStr ''--destination'', JStr ''s3://backups/''])]"

section \<open>Fixtures\<close>

definition string_run :: "env \<Rightarrow> client \<Rightarrow> run_fn" where
  "string_run E c ct cn cm a =
     run E c (map_option py_str ct) (map_option py_str cn) (map_option py_str cm)
       (map_option (\<lambda>j. case j of JList xs \<Rightarrow> ArgsList (map py_str xs) | _ \<Rightarrow> ArgsStr (py_str j)) a)"


section \<open>Lemmas\<close>

lemma runs_as_client_string_run: "runs_as_client E c (string_run E c)"
proof -
  have "map_option (\<lambda>j. case j of JList xs \<Rightarrow> ArgsList (map py_str xs) | _ \<Rightarrow> ArgsStr (py_str j)) (map_option args_json a) = a" for a
    by (cases a; cases "the a") (simp_all add: comp_def)
  then show ?thesis by (simp add: runs_as_client_def string_run_def option.map_comp comp_def option.map_ident)
qed


section \<open>Properties\<close>

text \<open>
  Claim C34: An event with no truthy \<open>commandLine\<close> that lacks a truthy \<open>command\<close> or \<open>connection\<close> is answered with status 400 and the missing-parameters message, and \<open>run\<close> is not called: the world is untouched.
\<close>

theorem lambda_missing_params:
  assumes "\<not> truthy (dget kvs ''commandLine'' JNull)"
    and "\<not> truthy (dget kvs ''command'' (JStr [])) \<or> \<not> truthy (dget kvs ''connection'' (JStr []))"
  shows "lambda_handler ob_run (JObj kvs) w = (Inr missing_params_response, w)"
  using assms by (auto simp: lambda_handler_def bindE_apply)

theorem lambda_missing_params_witness:
  "lambda_handler (string_run (const_env (Reply (reply 200 (JObj [])))) demo_client) (JObj [(''command'', JStr ''df'')]) world0
     = (Inr missing_params_response, world0)"
  by (rule lambda_missing_params) simp_all

text \<open>
  Claim C17: For an event with a non-empty \<open>commandLine\<close>, the handler is \<open>run(command_text=...)\<close> followed by the interpretation of its response; an exception of \<open>run\<close> (a \<open>CommandExecutionError\<close>, a \<open>ConnectionError\<close>) escapes the handler instead of becoming a status-500 answer.
\<close>

theorem lambda_command_line:
  assumes "runs_as_client E c ob_run" and "s \<noteq> []"
  shows "lambda_handler ob_run (JObj [(''commandLine'', JStr s)]) w =
           (case run E c (Some s) None None None w of
              (Inr response, w') \<Rightarrow> (lambda_response response, w')
            | (Inl e, w') \<Rightarrow> (Inl e, w'))"
proof -
  have "ob_run (Some (JStr s)) None None None = run E c (Some s) None None None"
    using assms(1) unfolding runs_as_client_def
    by (metis option.simps(8) option.simps(9))
  then show ?thesis using assms(2) by (simp add: lambda_handler_def bindE_apply split: prod.splits sum.splits)
qed

theorem lambda_command_line_witness:
  "fst (lambda_handler (string_run (const_env (Reply (reply 200 (JObj [(''success'', JBool False), (''response'', JStr ''denied'')])))) demo_client)
          (JObj [(''commandLine'', JStr ''srv: df'')]) world0)
     = Inr (JObj [(''statusCode'', JInt 400),
                  (''body'', JObj [(''error'', JStr ''denied''), (''message'', JStr ''Command execution was not successful''),
                                   (''result'', JObj [(''success'', JBool False), (''response'', JStr ''denied'')])])])"
proof -
  let ?E = "const_env (Reply (reply 200 (JObj [(''success'', JBool False), (''response'', JStr ''denied'')])))"
  have r: "fst (run ?E demo_client (Some ''srv: df'') None None None world0) = Inr (JObj [(''success'', JBool False), (''response'', JStr ''denied'')])"
    by (simp add: run_apply run_body_def opt_json_def request_apply Let_def const_env_def answer_env_def reply_def
                  check_response_def resp_ok_def resp_json_def)
  obtain w' where r': "run ?E demo_client (Some ''srv: df'') None None None world0
                        = (Inr (JObj [(''success'', JBool False), (''response'', JStr ''denied'')]), w')"
    using r by (metis prod.collapse)
  show ?thesis
    using lambda_command_line [OF runs_as_client_string_run, where E = ?E and c = demo_client and s = "''srv: df''" and w = world0] r'
    by (simp add: lambda_response_def)
qed

text \<open>
  Claim C36: for an event with a non-empty \<open>command\<close> and \<open>connection\<close> and a list of string
  \<open>arguments\<close>, the handler is \<open>run(command=..., connection=..., args=...)\<close> with the list
  passed on as \<open>args\<close>, followed by the interpretation of its response; the example events
  1, 2 and 4 are of this form.
\<close>

theorem lambda_structured:
  assumes "runs_as_client E c ob_run" and "cm \<noteq> []" and "cn \<noteq> []"
  shows "lambda_handler ob_run (JObj [(''command'', JStr cm), (''connection'', JStr cn), (''arguments'', JList (map JStr args))]) w =
           (case run E c None (Some cn) (Some cm) (Some (ArgsList args)) w of
              (Inr response, w') \<Rightarrow> (lambda_response response, w')
            | (Inl e, w') \<Rightarrow> (Inl e, w'))"
proof -
  have "ob_run None (Some (JStr cn)) (Some (JStr cm)) (Some (JList (map JStr args))) = run E c None (Some cn) (Some cm) (Some (ArgsList args))"
    using assms(1) unfolding runs_as_client_def
    by (metis args_json.simps(2) option.simps(8) option.simps(9))
  then show ?thesis using assms(2,3) by (simp add: lambda_handler_def bindE_apply split: prod.splits sum.splits)
qed

theorem lambda_structured_witness:
  "lambda_handler (string_run (const_env (Reply (reply 200 (JObj [])))) demo_client) example_event_1 world0 =
     (case run (const_env (Reply (reply 200 (JObj [])))) demo_client None (Some ''prod-web-server'') (Some ''restart-service'')
             (Some (ArgsList [''--service'', ''nginx'', ''--graceful''])) world0 of
        (Inr response, w') \<Rightarrow> (lambda_response response, w')
      | (Inl e, w') \<Rightarrow> (Inl e, w'))"
  using lambda_structured [OF runs_as_client_string_run, where cm = "''restart-service''" and cn = "''prod-web-server''"
          and args = "[''--service'', ''nginx'', ''--graceful'']" and w = world0]
  by (simp add: example_event_1_def)

end
