(* ===== verification/CliExecute.thy ===== *)
theory CliExecute
  imports CommandExec
begin

text \<open>
  The command-line example \<open>src/examples/opsbeacon_execute.py\<close>, \<open>main()\<close> after
  \<open>argparse\<close> (lines 91--167). The parsed arguments are the record \<open>cli_args\<close>; the
  option defaults \<open>os.environ.get(...)\<close> are already folded into them. What the script
  prints is a list of lines with their stream, \<open>sys.exit(n)\<close> ends it with status
  \<open>n\<close>. \<open>json.dumps(result, indent=2)\<close> is modelled after CPython's encoder with its
  defaults (\<open>ensure_ascii\<close>, separators \<open>","\<close> and \<open>": "\<close> at each line end).

  The script calls \<open>client.run(..., debug=args.debug)\<close>. Python binds keyword arguments
  before the body runs and \<open>run\<close> has no parameter \<open>debug\<close>: the call raises
  \<open>TypeError\<close>. \<open>call_run\<close> models that binding; a keyword of the right name but of another
  type than the parameter's is not modelled (the script passes none).
\<close>

record cli_args =
  arg_api_domain :: "string option"
  arg_api_token :: "string option"
  arg_command_line :: "string option"
  arg_connection :: "string option"
  arg_command :: "string option"
  arg_args :: "string list"
  arg_json :: bool
  arg_quiet :: bool
  arg_debug :: bool

datatype stream = Stdout | Stderr

type_synonym console = "(stream \<times> string) list"

section \<open>Calling run with keyword arguments\<close>

datatype kwarg = KwStr "string option" | KwArgs "run_args option" | KwBool bool

definition run_parameters :: "string list" where
  "run_parameters = [''command_text'', ''connection'', ''command'', ''args'']"

definition kw_str :: "(string \<times> kwarg) list \<Rightarrow> string \<Rightarrow> string option" where
  "kw_str kws k = (case map_of kws k of Some (KwStr s) \<Rightarrow> s | _ \<Rightarrow> None)"

definition kw_args :: "(string \<times> kwarg) list \<Rightarrow> string \<Rightarrow> run_args option" where
  "kw_args kws k = (case map_of kws k of Some (KwArgs a) \<Rightarrow> a | _ \<Rightarrow> None)"

definition call_run :: "env \<Rightarrow> client \<Rightarrow> (string \<times> kwarg) list \<Rightarrow> json op" where
  "call_run E c kws =
     (case find (\<lambda>(k, _). k \<notin> set run_parameters) kws of
        Some (k, _) \<Rightarrow> throw (Builtin (TypeError (''OpsBeaconClient.run() got an unexpected keyword argument '' @ quoted k)))
      | None \<Rightarrow> run E c (kw_str kws ''command_text'') (kw_str kws ''connection'') (kw_str kws ''command'') (kw_args kws ''args''))"

section \<open>json.dumps with indent=2\<close>

definition hex_digit :: "nat \<Rightarrow> char" where
  "hex_digit n = (if n < 10 then char_of (48 + n) else char_of (87 + n))"

text \<open>\<open>'\\u{0:04x}'\<close> of a code point below 256.\<close>

definition u_escape :: "nat \<Rightarrow> string" where
  "u_escape n = [CHR 0x5C, CHR ''u'', CHR ''0'', CHR ''0'', hex_digit (n div 16), hex_digit (n mod 16)]"

text \<open>\<open>ESCAPE_ASCII\<close> and \<open>ESCAPE_DCT\<close> of \<open>json.encoder\<close>: everything outside \<open>' '..'~'\<close> escaped.\<close>

definition json_char :: "char \<Rightarrow> string" where
  "json_char c =
     (let n = of_char c :: nat in
      if c = CHR 0x22 then [CHR 0x5C, CHR 0x22]
      else if c = CHR 0x5C then [CHR 0x5C, CHR 0x5C]
      else if n = 10 then [CHR 0x5C, CHR ''n''] else if n = 13 then [CHR 0x5C, CHR ''r'']
      else if n = 9 then [CHR 0x5C, CHR ''t''] else if n = 8 then [CHR 0x5C, CHR ''b'']
      else if n = 12 then [CHR 0x5C, CHR ''f'']
      else if 32 \<le> n \<and> n \<le> 126 then [c]
      else u_escape n)"

definition json_string :: "string \<Rightarrow> string" where
  "json_string s = [CHR 0x22] @ concat (map json_char s) @ [CHR 0x22]"

definition indent :: "nat \<Rightarrow> string" where
  "indent n = replicate (2 * n) CHR '' ''"

primrec json_dumps :: "nat \<Rightarrow> json \<Rightarrow> string"
  and dumps_elems :: "nat \<Rightarrow> json list \<Rightarrow> string"
  and dumps_items :: "nat \<Rightarrow> (string \<times> json) list \<Rightarrow> string"
  and dumps_item :: "nat \<Rightarrow> string \<times> json \<Rightarrow> string" where
  "json_dumps n JNull = ''null''"
| "json_dumps n (JBool b) = (if b then ''true'' else ''false'')"
| "json_dumps n (JInt i) = int_str i"
| "json_dumps n (JStr s) = json_string s"
| "json_dumps n (JList xs) =
     (if xs = [] then ''[]'' else ''['' @ dumps_elems (Suc n) xs @ [CHR 0x0A] @ indent n @ '']'')"
| "json_dumps n (JObj kvs) =
     (if kvs = [] then ''{}'' else ''{'' @ dumps_items (Suc n) kvs @ [CHR 0x0A] @ indent n @ ''}'')"
| "dumps_elems n [] = []"
| "dumps_elems n (x # xs) = [CHR 0x0A] @ indent n @ json_dumps n x @ (if xs = [] then [] else '','' @ dumps_elems n xs)"
| "dumps_items n [] = []"
| "dumps_items n (kv # kvs) = [CHR 0x0A] @ indent n @ dumps_item n kv @ (if kvs = [] then [] else '','' @ dumps_items n kvs)"
| "dumps_item n (k, v) = json_string k @ '': '' @ json_dumps n v"

section \<open>The script\<close>

text \<open>An optional string in an f-string: \<open>None\<close> prints as \<open>None\<close>.\<close>

definition fmt_opt :: "string option \<Rightarrow> string" where
  "fmt_opt s = (case s of Some x \<Rightarrow> x | None \<Rightarrow> ''None'')"

definition token_hint :: "string \<Rightarrow> string" where
  "token_hint t = (if length t > 4 then replicate 10 CHR ''*'' @ drop (length t - 4) t else ''***'')"

text \<open>The informational and debug lines printed before the call, lines 110--127.\<close>

definition pre_call_lines :: "cli_args \<Rightarrow> string \<Rightarrow> string \<Rightarrow> console" where
  "pre_call_lines a domain token =
     (if \<not> arg_quiet a then
        (if opt_truthy (arg_command_line a) then [(Stdout, ''Executing command line: '' @ fmt_opt (arg_command_line a))]
         else [(Stdout, ''Executing command '' @ quoted (fmt_opt (arg_command a)) @ '' on connection '' @ quoted (fmt_opt (arg_connection a)))]
              @ (if arg_args a \<noteq> [] then [(Stdout, ''Arguments: '' @ py_repr (JList (map JStr (arg_args a))))] else []))
      else [])
     @ (if arg_debug a then
          [(Stdout, CHR 0x0A # ''Debug: API Domain: '' @ domain), (Stdout, ''Debug: API Token: '' @ token_hint token),
           (Stdout, ''Debug: Request details:'')]
          @ (if opt_truthy (arg_command_line a) then [(Stdout, ''  - Command line: '' @ fmt_opt (arg_command_line a))]
             else [(Stdout, ''  - Command: '' @ fmt_opt (arg_command a)), (Stdout, ''  - Connection: '' @ fmt_opt (arg_connection a)),
                   (Stdout, ''  - Args: '' @ py_repr (JList (map JStr (arg_args a))))])
        else [])"

text \<open>The keyword arguments of the call, lines 129--137.\<close>

definition run_kwargs :: "cli_args \<Rightarrow> (string \<times> kwarg) list" where
  "run_kwargs a =
     (if opt_truthy (arg_command_line a) then [(''command_text'', KwStr (arg_command_line a)), (''debug'', KwBool (arg_debug a))]
      else [(''command'', KwStr (arg_command a)), (''connection'', KwStr (arg_connection a)),
            (''args'', KwArgs (Some (ArgsList (arg_args a)))), (''debug'', KwBool (arg_debug a))])"

text \<open>
  Lines 139--163: the lines printed for the result, and then the exit status with the
  further lines, or the exception that the membership test or the subscript raises.
\<close>

definition result_lines :: "cli_args \<Rightarrow> json \<Rightarrow> console \<times> (error + nat \<times> console)" where
  "result_lines a result =
     (if arg_debug a then [(Stdout, CHR 0x0A # ''Debug: Raw response: '' @ py_str result),
                           (Stdout, ''Debug: Response type: <class '' @ quoted (type_name result) @ ''>'')] else [],
      bindR (py_contains result ''error'') (\<lambda>has_error.
      if has_error then bindR (py_getitem result ''error'') (\<lambda>err. Inr (1, [(Stderr, ''Error: '' @ py_str err)]))
      else if arg_json a then Inr (0, [(Stdout, json_dumps 0 result)])
      else Inr (0, (if \<not> arg_quiet a then [(Stdout, CHR 0x0A # ''Execution Result:''), (Stdout, replicate 50 CHR ''-'')] else [])
                   @ (case result of
                        JObj kvs \<Rightarrow> map (\<lambda>(k, v). (Stdout, if k = ''output'' \<and> type_name v = ''str''
                                                             then k @ '':'' @ CHR 0x0A # py_str v else k @ '': '' @ py_str v)) kvs
                      | _ \<Rightarrow> [(Stdout, py_str result)]))))"

definition execute_main :: "(string \<times> string) list \<Rightarrow> env \<Rightarrow> cli_args \<Rightarrow> (nat \<times> console) op" where
  "execute_main lib E a =
     (case (arg_api_domain a, arg_api_token a) of
        (Some domain, Some token) \<Rightarrow>
          if domain = [] then ret (1, [(Stderr, ''Error: API domain not provided. Use --api-domain or set OPSBEACON_API_DOMAIN environment variable'')])
          else if token = [] then ret (1, [(Stderr, ''Error: API token not provided. Use --api-token or set OPSBEACON_API_TOKEN environment variable'')])
          else if \<not> opt_truthy (arg_command_line a) \<and> (\<not> opt_truthy (arg_connection a) \<or> \<not> opt_truthy (arg_command a)) then
            ret (1, [(Stderr, ''Error: Either --command-line or both --connection and --command must be provided'')])
          else
            bindE (liftE (client_init lib domain token DEFAULT_TIMEOUT False)) (\<lambda>client.
            catchE
              (bindE (call_run E client (run_kwargs a)) (\<lambda>result.
               case result_lines a result of
                 (printed, Inr (code, out)) \<Rightarrow> ret (code, pre_call_lines a domain token @ printed @ out)
               | (printed, Inl e) \<Rightarrow>
                   if isinstance e CException then ret (1, pre_call_lines a domain token @ printed @ [(Stderr, ''Error: '' @ err_str e)])
                   else throw e))
              (\<lambda>e. isinstance e CException)
              (\<lambda>e. ret (1, pre_call_lines a domain token @ [(Stderr, ''Error: '' @ err_str e)])))
      | (None, _) \<Rightarrow> ret (1, [(Stderr, ''Error: API domain not provided. Use --api-domain or set OPSBEACON_API_DOMAIN environment variable'')])
      | (Some domain, None) \<Rightarrow>
          if domain = [] then ret (1, [(Stderr, ''Error: API domain not provided. Use --api-domain or set OPSBEACON_API_DOMAIN environment variable'')])
          else ret (1, [(Stderr, ''Error: API token not provided. Use --api-token or set OPSBEACON_API_TOKEN environment variable'')]))"


section \<open>Fixtures\<close>

definition cli_demo :: cli_args where
  "cli_demo = \<lparr>arg_api_domain = Some ''api.example.com'', arg_api_token = Some ''secret-token'',
                arg_command_line = Some ''ob run check-disk'', arg_connection = None, arg_command = None,
                arg_args = [], arg_json = False, arg_quiet = False, arg_debug = False\<rparr>"


section \<open>Lemmas\<close>


section \<open>Properties\<close>

text \<open>
  Claim C20: Whatever valid arguments it is given, the script \<open>opsbeacon_execute.py\<close> never executes a command: it prints its informational lines, then \<open>Error:\<close> with the \<open>TypeError\<close> of the unexpected keyword \<open>debug\<close>, exits with status 1, and sends no request.
\<close>

theorem execute_main_always_fails:
  assumes "arg_api_domain a = Some d" and "d \<noteq> []" and "arg_api_token a = Some t" and "t \<noteq> []"
    and "opt_truthy (arg_command_line a) \<or> (opt_truthy (arg_connection a) \<and> opt_truthy (arg_command a))"
  shows "execute_main lib E a w =
           (Inr (1, pre_call_lines a d t
                    @ [(Stderr, ''Error: OpsBeaconClient.run() got an unexpected keyword argument '' @ quoted ''debug'')]), w)"
proof -
  have "call_run E c (run_kwargs a) w =
          (Inl (Builtin (TypeError (''OpsBeaconClient.run() got an unexpected keyword argument '' @ quoted ''debug''))), w)" for c
    by (simp add: call_run_def run_kwargs_def run_parameters_def)
  moreover obtain c where "client_init lib d t DEFAULT_TIMEOUT False = Inr c"
    using assms(2,4) by (simp add: client_init_def)
  ultimately show ?thesis
    using assms by (simp add: execute_main_def bindE_apply catchE_apply err_str_def isinstance_def)
qed

theorem execute_main_always_fails_witness:
  "execute_main [] (const_env (Reply (reply 200 (JObj [])))) cli_demo world0 =
     (Inr (1, [(Stdout, ''Executing command line: ob run check-disk''),
               (Stderr, ''Error: OpsBeaconClient.run() got an unexpected keyword argument '' @ quoted ''debug'')]), world0)"
  using execute_main_always_fails [of cli_demo "''api.example.com''" "''secret-token''" "[]" "const_env (Reply (reply 200 (JObj [])))" world0]
  by (simp add: cli_demo_def pre_call_lines_def fmt_opt_def)

end
