(* ===== verification/McpOperations.thy ===== *)
theory McpOperations
  imports Triggers McpTester CliExecute
begin

text \<open>
  The example script \<open>src/examples/mcp_operations.py\<close>: \<open>generate_unique_name\<close>, \<open>main(args)\<close>
  and the \<open>__main__\<close> block with its \<open>--list-only\<close> path. The script's inputs besides the
  network are the record \<open>ops_env\<close>: the two environment variables (after
  \<open>load_dotenv\<close>), the clock \<open>datetime.now()\<close>, the indices \<open>random.choices\<close> draws and the
  line \<open>input()\<close> reads. Its state is the client's \<open>world\<close> together with what it has
  printed (a \<open>console\<close>, one entry per \<open>print\<close>; the prompt of \<open>input()\<close> is an entry
  of its own). An exception the script does not catch ends it as the value \<open>Inl e\<close>;
  otherwise it ends with its exit status. \<open>time.sleep(2)\<close> has no effect on the model.
  Characters outside ASCII that the script prints are their UTF-8 bytes.

  \<open>script_sends_only\<close> lifts \<open>sends_only\<close> to the script's state; its rules join the
  collection \<open>sends_intros\<close>, so that the bound on the requests of a whole run is
  composed from the client methods' bounds. The properties: \<open>--list-only\<close> only reads,
  \<open>--skip-delete\<close> deletes nothing, the crash on a failed MCP \<open>initialize\<close>, the dead
  failure branch of the deletion, and the shape of the generated name.
\<close>

record ops_args =
  list_only :: bool
  skip_delete :: bool
  auto_delete :: bool

text \<open>\<open>datetime.now()\<close>: the fields \<open>strftime\<close> reads.\<close>

record stamp =
  st_year :: nat
  st_month :: nat
  st_day :: nat
  st_hour :: nat
  st_minute :: nat
  st_second :: nat

record ops_env =
  env_domain :: "string option"
  env_token :: "string option"
  now :: stamp
  draw :: "nat \<Rightarrow> nat"
  answer :: string

type_synonym 'a script = "(world \<times> console, error, 'a) exn"

section \<open>Printing and the client's calls inside the script\<close>

definition on_world :: "'a op \<Rightarrow> 'a script" where
  "on_world m = (\<lambda>(w, out). case m w of (r, w') \<Rightarrow> (r, (w', out)))"

definition echo_all :: "string list \<Rightarrow> unit script" where
  "echo_all ss = modifyE (\<lambda>(w, out). (w, out @ map (Pair Stdout) ss))"

abbreviation echo :: "string \<Rightarrow> unit script" where
  "echo s \<equiv> echo_all [s]"

text \<open>A \<open>print\<close> whose string starts with \<open>\n\<close>.\<close>

abbreviation nl :: "string \<Rightarrow> string" where
  "nl s \<equiv> CHR 0x0A # s"

fun for_each :: "('a \<Rightarrow> unit script) \<Rightarrow> 'a list \<Rightarrow> unit script" where
  "for_each f [] = ret ()"
| "for_each f (x # xs) = bindE (f x) (\<lambda>_. for_each f xs)"

text \<open>U+2713, U+26A0 and U+2717 in UTF-8.\<close>

definition check_mark :: string where
  "check_mark = [CHR 0xE2, CHR 0x9C, CHR 0x93]"

definition warn_sign :: string where
  "warn_sign = [CHR 0xE2, CHR 0x9A, CHR 0xA0]"

definition cross_mark :: string where
  "cross_mark = [CHR 0xE2, CHR 0x9C, CHR 0x97]"

definition rule50 :: string where
  "rule50 = replicate 50 CHR ''=''"

text \<open>\<open>len(x)\<close>; strings count their characters.\<close>

fun py_len :: "json \<Rightarrow> error + nat" where
  "py_len (JStr s) = Inr (length s)"
| "py_len (JList xs) = Inr (length xs)"
| "py_len (JObj kvs) = Inr (length kvs)"
| "py_len x = Inl (Builtin (TypeError (''object of type '' @ quoted (type_name x) @ '' has no len()'')))"

text \<open>\<open>x[:n]\<close> (a dict looks the slice up as a key, as Python 3.12 does).\<close>

fun py_head :: "nat \<Rightarrow> json \<Rightarrow> error + json" where
  "py_head n (JStr s) = Inr (JStr (take n s))"
| "py_head n (JList xs) = Inr (JList (take n xs))"
| "py_head n (JObj _) = Inl (Builtin (KeyError (''slice(None, '' @ nat_str n @ '', None)'')))"
| "py_head n x = Inl (Builtin (TypeError (quoted (type_name x) @ '' object is not subscriptable'')))"

section \<open>generate_unique_name, lines 29--33\<close>

definition pad2 :: "nat \<Rightarrow> string" where
  "pad2 k = (let s = nat_str k in replicate (2 - length s) CHR ''0'' @ s)"

text \<open>\<open>strftime("%Y%m%d-%H%M%S")\<close>; glibc prints the year without padding.\<close>

definition strftime_stamp :: "stamp \<Rightarrow> string" where
  "strftime_stamp t =
     nat_str (st_year t) @ pad2 (st_month t) @ pad2 (st_day t) @ ''-''
     @ pad2 (st_hour t) @ pad2 (st_minute t) @ pad2 (st_second t)"

definition name_alphabet :: string where
  "name_alphabet = ''abcdefghijklmnopqrstuvwxyz0123456789''"

text \<open>\<open>random.choices(ascii_lowercase + digits, k=4)\<close>: the \<open>i\<close>-th draw is the index \<open>draw i\<close>.\<close>

definition generate_unique_name :: "string \<Rightarrow> stamp \<Rightarrow> (nat \<Rightarrow> nat) \<Rightarrow> string" where
  "generate_unique_name prefix t d =
     prefix @ ''-'' @ strftime_stamp t @ ''-'' @ map (\<lambda>i. name_alphabet ! d i) [0..<4]"

section \<open>The steps of main\<close>

text \<open>Getting the client, lines 40--47 and 274--281, with the default API domain \<open>dflt\<close>.\<close>

definition env_client :: "(string \<times> string) list \<Rightarrow> string \<Rightarrow> ops_env \<Rightarrow> (client \<Rightarrow> nat script) \<Rightarrow> nat script" where
  "env_client lib dflt oe k =
     (let domain = (case env_domain oe of Some d \<Rightarrow> d | None \<Rightarrow> dflt) in
      case env_token oe of
        Some token \<Rightarrow> if token \<noteq> [] then bindE (liftE (client_init lib domain token DEFAULT_TIMEOUT False)) k
                     else bindE (echo ''Error: OPSBEACON_API_TOKEN environment variable is required'') (\<lambda>_. ret 1)
      | None \<Rightarrow> bindE (echo ''Error: OPSBEACON_API_TOKEN environment variable is required'') (\<lambda>_. ret 1))"

text \<open>One trigger of a listing, lines 60--63 and 286--289, indented by \<open>ind\<close>.\<close>

definition print_trigger :: "string \<Rightarrow> json \<Rightarrow> unit script" where
  "print_trigger ind t =
     bindE (liftE (py_getitem t ''name'')) (\<lambda>n.
     bindE (liftE (py_get t ''description'' (JStr ''No description''))) (\<lambda>d.
     bindE (echo (ind @ ''- '' @ py_str n @ '': '' @ py_str d)) (\<lambda>_.
     bindE (liftE (py_get t ''triggerUrl'' JNull)) (\<lambda>u.
     if truthy u then bindE (liftE (py_getitem t ''triggerUrl'')) (\<lambda>u'. echo (ind @ ''  URL: '' @ py_str u'))
     else ret ()))))"

text \<open>Steps 1 and 2, lines 52--63.\<close>

definition list_step :: "env \<Rightarrow> client \<Rightarrow> unit script" where
  "list_step E c =
     bindE (echo (nl ''1. Listing all triggers:'')) (\<lambda>_.
     bindE (on_world (triggers E c None)) (\<lambda>ts.
     bindE (liftE (py_len ts)) (\<lambda>n.
     bindE (echo (''   Found '' @ nat_str n @ '' total triggers'')) (\<lambda>_.
     bindE (echo (nl ''2. Listing MCP triggers:'')) (\<lambda>_.
     bindE (on_world (mcp_triggers E c)) (\<lambda>ms.
     bindE (liftE (py_iter ms)) (for_each (print_trigger ''   ''))))))))"

text \<open>The tool of step 3, lines 70--82.\<close>

definition disk_usage_instance :: json where
  "disk_usage_instance =
     JObj [(''instanceId'', JStr ''disk-usage''), (''templateId'', JStr ''disk-usage''),
           (''overrides'', JObj [(''name'', JStr ''disk_usage''),
                                 (''description'', JStr ''Check disk usage on the devcontroller server''),
                                 (''connection'', JStr ''devcontroller''), (''command'', JStr ''df''),
                                 (''argumentOverrides'', JObj [])])]"

text \<open>
  Step 3, lines 65--131: the trigger's creation. \<open>None\<close> is the \<open>return\<close> of lines 101
  and 107; otherwise the MCP URL and token found (\<open>None\<close> as \<open>JNull\<close>).
\<close>

definition create_step :: "env \<Rightarrow> client \<Rightarrow> string \<Rightarrow> (json \<times> json) option script" where
  "create_step E c name =
     bindE (echo (nl ''3. Creating a new MCP trigger:'')) (\<lambda>_.
     bindE (echo (''   Using unique name: '' @ name)) (\<lambda>_.
     bindE (on_world (create_mcp_trigger E c name ''Demo MCP server with system monitoring tools (auto-generated)''
                        (Some [disk_usage_instance]) None)) (\<lambda>result.
     bindE (liftE (py_contains result ''error'')) (\<lambda>has_error.
     if has_error then
       bindE (liftE (py_getitem result ''error'')) (\<lambda>e.
       bindE (echo (''   Error creating trigger: '' @ py_str e)) (\<lambda>_.
       bindE (liftE (py_contains result ''details'')) (\<lambda>has_details.
       bindE (if has_details then bindE (liftE (py_getitem result ''details'')) (\<lambda>d. echo (''   Details: '' @ py_str d))
              else ret ()) (\<lambda>_.
       bindE (echo (nl ''Note: Skipping remaining tests due to trigger creation failure'')) (\<lambda>_. ret None)))))
     else if \<not> truthy result \<or> type_name result \<noteq> ''dict'' then
       bindE (echo_all [''   Warning: Unexpected response format: '' @ py_str result,
                        nl ''Note: Skipping remaining tests due to unexpected response'']) (\<lambda>_. ret None)
     else
       bindE (liftE (py_get result ''name'' (JStr name))) (\<lambda>n.
       bindE (echo_all [''   '' @ check_mark @ '' Created trigger: '' @ py_str n, ''   Waiting for trigger to be available...'']) (\<lambda>_.
       bindE (liftE (py_get result ''url'' JNull)) (\<lambda>u.
       bindE (if truthy u then bindE (liftE (py_getitem result ''url'')) (\<lambda>u'.
                                bindE (echo (''   MCP Server URL: '' @ py_str u')) (\<lambda>_. ret u'))
              else ret JNull) (\<lambda>mcp_url.
       bindE (liftE (py_get result ''apiToken'' JNull)) (\<lambda>t.
       bindE (if truthy t then bindE (liftE (py_getitem result ''apiToken'')) (\<lambda>t'.
                                bindE (echo_all [''   API Token: '' @ py_str t',
                                                 nl ''   IMPORTANT: Save these credentials! The API token is only shown once.'']) (\<lambda>_. ret t'))
              else ret JNull) (\<lambda>mcp_token.
       bindE (if \<not> truthy mcp_url then
                bindE (on_world (get_mcp_trigger_url E c name)) (\<lambda>trigger_url.
                if truthy trigger_url then bindE (echo (''   MCP Server URL (from trigger): '' @ py_str trigger_url)) (\<lambda>_. ret trigger_url)
                else ret mcp_url)
              else ret mcp_url) (\<lambda>mcp_url.
       ret (Some (mcp_url, mcp_token)))))))))))))"


text \<open>Lines 153--158: \<open>test_result.get(k, {}).get('error')\<close> and its print.\<close>

definition print_step_error :: "json \<Rightarrow> string \<Rightarrow> string \<Rightarrow> unit script" where
  "print_step_error test_result k label =
     bindE (liftE (bindR (py_get test_result k (JObj [])) (\<lambda>x. py_get x ''error'' JNull))) (\<lambda>e.
     if truthy e then bindE (liftE (bindR (py_getitem test_result k) (\<lambda>x. py_getitem x ''error''))) (\<lambda>e'.
                        echo (''     '' @ label @ '' error: '' @ py_str e'))
     else ret ())"

text \<open>Lines 142--150: the first text content, then \<open>break\<close>.\<close>

fun print_first_text :: "json list \<Rightarrow> unit script" where
  "print_first_text [] = ret ()"
| "print_first_text (content # cs) =
     bindE (liftE (py_get content ''type'' JNull)) (\<lambda>ty.
     if ty = JStr ''text'' then
       bindE (liftE (py_getitem content ''text'')) (\<lambda>output.
       bindE (liftE (py_len output)) (\<lambda>n.
       if n > 200 then bindE (liftE (py_head 200 output)) (\<lambda>h. echo (''   Output preview: '' @ py_str h @ ''...''))
       else echo (''   Output: '' @ py_str output)))
     else print_first_text cs)"

text \<open>Lines 137--158: the report of \<open>test_mcp_protocol\<close>'s result.\<close>

definition report_test :: "json \<Rightarrow> unit script" where
  "report_test test_result =
     bindE (liftE (py_get test_result ''success'' JNull)) (\<lambda>success.
     if truthy success then
       bindE (echo (''   '' @ check_mark @ '' MCP Protocol test successful!'')) (\<lambda>_.
       bindE (liftE (py_get test_result ''execution'' JNull)) (\<lambda>ex.
       bindE (if truthy ex then liftE (bindR (py_getitem test_result ''execution'') (\<lambda>x. py_contains x ''result''))
              else ret False) (\<lambda>has_result.
       if has_result then
         bindE (liftE (bindR (py_getitem test_result ''execution'') (\<lambda>x. py_getitem x ''result''))) (\<lambda>exec_result.
         bindE (liftE (py_contains exec_result ''content'')) (\<lambda>has_content.
         if has_content then bindE (liftE (bindR (py_get exec_result ''content'' (JList [])) py_iter)) print_first_text
         else ret ()))
       else ret ())))
     else
       bindE (echo (''   '' @ warn_sign @ '' MCP Protocol test failed'')) (\<lambda>_.
       bindE (print_step_error test_result ''initialize'' ''Initialize'') (\<lambda>_.
       bindE (print_step_error test_result ''tools'' ''Tools list'') (\<lambda>_.
       print_step_error test_result ''execution'' ''Execution''))))"

text \<open>
  Lines 133--136. \<open>requests\<close> applies \<open>str()\<close> to the URL and the header is an f-string, so
  the values found are passed on as their \<open>str()\<close>.
\<close>

definition test_step :: "env \<Rightarrow> client \<Rightarrow> json \<Rightarrow> json \<Rightarrow> unit script" where
  "test_step E c mcp_url mcp_token =
     (if truthy mcp_url \<and> truthy mcp_token then
        bindE (echo (nl ''   Testing MCP Protocol with disk_usage tool...'')) (\<lambda>_.
        bindE (on_world (test_mcp_protocol E c (py_str mcp_url) (py_str mcp_token) (Some ''disk_usage''))) report_test)
      else ret ())"

text \<open>\<open>if "error" in result: print(...) else: ...\<close>, as steps 4, 6 and 7 test a result.\<close>

definition unless_error :: "string \<Rightarrow> json \<Rightarrow> unit script \<Rightarrow> unit script" where
  "unless_error prefix result ok =
     bindE (liftE (py_contains result ''error'')) (\<lambda>has_error.
     if has_error then bindE (liftE (py_getitem result ''error'')) (\<lambda>e. echo (prefix @ py_str e)) else ok)"

text \<open>Lines 176--178 and 216--218.\<close>

definition print_tool_count :: "json \<Rightarrow> unit script" where
  "print_tool_count result =
     bindE (liftE (py_get result ''mcpTriggerInfo'' (JObj []))) (\<lambda>mcp_info.
     bindE (liftE (py_get mcp_info ''toolInstances'' (JList []))) (\<lambda>tools.
     bindE (liftE (py_len tools)) (\<lambda>n. echo (''   Trigger now has '' @ nat_str n @ '' tools''))))"

definition memory_tool :: json where
  "memory_tool =
     JObj [(''name'', JStr ''memory_usage''), (''description'', JStr ''Check memory usage on the devcontroller server''),
           (''connection'', JStr ''devcontroller''), (''command'', JStr ''free''), (''arguments'', JObj [])]"

text \<open>Step 4, lines 160--178.\<close>

definition add_tool_step :: "env \<Rightarrow> client \<Rightarrow> string \<Rightarrow> unit script" where
  "add_tool_step E c name =
     bindE (echo (nl ''4. Adding a new tool to the trigger:'')) (\<lambda>_.
     bindE (on_world (add_tool_to_mcp_trigger E c name memory_tool)) (\<lambda>result.
     unless_error ''   Error adding tool: '' result
       (bindE (echo (''   Successfully added tool '' @ quoted ''memory_usage'')) (\<lambda>_. print_tool_count result))))"

definition print_tool :: "json \<Rightarrow> unit script" where
  "print_tool tool =
     bindE (liftE (py_get tool ''overrides'' (JObj []))) (\<lambda>overrides.
     bindE (liftE (py_get overrides ''name'' (JStr ''Unnamed''))) (\<lambda>n.
     bindE (liftE (py_get overrides ''description'' (JStr ''No description''))) (\<lambda>d.
     echo (''     - '' @ py_str n @ '': '' @ py_str d))))"

text \<open>Step 5, lines 180--196.\<close>

definition details_step :: "env \<Rightarrow> client \<Rightarrow> string \<Rightarrow> unit script" where
  "details_step E c name =
     bindE (echo (nl ''5. Getting trigger details:'')) (\<lambda>_.
     bindE (on_world (get_trigger E c name)) (\<lambda>trigger.
     bindE (if truthy trigger then liftE (map_sum id (\<lambda>k. k = JStr ''mcp'') (py_get trigger ''kind'' JNull))
            else ret False) (\<lambda>is_mcp.
     if is_mcp then
       bindE (liftE (py_get trigger ''name'' (JStr name))) (\<lambda>n.
       bindE (echo (''   Name: '' @ py_str n)) (\<lambda>_.
       bindE (liftE (py_get trigger ''kind'' (JStr ''mcp''))) (\<lambda>k.
       bindE (echo (''   Kind: '' @ py_str k)) (\<lambda>_.
       bindE (liftE (py_get trigger ''description'' (JStr ''N/A''))) (\<lambda>d.
       bindE (echo (''   Description: '' @ py_str d)) (\<lambda>_.
       bindE (liftE (py_get trigger ''triggerUrl'' JNull)) (\<lambda>u.
       bindE (if truthy u then bindE (liftE (py_getitem trigger ''triggerUrl'')) (\<lambda>u'. echo (''   URL: '' @ py_str u'))
              else ret ()) (\<lambda>_.
       bindE (liftE (py_get trigger ''mcpTriggerInfo'' (JObj []))) (\<lambda>mcp_info.
       bindE (liftE (py_get mcp_info ''toolInstances'' (JList []))) (\<lambda>tools.
       bindE (liftE (py_len tools)) (\<lambda>count.
       bindE (echo (''   Tools ('' @ nat_str count @ ''):'')) (\<lambda>_.
       bindE (liftE (py_iter tools)) (for_each print_tool)))))))))))))
     else echo (''   Failed to get trigger details for '' @ quoted name))))"

text \<open>Step 6, lines 198--207.\<close>

definition update_step :: "env \<Rightarrow> client \<Rightarrow> string \<Rightarrow> unit script" where
  "update_step E c name =
     bindE (echo (nl ''6. Updating trigger description:'')) (\<lambda>_.
     bindE (on_world (update_mcp_trigger E c name
                        (Some ''Updated demo MCP server with enhanced system monitoring capabilities'') None)) (\<lambda>result.
     unless_error ''   Error updating trigger: '' result (echo ''   Successfully updated trigger description'')))"

text \<open>Step 7, lines 209--218.\<close>

definition remove_step :: "env \<Rightarrow> client \<Rightarrow> string \<Rightarrow> unit script" where
  "remove_step E c name =
     bindE (echo (nl ''7. Removing a tool from the trigger:'')) (\<lambda>_.
     bindE (on_world (remove_tool_from_mcp_trigger E c name ''memory_usage'')) (\<lambda>result.
     unless_error ''   Error removing tool: '' result
       (bindE (echo (''   Successfully removed tool '' @ quoted ''memory_usage'')) (\<lambda>_. print_tool_count result))))"

text \<open>Lines 227--231 and 238--242.\<close>

definition delete_and_report :: "env \<Rightarrow> client \<Rightarrow> string \<Rightarrow> unit script" where
  "delete_and_report E c name =
     bindE (on_world (delete_trigger E c name)) (\<lambda>success.
     if success then echo (''   '' @ check_mark @ '' Successfully deleted trigger '' @ quoted name)
     else echo (''   '' @ cross_mark @ '' Failed to delete trigger '' @ quoted name))"

text \<open>
  Step 8, lines 220--244. \<open>hasattr(args, ...)\<close> is false for \<open>args=None\<close>; the prompt of
  \<open>input()\<close> is printed, then the line \<open>ans\<close> is read.
\<close>

definition cleanup_step :: "env \<Rightarrow> client \<Rightarrow> string \<Rightarrow> ops_args option \<Rightarrow> string \<Rightarrow> unit script" where
  "cleanup_step E c name args ans =
     bindE (echo_all [nl ''8. Cleaning up:'', ''   Trigger name: '' @ name]) (\<lambda>_.
     if (case args of Some a \<Rightarrow> auto_delete a | None \<Rightarrow> False) then
       bindE (echo ''   Auto-deleting trigger (--auto-delete flag set)'') (\<lambda>_. delete_and_report E c name)
     else if (case args of Some a \<Rightarrow> skip_delete a | None \<Rightarrow> False) then
       echo_all [''   Skipping deletion (--skip-delete flag set)'', ''   Trigger '' @ quoted name @ '' has been kept'']
     else
       bindE (echo ''   Delete the demo trigger? (y/n): '') (\<lambda>_.
       if lower_ascii ans = ''y'' then delete_and_report E c name
       else echo (''   Keeping trigger '' @ quoted name)))"

section \<open>main and the script\<close>

text \<open>\<open>main(args)\<close>, lines 35--247; its \<open>return\<close> is exit status 0.\<close>

definition ops_main :: "(string \<times> string) list \<Rightarrow> env \<Rightarrow> ops_env \<Rightarrow> ops_args option \<Rightarrow> nat script" where
  "ops_main lib E oe args =
     env_client lib ''api.console.opsbeacon.com'' oe (\<lambda>c.
     bindE (echo_all [''OpsBeacon MCP Trigger Operations Example'', rule50]) (\<lambda>_.
     bindE (list_step E c) (\<lambda>_.
     let name = generate_unique_name ''demo-mcp'' (now oe) (draw oe) in
     bindE (create_step E c name) (\<lambda>created.
     case created of
       None \<Rightarrow> ret 0
     | Some (mcp_url, mcp_token) \<Rightarrow>
         bindE (test_step E c mcp_url mcp_token) (\<lambda>_.
         bindE (add_tool_step E c name) (\<lambda>_.
         bindE (details_step E c name) (\<lambda>_.
         bindE (update_step E c name) (\<lambda>_.
         bindE (remove_step E c name) (\<lambda>_.
         bindE (cleanup_step E c name args (answer oe)) (\<lambda>_.
         bindE (echo_all [nl rule50, ''MCP operations example completed!'']) (\<lambda>_. ret 0)))))))))))"

text \<open>The \<open>__main__\<close> block, lines 249--293.\<close>

definition ops_script :: "(string \<times> string) list \<Rightarrow> env \<Rightarrow> ops_env \<Rightarrow> ops_args \<Rightarrow> nat script" where
  "ops_script lib E oe a =
     (if list_only a then
        env_client lib ''api.console.opsbeacon.com'' oe (\<lambda>c.
        bindE (on_world (mcp_triggers E c)) (\<lambda>ms.
        bindE (echo_all [''Existing MCP Triggers:'', rule50]) (\<lambda>_.
        bindE (liftE (py_iter ms)) (\<lambda>ts.
        bindE (for_each (print_trigger []) ts) (\<lambda>_. ret 0)))))
      else ops_main lib E oe (Some a))"

section \<open>The requests a script sends\<close>

definition script_sends_only :: "(http_request \<Rightarrow> bool) \<Rightarrow> 'a script \<Rightarrow> bool" where
  "script_sends_only P m \<longleftrightarrow> (\<forall>w out. \<exists>qs. sent (fst (snd (m (w, out)))) = sent w @ qs \<and> list_all P qs)"

section \<open>Fixtures\<close>

definition ops_demo_env :: ops_env where
  "ops_demo_env = \<lparr>env_domain = Some ''api.example.com'', env_token = Some ''tok'',
     now = \<lparr>st_year = 2025, st_month = 1, st_day = 2, st_hour = 3, st_minute = 4, st_second = 5\<rparr>,
     draw = (\<lambda>i. i), answer = ''y''\<rparr>"

section \<open>Lemmas\<close>

lemma on_world_apply [monad_simps]: "on_world m (w, out) = (case m w of (r, w') \<Rightarrow> (r, (w', out)))"
  by (simp add: on_world_def)

lemma echo_all_apply [monad_simps]: "echo_all ss (w, out) = (Inr (), (w, out @ map (Pair Stdout) ss))"
  by (simp add: echo_all_def modifyE_def)

lemma script_sends_only_ret [sends_intros]: "script_sends_only P (ret x)"
  and script_sends_only_throw [sends_intros]: "script_sends_only P (throw e)"
  and script_sends_only_liftE [sends_intros]: "script_sends_only P (liftE r)"
  and script_sends_only_echo_all [sends_intros]: "script_sends_only P (echo_all ss)"
  by (auto simp: script_sends_only_def ret_def throw_def liftE_def echo_all_apply)

lemma on_world_parts: "on_world m (w, out) = (fst (m w), (snd (m w), out))"
  by (simp add: on_world_apply split: prod.split)

lemma script_sends_only_on_world [sends_intros]: "sends_only P m \<Longrightarrow> script_sends_only P (on_world m)"
  by (simp add: script_sends_only_def sends_only_def on_world_parts)

lemma script_sends_only_bindE [sends_intros]:
  assumes "script_sends_only P m" and "\<And>x. script_sends_only P (f x)"
  shows "script_sends_only P (bindE m f)"
  unfolding script_sends_only_def
proof (intro allI)
  fix w out
  obtain qs where m: "sent (fst (snd (m (w, out)))) = sent w @ qs" "list_all P qs"
    using assms(1) unfolding script_sends_only_def by blast
  obtain r s where rs: "m (w, out) = (r, s)" by (cases "m (w, out)") blast
  show "\<exists>qs. sent (fst (snd (bindE m f (w, out)))) = sent w @ qs \<and> list_all P qs"
  proof (cases r)
    case (Inr x)
    obtain qs' where "sent (fst (snd (f x s))) = sent (fst s) @ qs'" "list_all P qs'"
      using assms(2) [of x] unfolding script_sends_only_def by (metis prod.collapse)
    with m rs Inr show ?thesis by (intro exI [of _ "qs @ qs'"]) (simp add: bindE_def)
  qed (use m rs in \<open>auto simp: bindE_def\<close>)
qed

lemma script_sends_only_if [sends_intros]:
  "script_sends_only P m1 \<Longrightarrow> script_sends_only P m2 \<Longrightarrow> script_sends_only P (if b then m1 else m2)"
  by simp

lemma script_sends_only_case_option [sends_intros]:
  "script_sends_only P m \<Longrightarrow> (\<And>x. script_sends_only P (g x)) \<Longrightarrow> script_sends_only P (case_option m g r)"
  by (cases r) simp_all

lemma script_sends_only_case_prod [sends_intros]:
  "(\<And>a b. script_sends_only P (f a b)) \<Longrightarrow> script_sends_only P (case_prod f x)"
  by (cases x) simp

lemma script_sends_only_Let [sends_intros]: "(\<And>x. script_sends_only P (f x)) \<Longrightarrow> script_sends_only P (Let v f)"
  by simp

lemma script_sends_only_for_each [sends_intros]:
  "(\<And>x. script_sends_only P (f x)) \<Longrightarrow> script_sends_only P (for_each f xs)"
  by (induction xs) (simp_all add: sends_intros)

lemma script_sends_only_env_client [sends_intros]:
  "(\<And>c. script_sends_only P (k c)) \<Longrightarrow> script_sends_only P (env_client lib dflt oe k)"
  unfolding env_client_def by (intro sends_intros) simp_all

lemmas trigger_op_defs = triggers_def mcp_triggers_def get_trigger_def request_json_def create_mcp_trigger_def
  update_mcp_trigger_def get_mcp_trigger_url_def add_tool_to_mcp_trigger_def remove_tool_from_mcp_trigger_def

lemma mcp_triggers_gets: "sends_only (\<lambda>q. req_method q = ''GET'') (mcp_triggers E c)"
  unfolding trigger_op_defs by (intro sends_intros) (simp_all add: wire_request_def)

lemma no_delete_sends:
  "sends_only (\<lambda>q. req_method q \<noteq> ''DELETE'') (triggers E c k)"
  "sends_only (\<lambda>q. req_method q \<noteq> ''DELETE'') (mcp_triggers E c)"
  "sends_only (\<lambda>q. req_method q \<noteq> ''DELETE'') (get_trigger E c n)"
  "sends_only (\<lambda>q. req_method q \<noteq> ''DELETE'') (create_mcp_trigger E c n d ti ps)"
  "sends_only (\<lambda>q. req_method q \<noteq> ''DELETE'') (update_mcp_trigger E c n d' ti)"
  "sends_only (\<lambda>q. req_method q \<noteq> ''DELETE'') (get_mcp_trigger_url E c n)"
  "sends_only (\<lambda>q. req_method q \<noteq> ''DELETE'') (add_tool_to_mcp_trigger E c n cfg)"
  "sends_only (\<lambda>q. req_method q \<noteq> ''DELETE'') (remove_tool_from_mcp_trigger E c n t)"
  "sends_only (\<lambda>q. req_method q \<noteq> ''DELETE'') (test_mcp_protocol E c u tk tn)"
  unfolding trigger_op_defs test_mcp_protocol_def
  by (intro sends_intros sends_only_request sends_only_draw_uuid sends_only_mcp_post; simp add: wire_request_def mcp_request_def)+

lemma script_sends_only_print_first_text [sends_intros]: "script_sends_only P (print_first_text cs)"
  by (induction cs) (auto simp only: print_first_text.simps intro!: sends_intros)

lemma step_sends_no_delete:
  "script_sends_only (\<lambda>q. req_method q \<noteq> ''DELETE'') (list_step E c)"
  "script_sends_only (\<lambda>q. req_method q \<noteq> ''DELETE'') (create_step E c name)"
  "script_sends_only (\<lambda>q. req_method q \<noteq> ''DELETE'') (test_step E c u tk)"
  "script_sends_only (\<lambda>q. req_method q \<noteq> ''DELETE'') (add_tool_step E c name)"
  "script_sends_only (\<lambda>q. req_method q \<noteq> ''DELETE'') (details_step E c name)"
  "script_sends_only (\<lambda>q. req_method q \<noteq> ''DELETE'') (update_step E c name)"
  "script_sends_only (\<lambda>q. req_method q \<noteq> ''DELETE'') (remove_step E c name)"
  unfolding list_step_def create_step_def test_step_def add_tool_step_def details_step_def update_step_def
    remove_step_def unless_error_def print_tool_count_def report_test_def print_trigger_def print_tool_def
    print_step_error_def
  by (intro sends_intros no_delete_sends)+

lemma delete_trigger_true: "fst (delete_trigger E c name w) = Inr b \<Longrightarrow> b"
  by (auto simp: delete_trigger_def bindE_def throw_def split: if_splits prod.splits sum.splits)

lemma length_pad2: "k < 100 \<Longrightarrow> length (pad2 k) = 2"
  by (cases "k < 10") (auto simp: pad2_def Let_def nat_str.simps [of k] nat_str.simps [of "k div 10"])

section \<open>Properties\<close>

text \<open>
  Claim C12: with \<open>--list-only\<close> the script only reads: every request it sends is a \<open>GET\<close>, whatever the
  environment, the server's answers and the failures on the way.
\<close>

theorem ops_list_only_reads_only:
  "list_only a \<Longrightarrow> script_sends_only (\<lambda>q. req_method q = ''GET'') (ops_script lib E oe a)"
  unfolding ops_script_def print_trigger_def by (simp; intro sends_intros mcp_triggers_gets)

theorem ops_list_only_reads_only_witness:
  "script_sends_only (\<lambda>q. req_method q = ''GET'')
     (ops_script [] (const_env (Reply (reply 200 (JObj [])))) ops_demo_env \<lparr>list_only = True, skip_delete = False, auto_delete = False\<rparr>)"
  by (rule ops_list_only_reads_only) simp

text \<open>
  Claim C13: with \<open>--skip-delete\<close> and without \<open>--auto-delete\<close>, the full demonstration sends no
  \<open>DELETE\<close> request: no trigger is deleted, whichever step fails.
\<close>

theorem ops_skip_delete_keeps:
  "\<not> list_only a \<Longrightarrow> \<not> auto_delete a \<Longrightarrow> skip_delete a \<Longrightarrow>
   script_sends_only (\<lambda>q. req_method q \<noteq> ''DELETE'') (ops_script lib E oe a)"
  unfolding ops_script_def ops_main_def cleanup_step_def
  by (simp; intro sends_intros step_sends_no_delete)

theorem ops_skip_delete_keeps_witness:
  "script_sends_only (\<lambda>q. req_method q \<noteq> ''DELETE'')
     (ops_script [] (const_env (Reply (reply 200 (JObj [])))) ops_demo_env \<lparr>list_only = False, skip_delete = True, auto_delete = False\<rparr>)"
  by (rule ops_skip_delete_keeps) simp_all

text \<open>
  Claim C21: when the MCP server's \<open>initialize\<close> call fails, the script prints that the test
  failed and the initialize error, then crashes with \<open>AttributeError\<close>: the result holds
  \<open>"tools": None\<close> and \<open>test_result.get('tools', {})\<close> returns that \<open>None\<close>.
\<close>

theorem test_step_init_failure:
  assumes "truthy u" and "truthy t"
    and "mcp_post E c (py_str u) (py_str t) init_request w = (Inr (Inl msg), w')"
  shows "test_step E c u t (w, out) =
           (Inl (Builtin (AttributeError (quoted ''NoneType'' @ '' object has no attribute '' @ quoted ''get''))),
            (w', out @ [(Stdout, nl ''   Testing MCP Protocol with disk_usage tool...''),
                        (Stdout, ''   '' @ warn_sign @ '' MCP Protocol test failed'')]
                    @ (if msg = [] then [] else [(Stdout, ''     Initialize error: '' @ msg)])))"
  using assms truthy_py_str [OF assms(1)] truthy_py_str [OF assms(2)]
  by (simp add: test_step_def test_mcp_protocol_def report_test_def print_step_error_def mcp_results_def
      err_obj_def bindE_def liftE_def bindR_def monad_simps)

theorem test_step_init_failure_witness:
  "test_step (const_env (Failure (ReqConnectionError ''refused''))) demo_client (JStr ''https://mcp.example.com/t'') (JStr ''mt'') (world0, [])
     = (Inl (Builtin (AttributeError (quoted ''NoneType'' @ '' object has no attribute '' @ quoted ''get''))),
        (snd (mcp_post (const_env (Failure (ReqConnectionError ''refused''))) demo_client ''https://mcp.example.com/t'' ''mt'' init_request world0),
         [(Stdout, nl ''   Testing MCP Protocol with disk_usage tool...''),
          (Stdout, ''   '' @ warn_sign @ '' MCP Protocol test failed''),
          (Stdout, ''     Initialize error: refused'')]))"
  using test_step_init_failure [of "JStr ''https://mcp.example.com/t''" "JStr ''mt''"
          "const_env (Failure (ReqConnectionError ''refused''))" demo_client world0 "''refused''"
          "snd (mcp_post (const_env (Failure (ReqConnectionError ''refused''))) demo_client ''https://mcp.example.com/t'' ''mt'' init_request world0)"
          "[]"]
  by (simp add: mcp_post_def bindE_def send_def const_env_def answer_env_def)

text \<open>
  Claim C23: the deletion step either raises the client's exception or prints the success line:
  the message \<open>Failed to delete trigger\<close> of lines 231 and 242 is never printed, since
  \<open>delete_trigger\<close> returns \<open>True\<close> or raises.
\<close>

theorem delete_and_report_outcome:
  "delete_and_report E c name (w, out) =
     (case delete_trigger E c name w of
        (Inl e, w') \<Rightarrow> (Inl e, (w', out))
      | (Inr _, w') \<Rightarrow> (Inr (), (w', out @ [(Stdout, ''   '' @ check_mark @ '' Successfully deleted trigger '' @ quoted name)])))"
  using delete_trigger_true [of E c name w]
  by (auto simp: delete_and_report_def bindE_def on_world_apply echo_all_apply split: prod.splits sum.splits)

text \<open>
  Claim C35: for a clock with a four-digit year and two-digit fields, and draws within the
  alphabet, the generated name is the prefix, a dash, the 15 characters of the time stamp, a
  dash and four characters of \<open>[a-z0-9]\<close>: its length is the prefix's plus 21.
\<close>

theorem generate_unique_name_shape:
  assumes "1000 \<le> st_year t" and "st_year t < 10000" and "st_month t < 100" and "st_day t < 100"
    and "st_hour t < 100" and "st_minute t < 100" and "st_second t < 100" and "\<forall>i<4. d i < 36"
  shows "length (generate_unique_name p t d) = length p + 21
         \<and> take (length p + 1) (generate_unique_name p t d) = p @ ''-''
         \<and> set (drop (length p + 17) (generate_unique_name p t d)) \<subseteq> set name_alphabet"
proof -
  have stamp: "length (strftime_stamp t) = 15"
    using assms(1-7) length_nat_str [of 3 "st_year t"] by (simp add: strftime_stamp_def length_pad2)
  have "length name_alphabet = 36" by (simp add: name_alphabet_def)
  then have "\<forall>i<4. name_alphabet ! d i \<in> set name_alphabet"
    using assms(8) by (auto intro!: nth_mem)
  with stamp show ?thesis
    by (auto simp: generate_unique_name_def upt_conv_Cons)
qed

theorem generate_unique_name_shape_witness:
  "length (generate_unique_name ''demo-mcp'' \<lparr>st_year = 2025, st_month = 1, st_day = 2, st_hour = 3, st_minute = 4, st_second = 5\<rparr> (\<lambda>i. i)) = 29"
  using generate_unique_name_shape [of "\<lparr>st_year = 2025, st_month = 1, st_day = 2, st_hour = 3, st_minute = 4, st_second = 5\<rparr>" "\<lambda>i. i" "''demo-mcp''"]
  by simp

end
