(* ===== verification/McpProtocolTest.thy ===== *)
theory McpProtocolTest
  imports McpOperations
begin

text \<open>
  The example \<open>src/examples/test_mcp_protocol.py\<close>: it creates an MCP trigger with the client,
  then speaks the MCP protocol to the trigger itself with bare \<open>requests.post\<close> calls (no
  timeout), and deletes the trigger. Each \<open>try\<close> block of its \<open>test_mcp_protocol\<close> is
  \<open>try_post\<close>: the post, \<open>raise_for_status()\<close> and \<open>response.json()\<close>, then the block's
  processing, with \<open>except Exception as e\<close> receiving the message \<open>str(e)\<close> and the
  exception's attribute \<open>response\<close> (\<open>caught\<close>). The script's state, printing and inputs
  are those of \<open>McpOperations\<close>.
\<close>

text \<open>
  \<open>hasattr(e, 'response')\<close> and \<open>e.response\<close>: \<open>None\<close> for an exception without the attribute
  (Python's own), \<open>Some None\<close> for a \<open>requests\<close> exception raised without a response (a
  transport failure, \<open>JSONDecodeError\<close>), \<open>Some (Some text)\<close> for the \<open>HTTPError\<close> of
  \<open>raise_for_status()\<close>, whose response has the body \<open>text\<close>.
\<close>

type_synonym caught = "string \<times> string option option"

section \<open>Posts\<close>

text \<open>\<open>requests.post(mcp_url, json=body, headers=headers)\<close>, lines 29--32 for the headers.\<close>

definition plain_post :: "string \<Rightarrow> string \<Rightarrow> json \<Rightarrow> http_request" where
  "plain_post url token body =
     \<lparr>req_method = ''POST'', req_url = url, req_headers = mcp_headers token, req_json = Some body,
      req_data = None, req_files = None, req_timeout = None\<rparr>"

definition example_post :: "env \<Rightarrow> string \<Rightarrow> string \<Rightarrow> json \<Rightarrow> (caught + json) op" where
  "example_post E url token body =
     bindE (send E (plain_post url token body)) (\<lambda>out.
       case out of
         Failure x \<Rightarrow> ret (Inl (req_exc_msg x, Some None))
       | Reply r \<Rightarrow>
           if \<not> resp_ok r then ret (Inl (http_error_msg url r, Some (Some (resp_text r))))
           else (case resp_json r of
                   Inr j \<Rightarrow> ret (Inr j)
                 | Inl (Builtin (Requests x)) \<Rightarrow> ret (Inl (req_exc_msg x, Some None))
                 | Inl e \<Rightarrow> throw e))"

text \<open>\<open>try: post ...; k(result) except Exception as e: h(e)\<close>.\<close>

definition try_post ::
  "env \<Rightarrow> string \<Rightarrow> string \<Rightarrow> json \<Rightarrow> (json \<Rightarrow> 'a script) \<Rightarrow> (caught \<Rightarrow> 'a script) \<Rightarrow> 'a script" where
  "try_post E url token body k h =
     bindE (on_world (example_post E url token body)) (\<lambda>r.
       case r of
         Inl ex \<Rightarrow> h ex
       | Inr j \<Rightarrow> catchE (k j) (\<lambda>e. isinstance e CException) (\<lambda>e. h (err_str e, None)))"

text \<open>The initialize request of lines 40--52 (the other two are the client's).\<close>

definition ex_init_request :: json where
  "ex_init_request =
     JObj [(''jsonrpc'', JStr ''2.0''), (''method'', JStr ''initialize''),
           (''params'', JObj [(''protocolVersion'', JStr ''0.1.0''), (''capabilities'', JObj []),
                             (''clientInfo'', JObj [(''name'', JStr ''OpsBeacon Python SDK Test''), (''version'', JStr ''1.0.0'')])]),
           (''id'', JInt 1)]"

section \<open>test_mcp_protocol(mcp_url, api_token), lines 27--142\<close>

definition print_listed_tool :: "json \<Rightarrow> unit script" where
  "print_listed_tool tool =
     bindE (liftE (py_getitem tool ''name'')) (\<lambda>n.
     bindE (liftE (py_get tool ''description'' (JStr ''No description''))) (\<lambda>d.
     echo (''     - '' @ py_str n @ '': '' @ py_str d)))"

text \<open>The body of the second \<open>try\<close>, lines 76--85: the value of \<open>tools\<close> after it.\<close>

definition list_body :: "json \<Rightarrow> json script" where
  "list_body result =
     bindE (echo (''   '' @ check_mark @ '' Tools list response received'')) (\<lambda>_.
     bindE (liftE (py_contains result ''result'')) (\<lambda>has_result.
     bindE (if has_result then liftE (bindR (py_getitem result ''result'') (\<lambda>r. py_contains r ''tools'')) else ret False) (\<lambda>has_tools.
     if has_tools then
       bindE (liftE (bindR (py_getitem result ''result'') (\<lambda>r. py_getitem r ''tools''))) (\<lambda>tools.
       bindE (liftE (py_len tools)) (\<lambda>n.
       bindE (echo (''   Found '' @ nat_str n @ '' tools:'')) (\<lambda>_.
       bindE (liftE (py_iter tools)) (\<lambda>ts.
       bindE (for_each print_listed_tool ts) (\<lambda>_. ret tools)))))
     else bindE (echo ''   No tools found in response'') (\<lambda>_. ret (JList [])))))"

text \<open>Lines 93--97: the first tool named \<open>disk_usage\<close>.\<close>

fun find_disk_usage :: "json list \<Rightarrow> error + json option" where
  "find_disk_usage [] = Inr None"
| "find_disk_usage (tool # tools) =
     bindR (py_getitem tool ''name'') (\<lambda>n. if n = JStr ''disk_usage'' then Inr (Some tool) else find_disk_usage tools)"

text \<open>Lines 125--127: every text content is printed, cut at 500 characters.\<close>

definition print_text_content :: "json \<Rightarrow> unit script" where
  "print_text_content content =
     bindE (liftE (py_get content ''type'' JNull)) (\<lambda>ty.
     if ty = JStr ''text'' then
       bindE (liftE (bindR (py_getitem content ''text'') (py_head 500))) (\<lambda>h.
       echo (nl (''   Output:'' @ CHR 0x0A # py_str h @ ''...'')))
     else ret ())"

text \<open>The body of the third \<open>try\<close>, lines 120--133.\<close>

definition exec_body :: "json \<Rightarrow> unit script" where
  "exec_body result =
     bindE (liftE (py_contains result ''result'')) (\<lambda>has_result.
     if has_result then
       bindE (echo (''   '' @ check_mark @ '' Tool executed successfully!'')) (\<lambda>_.
       bindE (liftE (py_getitem result ''result'')) (\<lambda>r.
       bindE (liftE (py_contains r ''content'')) (\<lambda>has_content.
       if has_content then bindE (liftE (bindR (py_getitem r ''content'') py_iter)) (for_each print_text_content)
       else echo (''   Result: '' @ json_dumps 0 r))))
     else
       bindE (liftE (py_contains result ''error'')) (\<lambda>has_error.
       if has_error then bindE (liftE (py_getitem result ''error'')) (\<lambda>e. echo (''   '' @ cross_mark @ '' Execution error: '' @ py_str e))
       else echo (''   Response: '' @ json_dumps 0 result)))"

text \<open>The \<open>except\<close> clause of lines 134--138.\<close>

definition exec_failed :: "caught \<Rightarrow> bool script" where
  "exec_failed ex =
     (case ex of (msg, attr) \<Rightarrow>
        bindE (echo (''   '' @ cross_mark @ '' Tool execution failed: '' @ msg)) (\<lambda>_.
        case attr of
          None \<Rightarrow> ret False
        | Some None \<Rightarrow> throw (Builtin (AttributeError (quoted ''NoneType'' @ '' object has no attribute '' @ quoted ''text'')))
        | Some (Some text) \<Rightarrow> bindE (echo (''   Response: '' @ text)) (\<lambda>_. ret False)))"

text \<open>Lines 91--142, after the tools are known.\<close>

definition exec_part :: "env \<Rightarrow> string \<Rightarrow> string \<Rightarrow> json \<Rightarrow> bool script" where
  "exec_part E url token tools =
     (if truthy tools then
        bindE (liftE (bindR (py_iter tools) find_disk_usage)) (\<lambda>disk_usage_tool.
        case disk_usage_tool of
          None \<Rightarrow>
            bindE (echo (nl (''3. '' @ cross_mark @ '' '' @ quoted ''disk_usage'' @ '' tool not found!''))) (\<lambda>_.
            bindE (liftE (bindR (py_iter tools) (mapR (\<lambda>t. py_getitem t ''name'')))) (\<lambda>names.
            bindE (echo (''   Available tools: '' @ py_repr (JList names))) (\<lambda>_. ret False)))
        | Some _ \<Rightarrow>
            bindE (echo (nl (''3. Executing tool '' @ quoted ''disk_usage'' @ ''...''))) (\<lambda>_.
            try_post E url token (exec_request (JStr ''disk_usage''))
              (\<lambda>result. bindE (exec_body result) (\<lambda>_. ret True)) exec_failed))
      else bindE (echo (nl ''3. No tools available to execute'')) (\<lambda>_. ret True))"

definition ex_test :: "env \<Rightarrow> string \<Rightarrow> string \<Rightarrow> bool script" where
  "ex_test E url token =
     bindE (echo_all [nl rule50, ''Testing MCP Protocol'', rule50, nl ''1. Sending initialize request...'']) (\<lambda>_.
     bindE (try_post E url token ex_init_request
              (\<lambda>result. bindE (echo (''   '' @ check_mark @ '' Initialize response: '' @ json_dumps 0 result)) (\<lambda>_. ret True))
              (\<lambda>(msg, _). bindE (echo (''   '' @ cross_mark @ '' Initialize failed: '' @ msg)) (\<lambda>_. ret False))) (\<lambda>ok.
     if \<not> ok then ret False
     else
       bindE (echo (nl ''2. Sending tools/list request...'')) (\<lambda>_.
       bindE (try_post E url token list_request (\<lambda>result. bindE (list_body result) (\<lambda>tools. ret (Some tools)))
                (\<lambda>(msg, _). bindE (echo (''   '' @ cross_mark @ '' List tools failed: '' @ msg)) (\<lambda>_. ret None))) (\<lambda>listed.
       case listed of
         None \<Rightarrow> ret False
       | Some tools \<Rightarrow> exec_part E url token tools))))"

section \<open>main(), lines 144--215\<close>

text \<open>U+2705 and U+274C in UTF-8.\<close>

definition done_mark :: string where
  "done_mark = [CHR 0xE2, CHR 0x9C, CHR 0x85]"

definition fail_mark :: string where
  "fail_mark = [CHR 0xE2, CHR 0x9D, CHR 0x8C]"

text \<open>Lines 200--215: the protocol test, the deletion and the verdict.\<close>

definition ex_finish :: "env \<Rightarrow> client \<Rightarrow> string \<Rightarrow> json \<Rightarrow> json \<Rightarrow> nat script" where
  "ex_finish E c trigger_name mcp_url mcp_token =
     bindE (ex_test E (py_str mcp_url) (py_str mcp_token)) (\<lambda>success.
     bindE (echo_all [nl rule50, ''Cleaning up...'']) (\<lambda>_.
     bindE (on_world (delete_trigger E c trigger_name)) (\<lambda>deleted.
     bindE (echo (if deleted then check_mark @ '' Deleted trigger '' @ quoted trigger_name
                  else cross_mark @ '' Failed to delete trigger '' @ quoted trigger_name)) (\<lambda>_.
     if success then bindE (echo (nl (done_mark @ '' MCP Protocol test completed successfully!''))) (\<lambda>_. ret 0)
     else bindE (echo (nl (fail_mark @ '' MCP Protocol test failed!''))) (\<lambda>_. ret 1)))))"

definition ex_main :: "(string \<times> string) list \<Rightarrow> env \<Rightarrow> ops_env \<Rightarrow> nat script" where
  "ex_main lib E oe =
     env_client lib ''api.console-dev.opsbeacon.com'' oe (\<lambda>c.
     bindE (echo_all [''MCP Protocol Test'', rule50]) (\<lambda>_.
     let trigger_name = generate_unique_name ''mcp-protocol-test'' (now oe) (draw oe) in
     bindE (echo (nl (''1. Creating MCP trigger: '' @ trigger_name))) (\<lambda>_.
     bindE (on_world (create_mcp_trigger E c trigger_name ''Test MCP trigger for protocol validation''
                        (Some [disk_usage_instance]) None)) (\<lambda>result.
     bindE (liftE (py_contains result ''error'')) (\<lambda>has_error.
     if has_error then
       bindE (liftE (py_getitem result ''error'')) (\<lambda>e.
       bindE (echo (''   '' @ cross_mark @ '' Failed to create trigger: '' @ py_str e)) (\<lambda>_. ret 1))
     else
       bindE (liftE (py_get result ''url'' JNull)) (\<lambda>u.
       bindE (if \<not> truthy u then ret True else liftE (map_sum id (\<lambda>t. \<not> truthy t) (py_get result ''apiToken'' JNull))) (\<lambda>missing.
       if missing then bindE (echo (''   '' @ cross_mark @ '' Missing URL or API token in response: '' @ py_str result)) (\<lambda>_. ret 1)
       else
         bindE (liftE (py_getitem result ''url'')) (\<lambda>mcp_url.
         bindE (liftE (py_getitem result ''apiToken'')) (\<lambda>mcp_token.
         bindE (echo_all [''   '' @ check_mark @ '' Trigger created successfully!'', ''   URL: '' @ py_str mcp_url]) (\<lambda>_.
         bindE (liftE (py_head 8 mcp_token)) (\<lambda>t8.
         bindE (echo (''   Token: '' @ py_str t8 @ ''...'')) (\<lambda>_.
         ex_finish E c trigger_name mcp_url mcp_token))))))))))))"

section \<open>Tools with a name\<close>

text \<open>A listed tool that \<open>tool['name']\<close> can read: a dict with the key.\<close>

definition named_tool :: "json \<Rightarrow> bool" where
  "named_tool t = (case t of JObj kvs \<Rightarrow> map_of kvs ''name'' \<noteq> None | _ \<Rightarrow> False)"

section \<open>Fixtures\<close>

text \<open>An MCP server that answers \<open>initialize\<close> and \<open>tools/list\<close> and drops \<open>tools/call\<close>.\<close>

definition pt_env :: env where
  "pt_env = answer_env (\<lambda>_ q.
     if req_json q = Some ex_init_request then Reply (reply 200 (JObj [(''result'', JObj [])]))
     else if req_json q = Some list_request then
       Reply (reply 200 (JObj [(''result'', JObj [(''tools'', JList [JObj [(''name'', JStr ''disk_usage'')]])])]))
     else if req_method q = ''POST'' then Failure (ReqConnectionError ''refused'')
     else Reply (reply 200 (JObj [])))"

section \<open>Lemmas\<close>

lemma try_post_apply:
  "try_post E url token body k h (w, out) =
     (case example_post E url token body w of
        (Inl ex, w') \<Rightarrow> (Inl ex, (w', out))
      | (Inr (Inl ex), w') \<Rightarrow> h ex (w', out)
      | (Inr (Inr j), w') \<Rightarrow> catchE (k j) (\<lambda>e. isinstance e CException) (\<lambda>e. h (err_str e, None)) (w', out))"
  by (simp add: try_post_def bindE_def on_world_apply split: prod.splits sum.splits)

lemma example_post_failure:
  "net E (sent w) (plain_post url token body) = Failure x \<Longrightarrow>
   example_post E url token body w = (Inr (Inl (req_exc_msg x, Some None)), w\<lparr>sent := sent w @ [plain_post url token body]\<rparr>)"
  by (simp add: example_post_def send_def bindE_def)

lemma print_listed_tools_ok:
  "list_all named_tool ts \<Longrightarrow>
   for_each print_listed_tool ts (w, out) =
     (Inr (), (w, out @ map (\<lambda>tool. (Stdout, ''     - '' @ py_str (projr (py_getitem tool ''name'')) @ '': ''
                                     @ py_str (projr (py_get tool ''description'' (JStr ''No description''))))) ts))"
  by (induction ts arbitrary: out)
     (auto simp: named_tool_def print_listed_tool_def bindE_def liftE_def echo_all_apply split: json.splits option.splits)

lemma find_disk_usage_some:
  "list_all named_tool ts \<Longrightarrow> \<exists>t\<in>set ts. py_getitem t ''name'' = Inr (JStr ''disk_usage'') \<Longrightarrow>
   \<exists>t. find_disk_usage ts = Inr (Some t)"
  by (induction ts) (auto simp: named_tool_def bindR_def split: json.splits option.splits)

section \<open>Properties\<close>

text \<open>
  Claim C22: when the MCP server answers \<open>initialize\<close> and lists a \<open>disk_usage\<close> tool, but
  the \<open>tools/call\<close> post fails in transport, the example's \<open>except\<close> clause itself raises
  \<open>AttributeError\<close> (\<open>e.response\<close> is \<open>None\<close>), so \<open>main\<close> never reaches its clean-up:
  the three posts are the last requests and the trigger is not deleted.
\<close>

theorem ex_exec_failure_leaks_trigger:
  assumes init: "example_post E (py_str u) (py_str t) ex_init_request w = (Inr (Inr j_init), w_init)"
    and list: "example_post E (py_str u) (py_str t) list_request w_init = (Inr (Inr (JObj [(''result'', JObj [(''tools'', JList ts)])])), w_list)"
    and named: "list_all named_tool ts"
    and disk: "\<exists>tool\<in>set ts. py_getitem tool ''name'' = Inr (JStr ''disk_usage'')"
    and fail: "net E (sent w_list) (plain_post (py_str u) (py_str t) (exec_request (JStr ''disk_usage''))) = Failure x"
  shows "fst (ex_finish E c name u t (w, out)) =
           Inl (Builtin (AttributeError (quoted ''NoneType'' @ '' object has no attribute '' @ quoted ''text'')))
         \<and> sent (fst (snd (ex_finish E c name u t (w, out)))) =
           sent w_list @ [plain_post (py_str u) (py_str t) (exec_request (JStr ''disk_usage''))]"
proof -
  obtain tool where found: "find_disk_usage ts = Inr (Some tool)"
    using find_disk_usage_some [OF named disk] by blast
  have ne: "ts \<noteq> []" using disk by auto
  show ?thesis
    using init list found ne print_listed_tools_ok [OF named] example_post_failure [OF fail]
    by (simp add: ex_finish_def ex_test_def try_post_apply exec_part_def list_body_def exec_failed_def
        bindE_def catchE_def liftE_def bindR_def echo_all_apply isinstance_def)
qed

theorem ex_exec_failure_leaks_trigger_witness:
  "fst (ex_finish pt_env demo_client ''t'' (JStr ''https://mcp.example.com/t'') (JStr ''tk'') (world0, [])) =
     Inl (Builtin (AttributeError (quoted ''NoneType'' @ '' object has no attribute '' @ quoted ''text'')))
   \<and> sent (fst (snd (ex_finish pt_env demo_client ''t'' (JStr ''https://mcp.example.com/t'') (JStr ''tk'') (world0, [])))) =
     [plain_post ''https://mcp.example.com/t'' ''tk'' ex_init_request, plain_post ''https://mcp.example.com/t'' ''tk'' list_request,
      plain_post ''https://mcp.example.com/t'' ''tk'' (exec_request (JStr ''disk_usage''))]"
  using ex_exec_failure_leaks_trigger [where E = pt_env and u = "JStr ''https://mcp.example.com/t''" and t = "JStr ''tk''"
          and w = world0 and j_init = "JObj [(''result'', JObj [])]"
          and w_init = "world0\<lparr>sent := [plain_post ''https://mcp.example.com/t'' ''tk'' ex_init_request]\<rparr>"
          and ts = "[JObj [(''name'', JStr ''disk_usage'')]]"
          and w_list = "world0\<lparr>sent := [plain_post ''https://mcp.example.com/t'' ''tk'' ex_init_request,
                                      plain_post ''https://mcp.example.com/t'' ''tk'' list_request]\<rparr>"
          and x = "ReqConnectionError ''refused''" and c = demo_client and name = "''t''" and out = "[]"]
  by (simp add: example_post_def send_def bindE_def pt_env_def answer_env_def reply_def resp_ok_def resp_json_def
      named_tool_def world0_def plain_post_def ex_init_request_def list_request_def exec_request_def)

end
