(* ===== verification/Package.thy ===== *)
theory Package
  imports Transport
begin

text \<open>
  The package \<open>src/opsbeacon/__init__.py\<close>: the names its imports bind (lines 15--28), the
  version (line 30) and \<open>__all__\<close> (lines 32--46), which \<open>from opsbeacon import *\<close> reads.
  A bound name is the client class, an exception class of \<open>exceptions.py\<close> (by its
  \<open>exc_class\<close>), or the version string. The lemma \<open>package_exports_sdk\<close> checks that \<open>__all__\<close>
  names exactly the SDK's exception classes besides the client and the version, each bound,
  and that the package version is the one the client sends in \<open>User-Agent\<close>.
\<close>

datatype export = ExClient | ExClass exc_class | ExVersion string

text \<open>The module namespace after lines 15--30.\<close>

definition package_ns :: "string \<Rightarrow> export option" where
  "package_ns =
     map_of [(''OpsBeaconClient'', ExClient),
             (''APIError'', ExClass CAPIError), (''AuthenticationError'', ExClass CAuthenticationError),
             (''CommandExecutionError'', ExClass CCommandExecutionError), (''ConnectionError'', ExClass CConnectionError),
             (''FileOperationError'', ExClass CFileOperationError), (''MCPError'', ExClass CMCPError),
             (''OpsBeaconError'', ExClass COpsBeaconError), (''RateLimitError'', ExClass CRateLimitError),
             (''ResourceNotFoundError'', ExClass CResourceNotFoundError), (''TimeoutError'', ExClass CTimeoutError),
             (''ValidationError'', ExClass CValidationError),
             (''__version__'', ExVersion ''1.3.0'')]"

definition package_all :: "string list" where
  "package_all =
     [''APIError'', ''AuthenticationError'', ''CommandExecutionError'', ''ConnectionError'', ''FileOperationError'',
      ''MCPError'', ''OpsBeaconClient'', ''OpsBeaconError'', ''RateLimitError'', ''ResourceNotFoundError'',
      ''TimeoutError'', ''ValidationError'', ''__version__'']"

text \<open>\<open>from opsbeacon import *\<close>: the bindings it makes, or the \<open>AttributeError\<close> of a name of
  \<open>__all__\<close> the module does not bind.\<close>

definition import_star :: "(string \<times> export) list option" where
  "import_star = those (map (\<lambda>n. map_option (Pair n) (package_ns n)) package_all)"

section \<open>Lemmas\<close>

lemma sdk_class_cases:
  "COpsBeaconError \<in> set (class_ancestors c) \<longleftrightarrow>
   c \<in> {COpsBeaconError, CAuthenticationError, CAPIError, CConnectionError, CTimeoutError, CValidationError,
         CResourceNotFoundError, CRateLimitError, CCommandExecutionError, CFileOperationError, CMCPError}"
  by (cases c) simp_all

section \<open>Properties\<close>

text \<open>
  \<open>from opsbeacon import *\<close> succeeds and binds the client, the version, which is the
  client's \<open>SDK_VERSION\<close>, and the exception classes: a class is exported exactly when it
  derives from \<open>OpsBeaconError\<close>.
\<close>

theorem package_exports_sdk:
  "(\<exists>bs. import_star = Some bs
        \<and> map_of bs ''OpsBeaconClient'' = Some ExClient
        \<and> map_of bs ''__version__'' = Some (ExVersion SDK_VERSION)
        \<and> (\<forall>c. ExClass c \<in> snd ` set bs \<longleftrightarrow> COpsBeaconError \<in> set (class_ancestors c)))"
proof -
  have "\<forall>c. ExClass c \<in> snd ` set (map (\<lambda>n. (n, the (package_ns n))) package_all) \<longleftrightarrow> COpsBeaconError \<in> set (class_ancestors c)"
    unfolding sdk_class_cases by (auto simp: package_all_def package_ns_def)
  then show ?thesis
    by (intro exI [of _ "map (\<lambda>n. (n, the (package_ns n))) package_all"])
       (simp add: import_star_def package_all_def package_ns_def SDK_VERSION_def)
qed

theorem package_exports_sdk_witness:
  "\<exists>bs. import_star = Some bs \<and> ExClass CMCPError \<in> snd ` set bs"
  using package_exports_sdk by (auto simp: class_ancestors.simps)

end
