(* ===== verification/Spec2Isabelle.thy ===== *)
theory Spec2Isabelle
  imports McpTester Triggers Session LambdaHandler CliExecute McpOperations McpProtocolTest Package
begin

text \<open>
  A shallow embedding of the OpsBeacon Python SDK: the client \<open>src/opsbeacon/client.py\<close>,
  its exceptions \<open>src/opsbeacon/exceptions.py\<close>, the Lambda example
  \<open>src/examples/lambda_handler.py\<close> and the command-line examples
  \<open>src/examples/opsbeacon_execute.py\<close> and \<open>src/examples/mcp_operations.py\<close>, and the
  example \<open>src/examples/test_mcp_protocol.py\<close>, which speaks the MCP protocol itself.

  \<^bold>\<open>The program.\<close> \<open>OpsBeaconClient\<close> turns each method call into one or more HTTPS
  requests through a \<open>requests.Session\<close> (\<open>_request\<close>), checks the status
  (\<open>_handle_response_error\<close>), logs requests and responses in debug mode with the token
  masked, and reads the JSON reply. Three paths bypass the session: the file download
  and the three JSON-RPC posts of the MCP tester use bare \<open>requests.get/post\<close>.

  \<^bold>\<open>Theories and what they model.\<close>
  \<^item> \<open>Prelude\<close>: the JSON values, the exception-state monad (\<open>bindE\<close>, \<open>catchE\<close> for
    \<open>try/except\<close>, \<open>withE\<close> for the \<open>with\<close> statement), the combinator \<open>preserves\<close> and the
    named rule sets \<open>monad_simps\<close>, \<open>preserves_intros\<close>, \<open>sends_intros\<close>.
  \<^item> \<open>Exceptions\<close>: every class of \<open>exceptions.py\<close> as a constructor of \<open>error\<close>, with
    the class hierarchy (\<open>class_ancestors\<close>, \<open>isinstance\<close>) that decides which
    \<open>except\<close> clause catches what, the builtin and \<open>requests\<close> exceptions included.
  \<^item> \<open>PyJson\<close>: Python's \<open>.get\<close>, \<open>[k]\<close>, \<open>in\<close>, iteration, truthiness and \<open>str\<close> on
    JSON values, raising what CPython raises on the wrong type.
  \<^item> \<open>Transport\<close>: \<open>__init__\<close>, \<open>base_url\<close>, the logging, \<open>_handle_response_error\<close>
    (with Python's \<open>int()\<close> on \<open>Retry-After\<close>) and \<open>_request\<close>. The state is the
    record \<open>world\<close> (requests sent, log lines, local files, \<open>uuid4\<close> draws, pooled
    connection); the server is the environment's function \<open>net\<close> of the request history.
  \<^item> \<open>Shlex\<close>: \<open>shlex.split\<close>, which \<open>run\<close> applies to string arguments.
  \<^item> \<open>CommandExec\<close>: \<open>run\<close>. \<open>Resources\<close>: commands, connections, users, groups,
    policies. \<open>Files\<close>: upload, download URL, download. \<open>Triggers\<close>: trigger listing,
    lookup with its fallback, MCP trigger creation, merge-update, deletion, tool add and
    remove. \<open>McpTester\<close>: \<open>test_mcp_protocol\<close>. \<open>Session\<close>: \<open>close\<close>,
    \<open>__enter__\<close>, \<open>__exit__\<close> and the \<open>with\<close> block. \<open>LambdaHandler\<close>: the example
    handler, over an interface \<open>run_fn\<close> with the contract \<open>runs_as_client\<close>.
  \<^item> \<open>CliExecute\<close>: \<open>main()\<close> of \<open>opsbeacon_execute.py\<close> after \<open>parse_args\<close> (the
    record \<open>cli_args\<close>), its prints as a \<open>console\<close> of stdout/stderr lines, Python's
    binding of keyword arguments (\<open>call_run\<close>, which raises \<open>TypeError\<close> on an unknown
    keyword) and \<open>json.dumps(indent=2)\<close> (\<open>json_dumps\<close>); the result is the exit status.
  \<^item> \<open>McpOperations\<close>: the script \<open>mcp_operations.py\<close>, its eight steps as one definition
    each (\<open>list_step\<close> to \<open>cleanup_step\<close>), \<open>main\<close> as \<open>ops_main\<close> and the
    \<open>__main__\<close> block as \<open>ops_script\<close>, over the state \<open>world\<close> with the printed lines; its
    inputs (environment variables, clock, random draws, the answer to the prompt) are the
    record \<open>ops_env\<close>.
  \<^item> \<open>McpProtocolTest\<close>: \<open>test_mcp_protocol.py\<close> over the same state: its own JSON-RPC posts
    (\<open>example_post\<close>, without timeout), each \<open>try/except Exception\<close> block as \<open>try_post\<close>
    with the caught exception's message and \<open>response\<close> attribute, the protocol test
    \<open>ex_test\<close> and \<open>main\<close> as \<open>ex_main\<close> with its clean-up \<open>ex_finish\<close>.
  \<^item> \<open>Package\<close>: \<open>src/opsbeacon/__init__.py\<close>, the names it binds, \<open>__all__\<close> and
    \<open>from opsbeacon import *\<close> (\<open>import_star\<close>).
  \<^item> This theory: the public methods as the datatype \<open>sdk_op\<close> with the dispatch
    \<open>exec_op\<close>, a caller's script \<open>run_ops\<close> (the first exception ends it) and a caller
    that catches exceptions as the step relation \<open>sdk_step\<close> with reachability
    \<open>sdk_reach\<close>.

  Each method is one definition whose body follows the source line by line: every
  validation and early return is a branch, every raise a value \<open>Inl e\<close>, every
  \<open>except\<close> a \<open>catchE\<close> with the class test of its clause, and the Python errors a wrong
  JSON shape provokes are values too, so no path of the code is missing from the model.

  \<^bold>\<open>What is proved.\<close> Per component: the validation paths send nothing; the error
  mapping of each status and of each transport failure, and which of them \<open>run\<close>,
  \<open>file_upload\<close> and the trigger methods wrap; the fallbacks of \<open>get_trigger\<close> and
  \<open>get_policy\<close>; the merge semantics of \<open>update_mcp_trigger\<close>; the de-duplication at
  creation; the requests each tool operation sends; the three steps of the MCP tester
  and its short-circuits; that \<open>mcp_operations.py --list-only\<close> only reads and that with
  \<open>--skip-delete\<close> it deletes nothing, its crash when an MCP test fails early, the shape of
  its generated names; that \<open>test_mcp_protocol.py\<close> crashes in its own \<open>except\<close> clause
  and leaves its trigger behind when the tool call fails in transport; that the command-line script always fails with
  \<open>TypeError\<close> (it passes \<open>debug=\<close> to \<open>run\<close>); that a \<open>with\<close> block releases the pool and lets the body's
  exceptions through (\<open>__exit__\<close> returns \<open>None\<close>); an equivalence (string arguments split
  by \<open>shlex\<close> and the list of words). Lemmas on the library models support these: the
  session's header merge refines an update of a map on lower-cased names, and \<open>int()\<close>
  reads back padded \<open>str(n)\<close>. Across components: an invariant of every reachable world (the debug
  log never shows a token, by rule induction on \<open>sdk_reach\<close>) and a safety property of
  every script (a request carrying the workspace token goes to the workspace URL).

  \<^bold>\<open>Bounds and fuel.\<close> None is needed: every loop of the code runs over a finite list
  (tools, triggers, headers, characters of the argument string), so every function
  is total by structural recursion; integers are Python's, unbounded, hence \<open>int\<close>.

  \<^bold>\<open>Not modelled.\<close> The \<open>requests\<close> library below the session (TLS, redirects,
  retries, the multipart encoding) is the environment \<open>net\<close>; the reason phrase of an
  HTTP status is not part of a response. \<open>logging.basicConfig\<close>'s process-wide effect.
  What \<open>run\<close> does with non-string JSON arguments (the Lambda example may pass them; its
  model is stated over the interface). The logging configuration of the module
  (\<open>logging.getLogger\<close>, lines 1--37 of \<open>client.py\<close>). \<open>argparse\<close> itself (the model starts from the parsed arguments) and
  \<open>load_dotenv\<close> (the model starts from the variables it sets), \<open>time.sleep\<close>, and
  end of input at \<open>input()\<close>. The tests under \<open>src/tests\<close> and the scripts
  \<open>src/test_*.py\<close> and \<open>src/examples/test_mcp_simple.py\<close> are test code.
\<close>

section \<open>The SDK's public operations\<close>

text \<open>
  One constructor per public method of \<open>OpsBeaconClient\<close> with its arguments, and the
  method it calls. Methods returning \<open>bool\<close> or \<open>str\<close> have their result as JSON.
\<close>

datatype sdk_op =
    OpCommands | OpConnections | OpUsers | OpAddUser json | OpDeleteUser string
  | OpGroups | OpAddGroup json | OpDeleteGroup string
  | OpFileUpload "string option" "string option" "string option" | OpGetFileDownloadUrl string
  | OpFileDownload string "string option"
  | OpRun "string option" "string option" "string option" "run_args option"
  | OpTriggers "string option" | OpMcpTriggers | OpGetTrigger string
  | OpCreateMcpTrigger string string "json list option" "string list option"
  | OpUpdateMcpTrigger string "string option" "json list option" | OpDeleteTrigger string
  | OpGetMcpTriggerUrl string | OpAddTool string json | OpRemoveTool string string
  | OpTestMcp string string "string option"
  | OpPolicies | OpCreatePolicy string string "string list option" "string list option"
  | OpGetPolicy string | OpDeletePolicy string

definition as_json_bool :: "bool op \<Rightarrow> json op" where
  "as_json_bool m = bindE m (\<lambda>b. ret (JBool b))"

definition as_json_str :: "string op \<Rightarrow> json op" where
  "as_json_str m = bindE m (\<lambda>s. ret (JStr s))"

fun exec_op :: "env \<Rightarrow> client \<Rightarrow> sdk_op \<Rightarrow> json op" where
  "exec_op E c OpCommands = commands E c"
| "exec_op E c OpConnections = connections E c"
| "exec_op E c OpUsers = users E c"
| "exec_op E c (OpAddUser u) = add_user E c u"
| "exec_op E c (OpDeleteUser i) = as_json_bool (delete_user E c i)"
| "exec_op E c OpGroups = groups E c"
| "exec_op E c (OpAddGroup g) = add_group E c g"
| "exec_op E c (OpDeleteGroup n) = as_json_bool (delete_group E c n)"
| "exec_op E c (OpFileUpload fc fn inp) = as_json_str (file_upload E c fc fn inp)"
| "exec_op E c (OpGetFileDownloadUrl i) = get_file_download_url E c i"
| "exec_op E c (OpFileDownload n d) = as_json_bool (file_download E c n d)"
| "exec_op E c (OpRun ct cn cm a) = run E c ct cn cm a"
| "exec_op E c (OpTriggers k) = triggers E c k"
| "exec_op E c OpMcpTriggers = mcp_triggers E c"
| "exec_op E c (OpGetTrigger n) = get_trigger E c n"
| "exec_op E c (OpCreateMcpTrigger n d ti ps) = create_mcp_trigger E c n d ti ps"
| "exec_op E c (OpUpdateMcpTrigger n d ti) = update_mcp_trigger E c n d ti"
| "exec_op E c (OpDeleteTrigger n) = as_json_bool (delete_trigger E c n)"
| "exec_op E c (OpGetMcpTriggerUrl n) = get_mcp_trigger_url E c n"
| "exec_op E c (OpAddTool n cfg) = add_tool_to_mcp_trigger E c n cfg"
| "exec_op E c (OpRemoveTool n t) = remove_tool_from_mcp_trigger E c n t"
| "exec_op E c (OpTestMcp u t n) = test_mcp_protocol E c u t n"
| "exec_op E c OpPolicies = policies E c"
| "exec_op E c (OpCreatePolicy n d cs ns) = create_policy E c n d cs ns"
| "exec_op E c (OpGetPolicy n) = get_policy E c n"
| "exec_op E c (OpDeletePolicy n) = as_json_bool (delete_policy E c n)"

text \<open>
  A caller's script: the calls in order, the first exception ending the script.
\<close>

fun run_ops :: "env \<Rightarrow> client \<Rightarrow> sdk_op list \<Rightarrow> json list op" where
  "run_ops E c [] = ret []"
| "run_ops E c (op # ops) = bindE (exec_op E c op) (\<lambda>r. bindE (run_ops E c ops) (\<lambda>rs. ret (r # rs)))"

text \<open>
  A caller that catches the SDK's exceptions and goes on: any call, from any world, is a
  step, whatever its result.
\<close>

inductive sdk_step :: "env \<Rightarrow> client \<Rightarrow> world \<Rightarrow> world \<Rightarrow> bool" for E c where
  call: "exec_op E c op w = (r, w') \<Longrightarrow> sdk_step E c w w'"

inductive sdk_reach :: "env \<Rightarrow> client \<Rightarrow> world \<Rightarrow> world \<Rightarrow> bool" for E c where
  start: "sdk_reach E c w0 w0"
| step: "sdk_reach E c w0 w \<Longrightarrow> sdk_step E c w w' \<Longrightarrow> sdk_reach E c w0 w'"

text \<open>
  The workspace token is \<open>Bearer api_token\<close>: a request carrying it goes below the
  client's base URL. A test of an MCP trigger is safe when its token is not the workspace
  token.
\<close>

definition token_safe :: "client \<Rightarrow> http_request \<Rightarrow> bool" where
  "token_safe c q \<longleftrightarrow>
     (ci_get (req_headers q) ''Authorization'' = Some (''Bearer '' @ api_token c) \<longrightarrow> take (length (base_url c)) (req_url q) = base_url c)"

definition mcp_token_ok :: "client \<Rightarrow> sdk_op \<Rightarrow> bool" where
  "mcp_token_ok c op = (case op of OpTestMcp u t n \<Rightarrow> t \<noteq> api_token c | _ \<Rightarrow> True)"

definition debug_client :: client where
  "debug_client = demo_client\<lparr>debug := True\<rparr>"

section \<open>Lemmas\<close>

inductive_cases sdk_stepE: "sdk_step E c w w'"

lemmas sdk_op_defs = as_json_bool_def as_json_str_def commands_def connections_def users_def add_user_def
  delete_user_def groups_def add_group_def delete_group_def list_field_def request_json_def policies_def
  create_policy_def get_policy_def delete_policy_def file_upload_def upload_parts_def get_file_download_url_def
  file_download_def triggers_def mcp_triggers_def get_trigger_def create_mcp_trigger_def update_mcp_trigger_def
  delete_trigger_def get_mcp_trigger_url_def add_tool_to_mcp_trigger_def remove_tool_from_mcp_trigger_def
  test_mcp_protocol_def

lemma exec_op_masked: "preserves log_masked (exec_op E c op)"
  by (cases op; simp only: exec_op.simps sdk_op_defs;
      intro preserves_intros mcp_post_preserves draw_uuid_preserves; simp add: log_masked_def)

lemma sdk_step_masked: "sdk_step E c w w' \<Longrightarrow> log_masked w \<Longrightarrow> log_masked w'"
  by (erule sdk_stepE) (metis exec_op_masked preserves_def snd_conv)

lemma mcp_post_token_safe:
  "t \<noteq> api_token c \<Longrightarrow> sends_only (token_safe c) (mcp_post E c u t b)"
  by (rule sends_only_mcp_post) (simp add: token_safe_def mcp_request_def mcp_headers_def ci_get_def)

lemma token_safe_wire [simp]: "token_safe c (wire_request c m ep j d f h)"
  by (simp add: token_safe_def wire_request_def)

lemma token_safe_download [simp]: "token_safe c (download_request c u)"
  by (simp add: token_safe_def download_request_def ci_get_def)

lemma exec_op_token_safe: "mcp_token_ok c op \<Longrightarrow> sends_only (token_safe c) (exec_op E c op)"
  by (cases op; simp only: exec_op.simps sdk_op_defs run_def mcp_token_ok_def sdk_op.case;
      intro sends_intros sends_only_request sends_only_draw_uuid mcp_post_token_safe; simp)

section \<open>Properties across components\<close>

text \<open>
  Claim C1: whatever calls a caller makes, in any order and catching any exception, the
  debug log never shows the token: every logged \<open>Authorization\<close> header reads \<open>***\<close>.
\<close>

theorem sdk_reach_log_masked: "sdk_reach E c w0 w \<Longrightarrow> log_masked w0 \<Longrightarrow> log_masked w"
  by (induction rule: sdk_reach.induct) (auto intro: sdk_step_masked)

theorem sdk_reach_log_masked_witness:
  "log_masked (snd (exec_op (const_env (Reply (reply 200 (JObj [])))) debug_client OpCommands world0))"
proof -
  have "sdk_reach (const_env (Reply (reply 200 (JObj [])))) debug_client world0
          (snd (exec_op (const_env (Reply (reply 200 (JObj [])))) debug_client OpCommands world0))"
    by (rule sdk_reach.step [OF sdk_reach.start], rule sdk_step.call [where op = OpCommands], rule prod.collapse [symmetric])
  moreover have "log_masked world0" by (simp add: log_masked_def world0_def)
  ultimately show ?thesis by (rule sdk_reach_log_masked)
qed

text \<open>
  Claim C2: every request of a script of SDK calls that carries the workspace token goes
  to the workspace's base URL: the file download and the MCP tester never send it
  elsewhere, provided the MCP tester is not handed the workspace token itself.
\<close>

theorem run_ops_token_confined:
  "list_all (mcp_token_ok c) ops \<Longrightarrow> sends_only (token_safe c) (run_ops E c ops)"
  by (induction ops) (auto intro!: sends_intros exec_op_token_safe)

theorem run_ops_token_confined_witness:
  "sends_only (token_safe demo_client)
     (run_ops (const_env (Reply (reply 200 (JObj [])))) demo_client
        [OpCommands, OpFileDownload ''r.csv'' None, OpTestMcp ''https://mcp/x'' ''t0k'' None])"
  by (rule run_ops_token_confined) (simp add: mcp_token_ok_def demo_client_def)

end
